theory Spec2Isabelle
  imports Complex_Main "HOL-Library.Sublist" "HOL-Library.Monad_Syntax"
begin

section \<open>JavaScript numbers\<close>

text \<open>
  A TypeScript \<open>number\<close> is a double. The values that matter to the risk engine are the
  finite ones (kept here as exact rationals), the two infinities and NaN. Signed zero is
  not distinguished. Every finite value that the engine adds, divides or compares is an
  integer between 0 and 9, a sum of at most eight of them, or such a sum divided by 8 or
  by 4, all of which a double represents exactly.
\<close>

datatype number = Num rat | NaN | PosInf | NegInf

text \<open>The relational operator \<open>a < b\<close>: false as soon as one side is NaN.\<close>

fun num_lt :: "number \<Rightarrow> number \<Rightarrow> bool" where
  "num_lt NaN b = False"
| "num_lt a NaN = False"
| "num_lt (Num a) (Num b) = (a < b)"
| "num_lt NegInf NegInf = False"
| "num_lt NegInf b = True"
| "num_lt a NegInf = False"
| "num_lt PosInf b = False"
| "num_lt a PosInf = True"

text \<open>\<open>Math.round\<close>: the nearest integer, a tie going up; NaN and the infinities pass.\<close>

fun Math_round :: "number \<Rightarrow> number" where
  "Math_round (Num x) = Num (of_int (round x))"
| "Math_round v = v"

text \<open>\<open>Math.min\<close> and \<open>Math.max\<close> of two arguments: NaN as soon as one of them is NaN.\<close>

definition Math_min :: "number \<Rightarrow> number \<Rightarrow> number" where
  "Math_min a b = (if a = NaN \<or> b = NaN then NaN else if num_lt b a then b else a)"

definition Math_max :: "number \<Rightarrow> number \<Rightarrow> number" where
  "Math_max a b = (if a = NaN \<or> b = NaN then NaN else if num_lt a b then b else a)"

text \<open>The operators \<open>a + b\<close> and \<open>a * b\<close>, and \<open>a / c\<close> for a positive literal \<open>c\<close>.\<close>

fun num_add :: "number \<Rightarrow> number \<Rightarrow> number" where
  "num_add NaN b = NaN"
| "num_add a NaN = NaN"
| "num_add (Num a) (Num b) = Num (a + b)"
| "num_add PosInf NegInf = NaN"
| "num_add NegInf PosInf = NaN"
| "num_add PosInf b = PosInf"
| "num_add a PosInf = PosInf"
| "num_add NegInf b = NegInf"
| "num_add a NegInf = NegInf"

definition num_sign :: "number \<Rightarrow> int" where
  "num_sign a = (case a of Num x \<Rightarrow> (if x < 0 then -1 else if x = 0 then 0 else 1)
                 | PosInf \<Rightarrow> 1 | NegInf \<Rightarrow> -1 | NaN \<Rightarrow> 0)"

fun num_mul :: "number \<Rightarrow> number \<Rightarrow> number" where
  "num_mul NaN b = NaN"
| "num_mul a NaN = NaN"
| "num_mul (Num a) (Num b) = Num (a * b)"
| "num_mul a b =
     (if num_sign a * num_sign b = 0 then NaN
      else if num_sign a * num_sign b > 0 then PosInf else NegInf)"

fun num_div_pos :: "number \<Rightarrow> rat \<Rightarrow> number" where
  "num_div_pos (Num a) c = Num (a / c)"
| "num_div_pos v c = v"

section \<open>The OWASP risk rating engine (owasp-risk-engine.ts)\<close>

record OwaspLikelihood =
  skillLevel :: number
  motive :: number
  opportunity :: number
  size_factor :: number
  easeOfDiscovery :: number
  easeOfExploit :: number
  awareness :: number
  intrusionDetection :: number

record OwaspImpact =
  confidentiality :: number
  integrity :: number
  availability :: number
  accountability :: number

text \<open>
  \<open>Partial<OwaspLikelihood>\<close> and \<open>Partial<OwaspImpact>\<close>: every field may be absent.
  \<open>None\<close> stands for \<open>undefined\<close> and \<open>null\<close>, the two values that \<open>??\<close> replaces.
\<close>

record PartialLikelihood =
  raw_skillLevel :: "number option"
  raw_motive :: "number option"
  raw_opportunity :: "number option"
  raw_size :: "number option"
  raw_easeOfDiscovery :: "number option"
  raw_easeOfExploit :: "number option"
  raw_awareness :: "number option"
  raw_intrusionDetection :: "number option"

record PartialImpact =
  raw_confidentiality :: "number option"
  raw_integrity :: "number option"
  raw_availability :: "number option"
  raw_accountability :: "number option"

datatype RiskLevel = LOW | MEDIUM | HIGH

datatype RiskSeverity = Note | Low | Medium | High | Critical

record OwaspRiskRating =
  likelihood :: OwaspLikelihood
  impact :: OwaspImpact
  likelihoodScore :: number
  impactScore :: number
  likelihoodLevel :: RiskLevel
  impactLevel :: RiskLevel
  riskSeverity :: RiskSeverity
  overallRiskScore :: number

definition clamp :: "number \<Rightarrow> number" where
  "clamp v = Math_max (Num 0) (Math_min (Num 9) (Math_round v))"

definition getLevel :: "number \<Rightarrow> RiskLevel" where
  "getLevel score =
     (if num_lt score (Num 3) then LOW
      else if num_lt score (Num 6) then MEDIUM
      else HIGH)"

text \<open>\<open>RISK_MATRIX[impactLevel][likelihoodLevel]\<close>.\<close>

fun RISK_MATRIX :: "RiskLevel \<Rightarrow> RiskLevel \<Rightarrow> RiskSeverity" where
  "RISK_MATRIX HIGH LOW = Medium"
| "RISK_MATRIX HIGH MEDIUM = High"
| "RISK_MATRIX HIGH HIGH = Critical"
| "RISK_MATRIX MEDIUM LOW = Low"
| "RISK_MATRIX MEDIUM MEDIUM = Medium"
| "RISK_MATRIX MEDIUM HIGH = High"
| "RISK_MATRIX LOW LOW = Note"
| "RISK_MATRIX LOW MEDIUM = Low"
| "RISK_MATRIX LOW HIGH = Medium"

definition getRiskSeverity :: "RiskLevel \<Rightarrow> RiskLevel \<Rightarrow> RiskSeverity" where
  "getRiskSeverity impactLvl likelihoodLvl = RISK_MATRIX impactLvl likelihoodLvl"

text \<open>The operator \<open>a ?? b\<close>.\<close>

definition nullish :: "'a option \<Rightarrow> 'a \<Rightarrow> 'a" where
  "nullish a b = (case a of None \<Rightarrow> b | Some v \<Rightarrow> v)"

definition likelihoodDefaults :: OwaspLikelihood where
  "likelihoodDefaults =
     \<lparr>skillLevel = Num 5, motive = Num 5, opportunity = Num 5, size_factor = Num 5,
      easeOfDiscovery = Num 5, easeOfExploit = Num 5, awareness = Num 5,
      intrusionDetection = Num 5\<rparr>"

definition impactDefaults :: OwaspImpact where
  "impactDefaults =
     \<lparr>confidentiality = Num 5, integrity = Num 5, availability = Num 5,
      accountability = Num 5\<rparr>"

definition validateLikelihood :: "PartialLikelihood option \<Rightarrow> OwaspLikelihood" where
  "validateLikelihood raw =
     (case raw of
        None \<Rightarrow> likelihoodDefaults
      | Some r \<Rightarrow>
          \<lparr>skillLevel = clamp (nullish (raw_skillLevel r) (skillLevel likelihoodDefaults)),
           motive = clamp (nullish (raw_motive r) (motive likelihoodDefaults)),
           opportunity = clamp (nullish (raw_opportunity r) (opportunity likelihoodDefaults)),
           size_factor = clamp (nullish (raw_size r) (size_factor likelihoodDefaults)),
           easeOfDiscovery =
             clamp (nullish (raw_easeOfDiscovery r) (easeOfDiscovery likelihoodDefaults)),
           easeOfExploit =
             clamp (nullish (raw_easeOfExploit r) (easeOfExploit likelihoodDefaults)),
           awareness = clamp (nullish (raw_awareness r) (awareness likelihoodDefaults)),
           intrusionDetection =
             clamp (nullish (raw_intrusionDetection r)
                      (intrusionDetection likelihoodDefaults))\<rparr>)"

definition validateImpact :: "PartialImpact option \<Rightarrow> OwaspImpact" where
  "validateImpact raw =
     (case raw of
        None \<Rightarrow> impactDefaults
      | Some r \<Rightarrow>
          \<lparr>confidentiality =
             clamp (nullish (raw_confidentiality r) (confidentiality impactDefaults)),
           integrity = clamp (nullish (raw_integrity r) (integrity impactDefaults)),
           availability = clamp (nullish (raw_availability r) (availability impactDefaults)),
           accountability =
             clamp (nullish (raw_accountability r) (accountability impactDefaults))\<rparr>)"

text \<open>The two means, before the rounding that only the returned scores receive.\<close>

definition likelihoodMean :: "OwaspLikelihood \<Rightarrow> number" where
  "likelihoodMean l =
     num_div_pos
       (num_add (num_add (num_add (num_add (num_add (num_add (num_add
          (skillLevel l) (motive l)) (opportunity l)) (size_factor l))
          (easeOfDiscovery l)) (easeOfExploit l)) (awareness l)) (intrusionDetection l))
       8"

definition impactMean :: "OwaspImpact \<Rightarrow> number" where
  "impactMean i =
     num_div_pos
       (num_add (num_add (num_add (confidentiality i) (integrity i)) (availability i))
          (accountability i))
       4"

text \<open>\<open>Math.round(x * 100) / 100\<close>.\<close>

definition round2 :: "number \<Rightarrow> number" where
  "round2 x = num_div_pos (Math_round (num_mul x (Num 100))) 100"

definition calculateRiskRating ::
  "PartialLikelihood option \<Rightarrow> PartialImpact option \<Rightarrow> OwaspRiskRating" where
  "calculateRiskRating rawLikelihood rawImpact =
     (let l = validateLikelihood rawLikelihood;
          i = validateImpact rawImpact;
          lScore = likelihoodMean l;
          iScore = impactMean i;
          lLevel = getLevel lScore;
          iLevel = getLevel iScore;
          sev = getRiskSeverity iLevel lLevel
      in \<lparr>likelihood = l, impact = i,
          likelihoodScore = round2 lScore,
          impactScore = round2 iScore,
          likelihoodLevel = lLevel,
          impactLevel = iLevel,
          riskSeverity = sev,
          overallRiskScore = round2 (num_mul lScore iScore)\<rparr>)"

text \<open>The sub-factors of a rating in declaration order, and those of a raw input.\<close>

definition likelihoodFactors :: "OwaspLikelihood \<Rightarrow> number list" where
  "likelihoodFactors l =
     [skillLevel l, motive l, opportunity l, size_factor l, easeOfDiscovery l,
      easeOfExploit l, awareness l, intrusionDetection l]"

definition impactFactors :: "OwaspImpact \<Rightarrow> number list" where
  "impactFactors i = [confidentiality i, integrity i, availability i, accountability i]"

definition rawLikelihoodFactors :: "PartialLikelihood option \<Rightarrow> number option list" where
  "rawLikelihoodFactors raw =
     (case raw of
        None \<Rightarrow> replicate 8 None
      | Some r \<Rightarrow>
          [raw_skillLevel r, raw_motive r, raw_opportunity r, raw_size r,
           raw_easeOfDiscovery r, raw_easeOfExploit r, raw_awareness r,
           raw_intrusionDetection r])"

definition rawImpactFactors :: "PartialImpact option \<Rightarrow> number option list" where
  "rawImpactFactors raw =
     (case raw of
        None \<Rightarrow> replicate 4 None
      | Some r \<Rightarrow>
          [raw_confidentiality r, raw_integrity r, raw_availability r,
           raw_accountability r])"

text \<open>An integer between 0 and 9.\<close>

definition isFactorValue :: "number \<Rightarrow> bool" where
  "isFactorValue v =
     (case v of Num x \<Rightarrow> x = of_int \<lfloor>x\<rfloor> \<and> 0 \<le> x \<and> x \<le> 9 | _ \<Rightarrow> False)"

text \<open>Concrete raw inputs used below.\<close>

definition rawL_example :: PartialLikelihood where
  "rawL_example =
     \<lparr>raw_skillLevel = Some (Num 12), raw_motive = None, raw_opportunity = Some (Num (7 / 2)),
      raw_size = Some NegInf, raw_easeOfDiscovery = Some PosInf,
      raw_easeOfExploit = Some (Num (- 3)), raw_awareness = Some (Num 0),
      raw_intrusionDetection = Some (Num (62 / 10))\<rparr>"

definition rawI_example :: PartialImpact where
  "rawI_example =
     \<lparr>raw_confidentiality = Some (Num 9), raw_integrity = None,
      raw_availability = Some (Num (1 / 4)), raw_accountability = Some (Num 7)\<rparr>"

definition rawL_nan :: PartialLikelihood where
  "rawL_nan =
     \<lparr>raw_skillLevel = Some NaN, raw_motive = None, raw_opportunity = None,
      raw_size = None, raw_easeOfDiscovery = None, raw_easeOfExploit = None,
      raw_awareness = None, raw_intrusionDetection = None\<rparr>"

section \<open>Strings\<close>

text \<open>
  A JavaScript string is kept as a \<open>string\<close>, one \<open>char\<close> for each code unit; the
  model follows ASCII text. Code units from 128 on are taken as opaque: neither white
  space nor letters with a case. The arrow of three string literals in the fallback
  generator lies outside ASCII; it is written here as its three UTF-8 bytes.
\<close>

definition arrow :: string where
  "arrow = [CHR 0xE2, CHR 0x86, CHR 0x92]"

definition isWhiteSpace :: "char \<Rightarrow> bool" where
  "isWhiteSpace c = (c \<in> set [CHR 0x09, CHR 0x0A, CHR 0x0B, CHR 0x0C, CHR 0x0D, CHR '' ''])"

definition trim :: "string \<Rightarrow> string" where
  "trim s = rev (dropWhile isWhiteSpace (rev (dropWhile isWhiteSpace s)))"

definition toLowerChar :: "char \<Rightarrow> char" where
  "toLowerChar c =
     (case map_of (zip ''ABCDEFGHIJKLMNOPQRSTUVWXYZ'' ''abcdefghijklmnopqrstuvwxyz'') c of
        Some l \<Rightarrow> l | None \<Rightarrow> c)"

definition toLowerCase :: "string \<Rightarrow> string" where
  "toLowerCase s = map toLowerChar s"

definition endsWith :: "string \<Rightarrow> string \<Rightarrow> bool" where
  "endsWith s p = prefix (rev p) (rev s)"

text \<open>\<open>s.includes(sub)\<close>.\<close>

fun str_includes :: "string \<Rightarrow> string \<Rightarrow> bool" where
  "str_includes [] sub = (sub = [])"
| "str_includes (c # cs) sub = (prefix sub (c # cs) \<or> str_includes cs sub)"

text \<open>A regular expression that is an alternation of literals, tested with the flag \<open>i\<close>.\<close>

definition includesAnyCI :: "string \<Rightarrow> string list \<Rightarrow> bool" where
  "includesAnyCI s alts = list_ex (\<lambda>a. str_includes (toLowerCase s) a) alts"

definition endsWithAny :: "string \<Rightarrow> string list \<Rightarrow> bool" where
  "endsWithAny s alts = list_ex (\<lambda>a. endsWith s a) alts"

text \<open>\<open>s.split(sep)\<close> for a separator of one character: never an empty list.\<close>

fun splitOn :: "char \<Rightarrow> string \<Rightarrow> string list" where
  "splitOn sep [] = [[]]"
| "splitOn sep (c # cs) =
     (if c = sep then [] # splitOn sep cs
      else (case splitOn sep cs of p # ps \<Rightarrow> (c # p) # ps | [] \<Rightarrow> [[c]]))"

text \<open>\<open>String(n)\<close> for a natural number.\<close>

definition digitChar :: "nat \<Rightarrow> char" where
  "digitChar d = (''0123456789'' ! (d mod 10))"

fun showNat :: "nat \<Rightarrow> string" where
  "showNat n = (if n < 10 then [digitChar n] else showNat (n div 10) @ [digitChar (n mod 10)])"

text \<open>
  \<open>path.extname\<close>: from the last dot of the last path segment to its end; empty when
  there is no dot, when the only dot is the first character of the segment, and for the
  segment \<open>..\<close>.
\<close>

definition basename :: "string \<Rightarrow> string" where
  "basename p = last (splitOn (CHR ''/'') p)"

definition extname :: "string \<Rightarrow> string" where
  "extname p =
     (let b = basename p; parts = splitOn (CHR ''.'') b
      in if length parts < 2 \<or> b = ''..'' \<or> (length parts = 2 \<and> hd parts = [])
         then [] else CHR ''.'' # last parts)"

section \<open>The repository analyzer (repo-analyzer.ts)\<close>

datatype ComponentType = Api | Service | Database | Queue | Gateway | External | Frontend | Config

record ComponentInfo =
  c_name :: string
  c_type :: ComponentType
  c_files :: "string list"
  c_description :: string

record DataFlow =
  flow_from :: string
  flow_to :: string
  protocol :: string
  dataType :: string

record TrustBoundary =
  tb_name :: string
  tb_components :: "string list"

record SecurityFinding =
  sf_file :: string
  sf_line :: nat
  sf_pattern :: string
  sf_snippet :: string
  sf_severity :: RiskSeverity

record RepoAnalysis =
  repoUrl :: string
  languages :: "string list"
  frameworks :: "string list"
  components :: "ComponentInfo list"
  dataFlows :: "DataFlow list"
  trustBoundaries :: "TrustBoundary list"
  securityFindings :: "SecurityFinding list"
  fileTree :: "string list"
  entryPoints :: "string list"

text \<open>
  A detector of \<open>SECURITY_PATTERNS\<close>. Its regular expression is run by the JavaScript
  engine, which the model takes as a parameter \<open>rx\<close>: \<open>rx name content\<close> is the list of
  the \<open>match.index\<close> values that successive calls of \<open>pattern.exec(content)\<close> return,
  starting from \<open>lastIndex = 0\<close>, before \<open>exec\<close> returns \<open>null\<close>.
\<close>

record SecurityPattern =
  sp_name :: string
  sp_severity :: RiskSeverity
  sp_description :: string

type_synonym regex_engine = "string \<Rightarrow> string \<Rightarrow> nat list"

definition SECURITY_PATTERNS :: "SecurityPattern list" where
  "SECURITY_PATTERNS =
     [\<lparr>sp_name = ''hardcoded_secret'', sp_severity = Critical,
       sp_description = ''Hardcoded secret or API key found''\<rparr>,
      \<lparr>sp_name = ''sql_concatenation'', sp_severity = Critical,
       sp_description = ''Potential SQL injection via string concatenation''\<rparr>,
      \<lparr>sp_name = ''eval_usage'', sp_severity = High,
       sp_description = ''Use of eval/exec which may allow code injection''\<rparr>,
      \<lparr>sp_name = ''missing_https'', sp_severity = Medium,
       sp_description = ''Non-HTTPS URL found (potential cleartext transmission)''\<rparr>,
      \<lparr>sp_name = ''command_injection'', sp_severity = High,
       sp_description = ''System command execution (potential command injection)''\<rparr>,
      \<lparr>sp_name = ''cors_wildcard'', sp_severity = Medium,
       sp_description = ''CORS wildcard configuration''\<rparr>,
      \<lparr>sp_name = ''debug_enabled'', sp_severity = Low,
       sp_description = ''Debug mode enabled''\<rparr>,
      \<lparr>sp_name = ''no_auth_check'', sp_severity = High,
       sp_description = ''Route handler potentially missing authentication''\<rparr>,
      \<lparr>sp_name = ''insecure_deserialization'', sp_severity = High,
       sp_description = ''Potentially insecure deserialization''\<rparr>,
      \<lparr>sp_name = ''weak_crypto'', sp_severity = Medium,
       sp_description = ''Weak cryptographic algorithm usage''\<rparr>]"

text \<open>
  The file system under the clone directory: the content of a file by its relative
  path, \<open>None\<close> where \<open>fs.readFileSync\<close> throws.
\<close>

type_synonym file_system = "string \<Rightarrow> string option"

subsection \<open>scanSecurity\<close>

definition codeExtensions :: "string list" where
  "codeExtensions =
     [''.ts'', ''.tsx'', ''.js'', ''.jsx'', ''.py'', ''.go'', ''.rs'', ''.java'',
      ''.cs'', ''.c'', ''.cpp'', ''.rb'', ''.php'', ''.yaml'', ''.yml'', ''.json'',
      ''.env'', ''.cfg'', ''.conf'', ''.ini'', ''.toml'']"

text \<open>The finding pushed for the match at offset \<open>idx\<close>.\<close>

definition mkFinding :: "string \<Rightarrow> string \<Rightarrow> SecurityPattern \<Rightarrow> nat \<Rightarrow> SecurityFinding" where
  "mkFinding relFile content pat idx =
     (let lines = splitOn (CHR 0x0A) content;
          upToMatch = take idx content;
          lineNum = length (splitOn (CHR 0x0A) upToMatch);
          snippetLine = (if lineNum - 1 < length lines then lines ! (lineNum - 1) else [])
      in \<lparr>sf_file = relFile, sf_line = lineNum, sf_pattern = sp_name pat,
          sf_snippet = take 200 (trim snippetLine), sf_severity = sp_severity pat\<rparr>)"

text \<open>
  The \<open>while\<close> loop over the matches of one detector: push the finding, then leave the
  loop when the findings of this file number 10 or more.
\<close>

fun scanMatches ::
  "string \<Rightarrow> string \<Rightarrow> SecurityPattern \<Rightarrow> nat list \<Rightarrow> SecurityFinding list
     \<Rightarrow> SecurityFinding list" where
  "scanMatches relFile content pat [] findings = findings"
| "scanMatches relFile content pat (idx # rest) findings =
     (let findings' = findings @ [mkFinding relFile content pat idx]
      in if length (filter (\<lambda>f. sf_file f = relFile) findings') \<ge> 10 then findings'
         else scanMatches relFile content pat rest findings')"

text \<open>The \<open>for\<close> loop over the detectors, for one file.\<close>

fun scanPatterns ::
  "regex_engine \<Rightarrow> string \<Rightarrow> string \<Rightarrow> SecurityPattern list \<Rightarrow> SecurityFinding list
     \<Rightarrow> SecurityFinding list" where
  "scanPatterns rx relFile content [] findings = findings"
| "scanPatterns rx relFile content (pat # pats) findings =
     scanPatterns rx relFile content pats
       (scanMatches relFile content pat (rx (sp_name pat) content) findings)"

text \<open>The body of the loop over the files.\<close>

definition scanFile ::
  "regex_engine \<Rightarrow> file_system \<Rightarrow> string \<Rightarrow> SecurityFinding list \<Rightarrow> SecurityFinding list" where
  "scanFile rx fs relFile findings =
     (let ext = toLowerCase (extname relFile)
      in if ext \<notin> set codeExtensions \<and> \<not> str_includes relFile ''.env'' then findings
         else (case fs relFile of
                 None \<Rightarrow> findings
               | Some content \<Rightarrow> scanPatterns rx relFile content SECURITY_PATTERNS findings))"

fun scanFiles ::
  "regex_engine \<Rightarrow> file_system \<Rightarrow> string list \<Rightarrow> SecurityFinding list \<Rightarrow> SecurityFinding list" where
  "scanFiles rx fs [] findings = findings"
| "scanFiles rx fs (relFile # files) findings =
     scanFiles rx fs files (scanFile rx fs relFile findings)"

definition scanSecurity :: "regex_engine \<Rightarrow> file_system \<Rightarrow> string list \<Rightarrow> SecurityFinding list" where
  "scanSecurity rx fs files = scanFiles rx fs files []"

text \<open>The findings of one file, and those of one detector in one file.\<close>

definition findingsOfFile :: "string \<Rightarrow> SecurityFinding list \<Rightarrow> SecurityFinding list" where
  "findingsOfFile f findings = filter (\<lambda>x. sf_file x = f) findings"

definition findingsOfPair :: "string \<Rightarrow> string \<Rightarrow> SecurityFinding list \<Rightarrow> SecurityFinding list" where
  "findingsOfPair f p findings = filter (\<lambda>x. sf_file x = f \<and> sf_pattern x = p) findings"

text \<open>The file passes the extension test at the head of the loop body.\<close>

definition isScanned :: "string \<Rightarrow> bool" where
  "isScanned relFile =
     (toLowerCase (extname relFile) \<in> set codeExtensions \<or> str_includes relFile ''.env'')"

subsection \<open>extractArchitecture\<close>

definition isApiFile :: "string \<Rightarrow> bool" where
  "isApiFile f =
     (includesAnyCI f
        [''route/'', ''routes/'', ''controller/'', ''controllers/'', ''handler/'',
         ''handlers/'', ''api/'', ''endpoint/'', ''endpoints/'']
      \<or> endsWithAny (toLowerCase f)
          (concat (map (\<lambda>stem. map (\<lambda>ext. stem @ ext) [''.ts'', ''.js'', ''.py'', ''.go''])
             [''route'', ''routes'', ''controller'', ''controllers'', ''handler'',
              ''handlers''])))"

definition isFrontendFile :: "string \<Rightarrow> bool" where
  "isFrontendFile f =
     (includesAnyCI f
        [''page/'', ''pages/'', ''view/'', ''views/'', ''component/'', ''components/'',
         ''screen/'', ''screens/'']
      \<and> endsWithAny f [''.ts'', ''.tsx'', ''.js'', ''.jsx''])"

definition dbPatterns :: "string list" where
  "dbPatterns =
     [''mongoose'', ''sequelize'', ''prisma'', ''typeorm'', ''knex'', ''sqlalchemy'',
      ''gorm'', ''diesel'', ''pg'', ''mysql'', ''mongodb'', ''redis'']"

definition queuePatterns :: "string list" where
  "queuePatterns =
     [''mqtt'', ''kafka'', ''rabbitmq'', ''sqs'', ''pubsub'', ''amqp'', ''bull'',
      ''celery'', ''nats'']"

text \<open>The content sniff: an unreadable file does not match.\<close>

definition contentMatches :: "file_system \<Rightarrow> string list \<Rightarrow> string \<Rightarrow> bool" where
  "contentMatches fs alts f =
     (case fs f of None \<Rightarrow> False | Some content \<Rightarrow> includesAnyCI content alts)"

definition isAuthFile :: "string \<Rightarrow> bool" where
  "isAuthFile f =
     includesAnyCI f
       [''auth'', ''login'', ''session'', ''jwt'', ''oauth'', ''passport'', ''guard'']"

definition isInfraFile :: "string \<Rightarrow> bool" where
  "isInfraFile f =
     (includesAnyCI f [''dockerfile'', ''docker-compose'', ''cloudformation'', ''k8s'', ''helm'']
      \<or> endsWith (toLowerCase f) ''.tf''
      \<or> endsWith f ''.env'' \<or> endsWith f ''.env.example'')"

definition isGatewayFile :: "string \<Rightarrow> bool" where
  "isGatewayFile f =
     includesAnyCI f
       [''gateway'', ''proxy'', ''nginx'', ''haproxy'', ''envoy'', ''middleware'']"

definition isSrcFile :: "string \<Rightarrow> bool" where
  "isSrcFile f =
     endsWithAny f
       [''.ts'', ''.js'', ''.py'', ''.go'', ''.rs'', ''.java'', ''.cs'', ''.rb'', ''.php'']"

text \<open>One detected category: a component over the first \<open>n\<close> matching files, if any.\<close>

definition detected ::
  "string list \<Rightarrow> string \<Rightarrow> ComponentType \<Rightarrow> nat \<Rightarrow> string \<Rightarrow> ComponentInfo list" where
  "detected matching nm ty n descr =
     (if length matching > 0
      then [\<lparr>c_name = nm, c_type = ty, c_files = take n matching, c_description = descr\<rparr>]
      else [])"

text \<open>The components pushed before the synthetic external entity.\<close>

definition classifiedComponents :: "file_system \<Rightarrow> string list \<Rightarrow> ComponentInfo list" where
  "classifiedComponents fs files =
     (let apiFiles = filter isApiFile files;
          frontendFiles = filter isFrontendFile files;
          dbFiles = filter (contentMatches fs dbPatterns) files;
          queueFiles = filter (contentMatches fs queuePatterns) files;
          authFiles = filter isAuthFile files;
          infraFiles = filter isInfraFile files;
          gatewayFiles = filter isGatewayFile files;
          classified =
            detected apiFiles ''API Server'' Api 20
              (''API layer with '' @ showNat (length apiFiles) @ '' route/controller files'')
            @ detected frontendFiles ''Frontend Application'' Frontend 20
              (''Frontend with '' @ showNat (length frontendFiles) @ '' component/page files'')
            @ detected dbFiles ''Database'' Database 10 ''Data persistence layer''
            @ detected queueFiles ''Message Queue'' Queue 10 ''Asynchronous messaging layer''
            @ detected authFiles ''Auth Service'' Service 10
              ''Authentication and authorization service''
            @ detected infraFiles ''Infrastructure'' Config 10
              ''Infrastructure and configuration files''
            @ detected gatewayFiles ''API Gateway'' Gateway 10 ''API gateway or reverse proxy'';
          srcFiles = filter isSrcFile files
      in if length classified = 0
         then [\<lparr>c_name = ''Application'', c_type = Service, c_files = take 20 srcFiles,
                c_description =
                  ''Application with '' @ showNat (length srcFiles) @ '' source files''\<rparr>]
         else classified)"

definition endUser :: ComponentInfo where
  "endUser =
     \<lparr>c_name = ''End User'', c_type = External, c_files = [],
      c_description = ''External user accessing the application''\<rparr>"

definition mkFlow :: "string \<Rightarrow> string \<Rightarrow> string \<Rightarrow> string \<Rightarrow> DataFlow" where
  "mkFlow a b p d = \<lparr>flow_from = a, flow_to = b, protocol = p, dataType = d\<rparr>"

text \<open>\<open>components.find(pred)\<close> used as a condition.\<close>

definition isFound :: "('a \<Rightarrow> bool) \<Rightarrow> 'a list \<Rightarrow> bool" where
  "isFound pred xs = (find pred xs \<noteq> None)"

text \<open>The data flows, from the components classified so far.\<close>

definition buildDataFlows :: "ComponentInfo list \<Rightarrow> DataFlow list" where
  "buildDataFlows comps =
     (let hasApi = isFound (\<lambda>c. c_type c = Api) comps;
          hasDb = isFound (\<lambda>c. c_type c = Database) comps;
          hasQueue = isFound (\<lambda>c. c_type c = Queue) comps;
          hasAuth = isFound (\<lambda>c. c_name c = ''Auth Service'') comps;
          hasFrontend = isFound (\<lambda>c. c_type c = Frontend) comps;
          hasGateway = isFound (\<lambda>c. c_type c = Gateway) comps
      in (if hasFrontend \<and> hasApi
          then [mkFlow ''End User'' ''Frontend Application'' ''HTTPS'' ''User Requests'',
                mkFlow ''Frontend Application'' ''API Server'' ''HTTPS/REST'' ''API Calls'']
          else if hasApi
          then [mkFlow ''End User'' (if hasGateway then ''API Gateway'' else ''API Server'')
                  ''HTTPS'' ''API Requests'']
          else [])
         @ (if hasGateway \<and> hasApi
            then [mkFlow ''API Gateway'' ''API Server'' ''HTTP/Internal'' ''Proxied Requests'']
            else [])
         @ (if hasAuth \<and> hasApi
            then [mkFlow ''API Server'' ''Auth Service'' ''Internal'' ''Auth Tokens'']
            else [])
         @ (if hasApi \<and> hasDb
            then [mkFlow ''API Server'' ''Database'' ''TCP'' ''Queries/Data'']
            else [])
         @ (if hasAuth \<and> hasDb
            then [mkFlow ''Auth Service'' ''Database'' ''TCP'' ''User Credentials'']
            else [])
         @ (if hasQueue \<and> hasApi
            then [mkFlow ''API Server'' ''Message Queue'' ''AMQP/MQTT'' ''Events/Commands'']
            else []))"

definition buildTrustBoundaries :: "ComponentInfo list \<Rightarrow> TrustBoundary list" where
  "buildTrustBoundaries comps =
     (let internalComponents = map c_name (filter (\<lambda>c. c_type c \<noteq> External) comps);
          externalComponents = map c_name (filter (\<lambda>c. c_type c = External) comps)
      in (if length internalComponents > 0
          then [\<lparr>tb_name = ''Application Boundary'', tb_components = internalComponents\<rparr>]
          else [])
         @ (if length externalComponents > 0
            then [\<lparr>tb_name = ''External'', tb_components = externalComponents\<rparr>]
            else [])
         @ (case find (\<lambda>c. c_type c = Config) comps of
              Some infraComponent \<Rightarrow>
                [\<lparr>tb_name = ''Infrastructure'', tb_components = [c_name infraComponent]\<rparr>]
            | None \<Rightarrow> []))"

record Architecture =
  arch_components :: "ComponentInfo list"
  arch_dataFlows :: "DataFlow list"
  arch_trustBoundaries :: "TrustBoundary list"

definition extractArchitecture :: "file_system \<Rightarrow> string list \<Rightarrow> Architecture" where
  "extractArchitecture fs files =
     (let classified = classifiedComponents fs files;
          comps = classified @ [endUser]
      in \<lparr>arch_components = comps,
          arch_dataFlows = buildDataFlows classified,
          arch_trustBoundaries = buildTrustBoundaries comps\<rparr>)"

text \<open>The endpoints of a flow, and the presence of a component of a type or a name.\<close>

definition endpoints :: "DataFlow \<Rightarrow> string \<times> string" where
  "endpoints d = (flow_from d, flow_to d)"

definition hasType :: "ComponentInfo list \<Rightarrow> ComponentType \<Rightarrow> bool" where
  "hasType comps t = list_ex (\<lambda>c. c_type c = t) comps"

definition hasName :: "ComponentInfo list \<Rightarrow> string \<Rightarrow> bool" where
  "hasName comps n = list_ex (\<lambda>c. c_name c = n) comps"

subsection \<open>Notions used in the statements about the analyzer\<close>

text \<open>A file system in which no file can be read.\<close>

definition unreadable :: file_system where
  "unreadable p = None"

text \<open>No file matches any heuristic of the classification.\<close>

definition nothingDetected :: "file_system \<Rightarrow> string list \<Rightarrow> bool" where
  "nothingDetected fs files =
     (filter isApiFile files = [] \<and> filter isFrontendFile files = []
      \<and> filter (contentMatches fs dbPatterns) files = []
      \<and> filter (contentMatches fs queuePatterns) files = []
      \<and> filter isAuthFile files = [] \<and> filter isInfraFile files = []
      \<and> filter isGatewayFile files = [])"

text \<open>
  The rule table as the claim C7 words it, by endpoints: frontend to API if both exist,
  else End User to the gateway if present and to the API otherwise; then the five
  conditional rules.
\<close>

definition claimedFlowEndpoints :: "ComponentInfo list \<Rightarrow> (string \<times> string) list" where
  "claimedFlowEndpoints comps =
     (let hasApi = hasType comps Api;
          hasDb = hasType comps Database;
          hasQueue = hasType comps Queue;
          hasAuth = hasName comps ''Auth Service'';
          hasFrontend = hasType comps Frontend;
          hasGateway = hasType comps Gateway
      in (if hasFrontend \<and> hasApi then [(''Frontend Application'', ''API Server'')]
          else [(''End User'', if hasGateway then ''API Gateway'' else ''API Server'')])
         @ (if hasGateway \<and> hasApi then [(''API Gateway'', ''API Server'')] else [])
         @ (if hasAuth \<and> hasApi then [(''API Server'', ''Auth Service'')] else [])
         @ (if hasApi \<and> hasDb then [(''API Server'', ''Database'')] else [])
         @ (if hasAuth \<and> hasDb then [(''Auth Service'', ''Database'')] else [])
         @ (if hasQueue \<and> hasApi then [(''API Server'', ''Message Queue'')] else []))"

text \<open>The rule table that the code evaluates, by the presence of each kind of component.\<close>

definition flowTable :: "bool \<Rightarrow> bool \<Rightarrow> bool \<Rightarrow> bool \<Rightarrow> bool \<Rightarrow> bool \<Rightarrow> DataFlow list" where
  "flowTable hasApi hasDb hasQueue hasAuth hasFrontend hasGateway =
     (if hasFrontend \<and> hasApi
      then [mkFlow ''End User'' ''Frontend Application'' ''HTTPS'' ''User Requests'',
            mkFlow ''Frontend Application'' ''API Server'' ''HTTPS/REST'' ''API Calls'']
      else if hasApi
      then [mkFlow ''End User'' (if hasGateway then ''API Gateway'' else ''API Server'')
              ''HTTPS'' ''API Requests'']
      else [])
     @ (if hasGateway \<and> hasApi
        then [mkFlow ''API Gateway'' ''API Server'' ''HTTP/Internal'' ''Proxied Requests'']
        else [])
     @ (if hasAuth \<and> hasApi
        then [mkFlow ''API Server'' ''Auth Service'' ''Internal'' ''Auth Tokens'']
        else [])
     @ (if hasApi \<and> hasDb
        then [mkFlow ''API Server'' ''Database'' ''TCP'' ''Queries/Data'']
        else [])
     @ (if hasAuth \<and> hasDb
        then [mkFlow ''Auth Service'' ''Database'' ''TCP'' ''User Credentials'']
        else [])
     @ (if hasQueue \<and> hasApi
        then [mkFlow ''API Server'' ''Message Queue'' ''AMQP/MQTT'' ''Events/Commands'']
        else [])"

text \<open>
  How many findings the loop over the matches of one detector pushes, when the file has
  \<open>c\<close> findings already and the detector has \<open>m\<close> matches.
\<close>

definition pushCount :: "nat \<Rightarrow> nat \<Rightarrow> nat" where
  "pushCount c m = (if m = 0 then 0 else min m (max 1 (10 - c)))"

text \<open>The detectors registered before the one named \<open>p\<close>, and the others.\<close>

definition detectorsBefore :: "string \<Rightarrow> SecurityPattern list" where
  "detectorsBefore p = takeWhile (\<lambda>q. sp_name q \<noteq> p) SECURITY_PATTERNS"

definition detectorsOtherThan :: "string \<Rightarrow> SecurityPattern list" where
  "detectorsOtherThan p = filter (\<lambda>q. sp_name q \<noteq> p) SECURITY_PATTERNS"

definition detectorNames :: "string list" where
  "detectorNames = map sp_name SECURITY_PATTERNS"

text \<open>A regular expression engine and a file for the concrete runs below.\<close>

definition rxExample :: regex_engine where
  "rxExample name content =
     (if name = ''hardcoded_secret'' then [0, 22, 44]
      else if name = ''eval_usage'' then [66, 74, 82, 90, 98, 106, 114, 122, 130, 138, 146]
      else [])"

definition contentExample :: string where
  \<open>contentExample =
     concat (replicate 3 (''password = "12345678"'' @ [CHR 0x0A]))
     @ concat (replicate 11 (''eval(x)'' @ [CHR 0x0A]))\<close>

definition fsExample :: file_system where
  "fsExample p = (if p = ''src/util.js'' then Some contentExample else None)"

text \<open>A file whose only matches are eleven calls of \<open>eval\<close>.\<close>

definition rxEvalOnly :: regex_engine where
  "rxEvalOnly name content =
     (if name = ''eval_usage'' then [0, 8, 16, 24, 32, 40, 48, 56, 64, 72, 80] else [])"

definition evalContent :: string where
  "evalContent = concat (replicate 11 (''eval(x)'' @ [CHR 0x0A]))"

definition fsEvalOnly :: file_system where
  "fsEvalOnly p = (if p = ''src/util.js'' then Some evalContent else None)"

text \<open>
  A file with eleven calls of \<open>eval\<close> and one of \<open>md5\<close>, and the matches of the
  detectors in it.
\<close>

definition evalMd5Content :: string where
  "evalMd5Content = concat (replicate 11 (''eval(x)'' @ [CHR 0x0A])) @ ''md5(x)'' @ [CHR 0x0A]"

definition rxEvalMd5 :: regex_engine where
  "rxEvalMd5 name content =
     (if name = ''eval_usage'' then [0, 8, 16, 24, 32, 40, 48, 56, 64, 72, 80]
      else if name = ''weak_crypto'' then [88]
      else [])"

definition fsEvalMd5 :: file_system where
  "fsEvalMd5 p = (if p = ''src/util.js'' then Some evalMd5Content else None)"

section \<open>JSON values and the JavaScript runtime\<close>

datatype json =
  JNull | JBool bool | JNumber number | JString string | JArray "json list"
  | JObject "(string \<times> json) list"

text \<open>A thrown error: its name and its message.\<close>

datatype js_error = JsError string string

text \<open>\<open>Error.prototype.toString\<close>, which a template literal applies to an error.\<close>

fun errorToString :: "js_error \<Rightarrow> string" where
  "errorToString (JsError nm msg) =
     (if nm = [] then msg else if msg = [] then nm else nm @ '': '' @ msg)"

text \<open>
  What the runtime provides and the repository does not define: \<open>JSON.parse\<close> (an error
  stands for the thrown SyntaxError), the conversion of a number to a string, and the
  conversion of a string to a number.
\<close>

record runtime =
  JSON_parse :: "string \<Rightarrow> js_error + json"
  Number_toString :: "number \<Rightarrow> string"
  StringToNumber :: "string \<Rightarrow> number"

text \<open>
  Reading a property of a value that is not \<open>null\<close>: an own property of an object,
  \<open>undefined\<close> (here \<open>None\<close>) for the property names read by this code on any other value.
\<close>

fun getProp :: "json \<Rightarrow> string \<Rightarrow> json option" where
  "getProp (JObject kvs) k = map_of kvs k"
| "getProp v k = None"

text \<open>Truthiness of a value that may be \<open>undefined\<close>.\<close>

fun truthy :: "json option \<Rightarrow> bool" where
  "truthy None = False"
| "truthy (Some JNull) = False"
| "truthy (Some (JBool b)) = b"
| "truthy (Some (JNumber n)) = (n \<noteq> Num 0 \<and> n \<noteq> NaN)"
| "truthy (Some (JString s)) = (s \<noteq> [])"
| "truthy (Some v) = True"

text \<open>\<open>xs.join(sep)\<close> on strings.\<close>

fun joinWith :: "string \<Rightarrow> string list \<Rightarrow> string" where
  "joinWith sep [] = []"
| "joinWith sep [x] = x"
| "joinWith sep (x # y # ys) = x @ sep @ joinWith sep (y # ys)"

text \<open>
  A conversion of a value to a string or to a number can throw a TypeError: it does when
  the value is an object with an own property \<open>toString\<close> (which is not callable and
  hides the inherited method), or an array that holds such an object. \<open>None\<close> stands
  for the thrown error.
\<close>

fun allOrNone :: "'a option list \<Rightarrow> 'a list option" where
  "allOrNone [] = Some []"
| "allOrNone (None # xs) = None"
| "allOrNone (Some x # xs) = (case allOrNone xs of None \<Rightarrow> None | Some ys \<Rightarrow> Some (x # ys))"

text \<open>\<open>String(v)\<close>; in the string of an array, \<open>null\<close> elements are empty.\<close>

fun toStr :: "runtime \<Rightarrow> json \<Rightarrow> string option" where
  "toStr rt JNull = Some ''null''"
| "toStr rt (JBool b) = Some (if b then ''true'' else ''false'')"
| "toStr rt (JNumber n) = Some (Number_toString rt n)"
| "toStr rt (JString s) = Some s"
| "toStr rt (JArray xs) =
     map_option (joinWith '','')
       (allOrNone (map (\<lambda>x. if x = JNull then Some [] else toStr rt x) xs))"
| "toStr rt (JObject kvs) =
     (if ''toString'' \<in> fst ` set kvs then None else Some ''[object Object]'')"

text \<open>The conversion to a number that \<open>Math.round\<close> applies to its argument.\<close>

fun toNumber :: "runtime \<Rightarrow> json \<Rightarrow> number option" where
  "toNumber rt JNull = Some (Num 0)"
| "toNumber rt (JBool b) = Some (if b then Num 1 else Num 0)"
| "toNumber rt (JNumber n) = Some n"
| "toNumber rt (JString s) = Some (StringToNumber rt s)"
| "toNumber rt (JArray xs) = map_option (StringToNumber rt) (toStr rt (JArray xs))"
| "toNumber rt (JObject kvs) = (if ''toString'' \<in> fst ` set kvs then None else Some NaN)"

section \<open>The response parser (threat-generator.ts)\<close>

datatype StrideCategory =
  Spoofing | Tampering | Repudiation | InformationDisclosure | DenialOfService
  | ElevationOfPrivilege

fun strideName :: "StrideCategory \<Rightarrow> string" where
  "strideName Spoofing = ''Spoofing''"
| "strideName Tampering = ''Tampering''"
| "strideName Repudiation = ''Repudiation''"
| "strideName InformationDisclosure = ''Information Disclosure''"
| "strideName DenialOfService = ''Denial of Service''"
| "strideName ElevationOfPrivilege = ''Elevation of Privilege''"

record Mitigation =
  description :: string
  codeFile :: "string option"
  codeLine :: "number option"
  codeOriginal :: "string option"
  codeFixed :: "string option"

record GeneratedThreat =
  title :: string
  strideCategory :: StrideCategory
  severity :: RiskSeverity
  threatSource :: string
  prerequisites :: string
  threatAction :: string
  threatImpact :: string
  impactedAssets :: "string list"
  trustBoundary :: string
  assumptions :: "string list"
  mitigations :: "Mitigation list"
  relatedCve :: "string option"
  owaspLikelihood :: "OwaspLikelihood option"
  owaspImpact :: "OwaspImpact option"

subsection \<open>repairTruncatedJsonArray\<close>

record scan_state =
  depth :: int
  inString :: bool
  escape :: bool
  lastCompleteObjectEnd :: int

definition scanInit :: scan_state where
  "scanInit = \<lparr>depth = 0, inString = False, escape = False, lastCompleteObjectEnd = - 1\<rparr>"

text \<open>One turn of the loop, on the character \<open>ch\<close> at offset \<open>i\<close>.\<close>

definition scanStep :: "nat \<Rightarrow> char \<Rightarrow> scan_state \<Rightarrow> scan_state" where
  "scanStep i ch st =
     (if escape st then st\<lparr>escape := False\<rparr>
      else if ch = CHR 0x5C then st\<lparr>escape := True\<rparr>
      else if ch = CHR 0x22 then st\<lparr>inString := \<not> inString st\<rparr>
      else if inString st then st
      else
        (let st1 = (if ch = CHR ''['' \<or> ch = CHR ''{'' then st\<lparr>depth := depth st + 1\<rparr> else st)
         in if ch = CHR '']'' \<or> ch = CHR ''}''
            then (let st2 = st1\<lparr>depth := depth st1 - 1\<rparr>
                  in if depth st2 = 1 \<and> ch = CHR ''}''
                     then st2\<lparr>lastCompleteObjectEnd := int i\<rparr> else st2)
            else st1))"

text \<open>The loop from offset \<open>i\<close> over the characters that remain.\<close>

fun scanFrom :: "nat \<Rightarrow> string \<Rightarrow> scan_state \<Rightarrow> scan_state" where
  "scanFrom i [] st = st"
| "scanFrom i (ch # rest) st = scanFrom (Suc i) rest (scanStep i ch st)"

definition repairTruncatedJsonArray :: "string \<Rightarrow> js_error + string" where
  "repairTruncatedJsonArray jsonStr =
     (let st = scanFrom 0 jsonStr scanInit
      in if lastCompleteObjectEnd st > 0
         then Inr (take (nat (lastCompleteObjectEnd st + 1)) jsonStr @ '']'')
         else Inl (JsError ''Error''
                ''Could not find any complete objects in truncated JSON''))"

subsection \<open>validateThreat\<close>

definition validStride :: "StrideCategory list" where
  "validStride =
     [Spoofing, Tampering, Repudiation, InformationDisclosure, DenialOfService,
      ElevationOfPrivilege]"

text \<open>\<open>validStride.includes(v) ? v : "Information Disclosure"\<close>.\<close>

definition strideOf :: "json option \<Rightarrow> StrideCategory" where
  "strideOf v =
     (case v of
        Some (JString s) \<Rightarrow>
          (case find (\<lambda>c. strideName c = s) validStride of
             Some c \<Rightarrow> c | None \<Rightarrow> InformationDisclosure)
      | _ \<Rightarrow> InformationDisclosure)"

text \<open>
  A raw value read as \<open>Partial<OwaspLikelihood> | undefined\<close>: a falsy value takes the
  defaults; a property that is \<open>undefined\<close> or \<open>null\<close> is absent; any other property is
  the number that \<open>Math.round\<close> makes of it. The outer \<open>None\<close> is a thrown TypeError.
\<close>

definition factorOf :: "runtime \<Rightarrow> json \<Rightarrow> string \<Rightarrow> number option option" where
  "factorOf rt raw k =
     (case getProp raw k of
        None \<Rightarrow> Some None
      | Some JNull \<Rightarrow> Some None
      | Some v \<Rightarrow> map_option Some (toNumber rt v))"

definition asPartialLikelihood ::
  "runtime \<Rightarrow> json option \<Rightarrow> PartialLikelihood option option" where
  "asPartialLikelihood rt raw =
     (case raw of
        None \<Rightarrow> Some None
      | Some v \<Rightarrow>
          if \<not> truthy raw then Some None
          else do {
            f1 \<leftarrow> factorOf rt v ''skillLevel'';
            f2 \<leftarrow> factorOf rt v ''motive'';
            f3 \<leftarrow> factorOf rt v ''opportunity'';
            f4 \<leftarrow> factorOf rt v ''size'';
            f5 \<leftarrow> factorOf rt v ''easeOfDiscovery'';
            f6 \<leftarrow> factorOf rt v ''easeOfExploit'';
            f7 \<leftarrow> factorOf rt v ''awareness'';
            f8 \<leftarrow> factorOf rt v ''intrusionDetection'';
            Some (Some
              \<lparr>raw_skillLevel = f1, raw_motive = f2, raw_opportunity = f3, raw_size = f4,
               raw_easeOfDiscovery = f5, raw_easeOfExploit = f6, raw_awareness = f7,
               raw_intrusionDetection = f8\<rparr>)
          })"

definition asPartialImpact :: "runtime \<Rightarrow> json option \<Rightarrow> PartialImpact option option" where
  "asPartialImpact rt raw =
     (case raw of
        None \<Rightarrow> Some None
      | Some v \<Rightarrow>
          if \<not> truthy raw then Some None
          else do {
            f1 \<leftarrow> factorOf rt v ''confidentiality'';
            f2 \<leftarrow> factorOf rt v ''integrity'';
            f3 \<leftarrow> factorOf rt v ''availability'';
            f4 \<leftarrow> factorOf rt v ''accountability'';
            Some (Some
              \<lparr>raw_confidentiality = f1, raw_integrity = f2, raw_availability = f3,
               raw_accountability = f4\<rparr>)
          })"

text \<open>The severity that callers see: the engine's \<open>Note\<close> becomes \<open>Low\<close>.\<close>

definition surfaced :: "RiskSeverity \<Rightarrow> RiskSeverity" where
  "surfaced s = (if s = Note then Low else s)"

text \<open>\<open>String(v || dflt)\<close> and \<open>v ? String(v) : undefined\<close>.\<close>

definition stringOr :: "runtime \<Rightarrow> json option \<Rightarrow> string \<Rightarrow> string option" where
  "stringOr rt v dflt =
     (case v of Some x \<Rightarrow> if truthy v then toStr rt x else Some dflt | None \<Rightarrow> Some dflt)"

definition stringIf :: "runtime \<Rightarrow> json option \<Rightarrow> string option option" where
  "stringIf rt v =
     (case v of
        Some x \<Rightarrow> if truthy v then map_option Some (toStr rt x) else Some None
      | None \<Rightarrow> Some None)"

text \<open>\<open>Array.isArray(v) ? v.map(String) : dflt\<close>.\<close>

definition stringsOr :: "runtime \<Rightarrow> json option \<Rightarrow> string list \<Rightarrow> string list option" where
  "stringsOr rt v dflt =
     (case v of Some (JArray xs) \<Rightarrow> allOrNone (map (toStr rt) xs) | _ \<Rightarrow> Some dflt)"

text \<open>One mitigation; reading a property of \<open>null\<close> throws a TypeError.\<close>

definition validateMitigation :: "runtime \<Rightarrow> json \<Rightarrow> Mitigation option" where
  "validateMitigation rt m =
     (if m = JNull then None
      else do {
        d \<leftarrow> stringOr rt (getProp m ''description'') ''No description'';
        cf \<leftarrow> stringIf rt (getProp m ''codeFile'');
        co \<leftarrow> stringIf rt (getProp m ''codeOriginal'');
        cx \<leftarrow> stringIf rt (getProp m ''codeFixed'');
        Some
          \<lparr>description = d,
           codeFile = cf,
           codeLine = (case getProp m ''codeLine'' of Some (JNumber n) \<Rightarrow> Some n | _ \<Rightarrow> None),
           codeOriginal = co,
           codeFixed = cx\<rparr>
      })"

definition validateMitigations :: "runtime \<Rightarrow> json option \<Rightarrow> Mitigation list option" where
  "validateMitigations rt v =
     (case v of
        Some (JArray ms) \<Rightarrow> allOrNone (map (validateMitigation rt) ms)
      | _ \<Rightarrow> Some [])"

text \<open>
  \<open>validateThreat\<close>: \<open>None\<close> is the \<open>null\<close> that the \<open>catch\<close> returns, on a TypeError
  anywhere in the body. The severity that the raw element suggests is not read.
\<close>

definition validateThreat :: "runtime \<Rightarrow> json \<Rightarrow> GeneratedThreat option" where
  "validateThreat rt raw =
     (if raw = JNull then None
      else do {
        rawLikelihood \<leftarrow> asPartialLikelihood rt (getProp raw ''owaspLikelihood'');
        rawImpact \<leftarrow> asPartialImpact rt (getProp raw ''owaspImpact'');
        let riskRating = calculateRiskRating rawLikelihood rawImpact;
        t \<leftarrow> stringOr rt (getProp raw ''title'') ''Untitled Threat'';
        src \<leftarrow> stringOr rt (getProp raw ''threatSource'') ''Unknown actor'';
        pre \<leftarrow> stringOr rt (getProp raw ''prerequisites'') ''None specified'';
        act \<leftarrow> stringOr rt (getProp raw ''threatAction'') ''Unknown action'';
        imp \<leftarrow> stringOr rt (getProp raw ''threatImpact'') ''Unknown impact'';
        assets \<leftarrow> stringsOr rt (getProp raw ''impactedAssets'') [''Application''];
        boundary \<leftarrow> stringOr rt (getProp raw ''trustBoundary'') ''Unknown boundary'';
        assume \<leftarrow> stringsOr rt (getProp raw ''assumptions'') [];
        ms \<leftarrow> validateMitigations rt (getProp raw ''mitigations'');
        cve \<leftarrow> stringIf rt (getProp raw ''relatedCve'');
        Some
          \<lparr>title = t,
           strideCategory = strideOf (getProp raw ''strideCategory''),
           severity = surfaced (riskSeverity riskRating),
           threatSource = src,
           prerequisites = pre,
           threatAction = act,
           threatImpact = imp,
           impactedAssets = assets,
           trustBoundary = boundary,
           assumptions = assume,
           mitigations = ms,
           relatedCve = cve,
           owaspLikelihood = Some (likelihood riskRating),
           owaspImpact = Some (impact riskRating)\<rparr>
      })"

subsection \<open>parseThreatsResponse\<close>

text \<open>The first offset at which \<open>pat\<close> occurs in \<open>s\<close>.\<close>

fun indexOf :: "string \<Rightarrow> string \<Rightarrow> nat option" where
  "indexOf [] pat = (if pat = [] then Some 0 else None)"
| "indexOf (c # cs) pat =
     (if prefix pat (c # cs) then Some 0
      else (case indexOf cs pat of None \<Rightarrow> None | Some i \<Rightarrow> Some (Suc i)))"

text \<open>The last offset at which the character \<open>c\<close> occurs in \<open>s\<close>.\<close>

definition lastIndexOfChar :: "string \<Rightarrow> char \<Rightarrow> nat option" where
  "lastIndexOfChar s c =
     (case indexOf (rev s) [c] of None \<Rightarrow> None | Some i \<Rightarrow> Some (length s - 1 - i))"

text \<open>\<open>s.substring(a, b)\<close>: the two offsets are swapped when the first is the larger.\<close>

definition substring :: "string \<Rightarrow> nat \<Rightarrow> nat \<Rightarrow> string" where
  "substring s a b = take (max a b - min a b) (drop (min a b) s)"

text \<open>
  The match of the fence expression: three backquotes, an optional \<open>json\<close>, white space,
  then the shortest text up to three more backquotes; its group 1.
\<close>

definition fence :: string where
  "fence = replicate 3 (CHR 0x60)"

definition fenceMatch :: "string \<Rightarrow> string option" where
  "fenceMatch s =
     (case indexOf s fence of
        None \<Rightarrow> None
      | Some i \<Rightarrow>
          (let rest = drop (i + 3) s;
               rest1 = (if prefix ''json'' rest then drop 4 rest else rest);
               rest2 = dropWhile isWhiteSpace rest1
           in case indexOf rest2 fence of
                None \<Rightarrow> None
              | Some j \<Rightarrow> Some (take j rest2)))"

text \<open>Steps 1 and 2: the text that is handed to \<open>JSON.parse\<close>.\<close>

definition arraySlice :: "string \<Rightarrow> string" where
  "arraySlice text =
     (let jsonStr0 = trim text;
          jsonStr = (case fenceMatch jsonStr0 of Some g \<Rightarrow> trim g | None \<Rightarrow> jsonStr0)
      in case (indexOf jsonStr ''['', lastIndexOfChar jsonStr (CHR '']'')) of
           (Some arrayStart, Some arrayEnd) \<Rightarrow> substring jsonStr arrayStart (arrayEnd + 1)
         | (Some arrayStart, None) \<Rightarrow> drop arrayStart jsonStr
         | (None, _) \<Rightarrow> jsonStr)"

text \<open>\<open>parsed.map(validateThreat).filter(Boolean)\<close>.\<close>

definition validateAll :: "runtime \<Rightarrow> json list \<Rightarrow> GeneratedThreat list" where
  "validateAll rt parsed = List.map_filter (validateThreat rt) parsed"

text \<open>A parse with the test \<open>Array.isArray\<close> that follows it.\<close>

definition parseArray :: "runtime \<Rightarrow> string \<Rightarrow> string \<Rightarrow> js_error + json list" where
  "parseArray rt msg s =
     (case JSON_parse rt s of
        Inl e \<Rightarrow> Inl e
      | Inr (JArray xs) \<Rightarrow> Inr xs
      | Inr v \<Rightarrow> Inl (JsError ''Error'' msg))"

definition parseThreatsResponse :: "runtime \<Rightarrow> string \<Rightarrow> js_error + GeneratedThreat list" where
  "parseThreatsResponse rt text =
     (let jsonStr = arraySlice text
      in case parseArray rt ''Expected JSON array'' jsonStr of
           Inr parsed \<Rightarrow> Inr (validateAll rt parsed)
         | Inl firstError \<Rightarrow>
             (case repairTruncatedJsonArray jsonStr of
                Inl repairError \<Rightarrow>
                  Inl (JsError ''Error''
                    (''Failed to parse threat model response: '' @ errorToString firstError))
              | Inr repaired \<Rightarrow>
                  (case parseArray rt ''Expected JSON array after repair'' repaired of
                     Inl repairError \<Rightarrow>
                       Inl (JsError ''Error''
                         (''Failed to parse threat model response: ''
                          @ errorToString firstError))
                   | Inr parsed \<Rightarrow> Inr (validateAll rt parsed))))"

subsection \<open>Notions used in the statements about the parser\<close>

text \<open>The characters that the recovery scan reacts to.\<close>

definition structural :: "char \<Rightarrow> bool" where
  "structural c = (c \<in> set [CHR 0x22, CHR 0x5C, CHR ''['', CHR '']'', CHR ''{'', CHR ''}''])"

text \<open>
  The inside of a string literal: characters other than the quote and the backslash, and
  escapes (a backslash and the character after it).
\<close>

inductive strBody :: "string \<Rightarrow> bool" where
  strBody_nil: "strBody []"
| strBody_char: "c \<noteq> CHR 0x22 \<Longrightarrow> c \<noteq> CHR 0x5C \<Longrightarrow> strBody t \<Longrightarrow> strBody (c # t)"
| strBody_esc: "strBody t \<Longrightarrow> strBody (CHR 0x5C # c # t)"

text \<open>
  Text whose string literals are closed and whose brackets and braces outside string
  literals are matched: the members of an object, the elements of an array, a sequence
  of values with their separators and white space.
\<close>

inductive balanced :: "string \<Rightarrow> bool" where
  balanced_nil: "balanced []"
| balanced_plain: "\<not> structural c \<Longrightarrow> balanced t \<Longrightarrow> balanced (c # t)"
| balanced_string: "strBody b \<Longrightarrow> balanced t \<Longrightarrow> balanced (CHR 0x22 # b @ CHR 0x22 # t)"
| balanced_array: "balanced a \<Longrightarrow> balanced t \<Longrightarrow> balanced (CHR ''['' # a @ CHR '']'' # t)"
| balanced_object: "balanced a \<Longrightarrow> balanced t \<Longrightarrow> balanced (CHR ''{'' # a @ CHR ''}'' # t)"

text \<open>
  The text of an array element that is an object, with the separator and white space
  before it, from that lead and the members of the object; and the text of a sequence of
  such elements.
\<close>

definition elementText :: "string \<times> string \<Rightarrow> string" where
  "elementText e = fst e @ CHR ''{'' # snd e @ ''}''"

definition elementsText :: "(string \<times> string) list \<Rightarrow> string" where
  "elementsText es = concat (map elementText es)"

definition wellFormedElement :: "string \<times> string \<Rightarrow> bool" where
  "wellFormedElement e = (list_all (\<lambda>c. \<not> structural c) (fst e) \<and> balanced (snd e))"

text \<open>The error that \<open>JSON.parse\<close> throws on a text that ends too early.\<close>

definition unexpectedEnd :: js_error where
  "unexpectedEnd = JsError ''SyntaxError'' ''Unexpected end of JSON input''"

text \<open>
  Responses cut off by the token limit. In the first, two elements are complete and the
  third is cut in its title; in the second, the first element is cut in its last array.
\<close>

definition truncatedAfterTwo :: string where
  \<open>truncatedAfterTwo =
     ''[{"title":"A","assumptions":["x"]},{"title":"B","assumptions":["y"]},{"title":"C''\<close>

definition truncatedInFirst :: string where
  \<open>truncatedInFirst = ''[{"title":"A","assumptions":["x"''\<close>

text \<open>The members of the first element of these responses.\<close>

definition firstElementBody :: string where
  \<open>firstElementBody = ''"title":"A","assumptions":["x"]''\<close>

text \<open>
  A runtime for these responses: \<open>JSON.parse\<close> succeeds on the one well-formed text
  that the runs below hand to it, with the value that the text denotes, and throws on
  the others, which all end too early.
\<close>

definition rtExample :: runtime where
  \<open>rtExample =
     \<lparr>JSON_parse =
        (\<lambda>s. if s = ''[{"title":"A","assumptions":["x"]}]''
             then Inr (JArray [JObject [(''title'', JString ''A''),
                                        (''assumptions'', JArray [JString ''x''])]])
             else Inl unexpectedEnd),
      Number_toString = (\<lambda>n. ''NaN''),
      StringToNumber = (\<lambda>s. NaN)\<rparr>\<close>

section \<open>The model provider (llm-provider.ts)\<close>

datatype LLMProvider = Anthropic | Gemini

record LLMConfig =
  provider :: LLMProvider
  apiKey :: string
  model :: "string option"
  geminiEndpoint :: "string option"

text \<open>
  What \<open>getLLMConfig\<close> reads: two environment variables and five settings of the
  database (all \<open>None\<close> when the database cannot be opened).
\<close>

record llm_settings =
  env_GOOGLE_GEMINI_API_KEY :: "string option"
  env_ANTHROPIC_API_KEY :: "string option"
  db_llm_provider :: "string option"
  db_anthropic_key :: "string option"
  db_gemini_key :: "string option"
  db_gemini_model :: "string option"
  db_gemini_endpoint :: "string option"

text \<open>\<open>a || b\<close> on strings that may be absent: an empty string is falsy.\<close>

definition orElse :: "string option \<Rightarrow> string option \<Rightarrow> string option" where
  "orElse a b = (case a of Some s \<Rightarrow> if s \<noteq> [] then Some s else b | None \<Rightarrow> b)"

definition getLLMConfig :: "llm_settings \<Rightarrow> LLMConfig option" where
  "getLLMConfig s =
     (if orElse (db_llm_provider s) (Some ''anthropic'') = Some ''gemini''
      then (case orElse (env_GOOGLE_GEMINI_API_KEY s) (db_gemini_key s) of
              None \<Rightarrow> None
            | Some k \<Rightarrow>
                if k = [] then None
                else Some \<lparr>provider = Gemini, apiKey = k,
                       model = orElse (db_gemini_model s) (Some ''gemini-2.5-flash''),
                       geminiEndpoint = orElse (db_gemini_endpoint s) None\<rparr>)
      else (case orElse (env_ANTHROPIC_API_KEY s) (db_anthropic_key s) of
              None \<Rightarrow> None
            | Some k \<Rightarrow>
                if k = [] then None
                else Some \<lparr>provider = Anthropic, apiKey = k, model = None,
                       geminiEndpoint = None\<rparr>))"

text \<open>
  The two provider SDKs are external. A request is what the code passes to them: the
  object literal given to the client constructor and the list of the arguments of the
  call (\<open>client.messages.create\<close>, \<open>ai.models.generateContent\<close>). The SDK answers a
  request with an error or with what the code reads of the response: the content blocks
  of an Anthropic message (type and text), the \<open>text\<close> of a Gemini response.
\<close>

datatype sdk_request =
  AnthropicMessagesCreate json "json list" | GeminiGenerateContent json "json list"

record sdk =
  anthropic_create :: "json \<Rightarrow> json list \<Rightarrow> js_error + (string \<times> string) list"
  gemini_generate :: "json \<Rightarrow> json list \<Rightarrow> js_error + string option"

text \<open>Each call returns the requests that it issued, in order, and its result.\<close>

definition callAnthropic ::
  "sdk \<Rightarrow> string \<Rightarrow> string \<Rightarrow> LLMConfig \<Rightarrow> nat \<Rightarrow> sdk_request list \<times> (js_error + string)" where
  "callAnthropic k systemPrompt userPrompt config maxTokens =
     (let clientOptions = JObject [(''apiKey'', JString (apiKey config))];
          params =
            JObject
              [(''model'', JString ''claude-sonnet-4-5-20250929''),
               (''max_tokens'', JNumber (Num (of_nat maxTokens))),
               (''system'', JString systemPrompt),
               (''messages'',
                JArray [JObject [(''role'', JString ''user''),
                                 (''content'', JString userPrompt)]])]
      in ([AnthropicMessagesCreate clientOptions [params]],
          case anthropic_create k clientOptions [params] of
            Inl e \<Rightarrow> Inl e
          | Inr content \<Rightarrow>
              (case find (\<lambda>b. fst b = ''text'') content of
                 None \<Rightarrow> Inl (JsError ''Error'' ''No text response from Anthropic'')
               | Some textBlock \<Rightarrow> Inr (snd textBlock))))"

definition callGemini ::
  "sdk \<Rightarrow> string \<Rightarrow> string \<Rightarrow> LLMConfig \<Rightarrow> nat \<Rightarrow> sdk_request list \<times> (js_error + string)" where
  "callGemini k systemPrompt userPrompt config maxTokens =
     (let clientOptions =
            JObject
              ([(''apiKey'', JString (apiKey config))]
               @ (case orElse (geminiEndpoint config) None of
                    Some e \<Rightarrow> [(''httpOptions'', JObject [(''baseUrl'', JString e)])]
                  | None \<Rightarrow> []));
          params =
            JObject
              [(''model'',
                JString (case orElse (model config) (Some ''gemini-2.5-flash'') of
                           Some m \<Rightarrow> m | None \<Rightarrow> ''gemini-2.5-flash'')),
               (''contents'', JString userPrompt),
               (''config'',
                JObject [(''systemInstruction'', JString systemPrompt),
                         (''maxOutputTokens'', JNumber (Num (of_nat maxTokens)))])]
      in ([GeminiGenerateContent clientOptions [params]],
          case gemini_generate k clientOptions [params] of
            Inl e \<Rightarrow> Inl e
          | Inr txt \<Rightarrow>
              (case orElse txt None of
                 None \<Rightarrow> Inl (JsError ''Error'' ''No text response from Gemini'')
               | Some t \<Rightarrow> Inr t)))"

definition callLLM ::
  "sdk \<Rightarrow> string \<Rightarrow> string \<Rightarrow> LLMConfig \<Rightarrow> nat \<Rightarrow> sdk_request list \<times> (js_error + string)" where
  "callLLM k systemPrompt userPrompt config maxTokens =
     (if provider config = Gemini then callGemini k systemPrompt userPrompt config maxTokens
      else callAnthropic k systemPrompt userPrompt config maxTokens)"

section \<open>The threat generator (threat-generator.ts)\<close>

datatype Framework = STRIDE | OWASP_Top_10 | AWS_Threat_Grammar

subsection \<open>String helpers of the fallback generator\<close>

text \<open>\<open>s.replace(/_/g, " ")\<close>.\<close>

definition underscoresToSpaces :: "string \<Rightarrow> string" where
  "underscoresToSpaces s = map (\<lambda>c. if c = CHR ''_'' then CHR '' '' else c) s"

text \<open>
  \<open>s.replace(re, new)\<close> for an expression without the flag \<open>g\<close>: \<open>matchLen\<close> gives the
  length of the match that starts at the head of a text, if there is one; the leftmost
  match is replaced.
\<close>

fun replaceFirstBy :: "(string \<Rightarrow> nat option) \<Rightarrow> string \<Rightarrow> string \<Rightarrow> string" where
  "replaceFirstBy matchLen new [] = (case matchLen [] of Some n \<Rightarrow> new | None \<Rightarrow> [])"
| "replaceFirstBy matchLen new (c # cs) =
     (case matchLen (c # cs) of
        Some n \<Rightarrow> new @ drop n (c # cs)
      | None \<Rightarrow> c # replaceFirstBy matchLen new cs)"

definition literally :: "string \<Rightarrow> string \<Rightarrow> nat option" where
  "literally pat s = (if prefix pat s then Some (length pat) else None)"

text \<open>The expression \<open>/\+\s*req\./\<close>.\<close>

definition plusReq :: "string \<Rightarrow> nat option" where
  "plusReq s =
     (case s of
        [] \<Rightarrow> None
      | c # cs \<Rightarrow>
          if c = CHR ''+'' \<and> prefix ''req.'' (dropWhile isWhiteSpace cs)
          then Some (1 + length (takeWhile isWhiteSpace cs) + 4)
          else None)"

definition severityName :: "RiskSeverity \<Rightarrow> string" where
  "severityName s =
     (case s of Note \<Rightarrow> ''Note'' | Low \<Rightarrow> ''Low'' | Medium \<Rightarrow> ''Medium'' | High \<Rightarrow> ''High''
      | Critical \<Rightarrow> ''Critical'')"

subsection \<open>generateDemoThreats\<close>

definition categories :: "StrideCategory list" where
  "categories =
     [Spoofing, Tampering, Repudiation, InformationDisclosure, DenialOfService,
      ElevationOfPrivilege]"

definition severityMap :: "(string \<times> RiskSeverity) list" where
  "severityMap = [(''high'', Critical), (''medium'', High), (''low'', Medium)]"

definition findingImpact :: "StrideCategory \<Rightarrow> string" where
  "findingImpact c =
     (if c = InformationDisclosure then ''exposure of sensitive data''
      else if c = Tampering then ''unauthorized data modification''
      else if c = Spoofing then ''identity impersonation''
      else if c = ElevationOfPrivilege then ''unauthorized access to privileged operations''
      else if c = DenialOfService then ''service unavailability''
      else ''inability to trace malicious actions'')"

text \<open>The threat pushed for a finding when \<open>n\<close> threats have been pushed already.\<close>

definition findingThreat :: "RepoAnalysis \<Rightarrow> nat \<Rightarrow> SecurityFinding \<Rightarrow> GeneratedThreat" where
  "findingThreat analysis n finding =
     (let strideCat = categories ! (n mod 6);
          what = underscoresToSpaces (sf_pattern finding)
      in \<lparr>title =
            strideName strideCat @ '': '' @ what @ '' in ''
            @ last (splitOn (CHR ''/'') (sf_file finding)),
          strideCategory = strideCat,
          severity =
            (case map_of severityMap (severityName (sf_severity finding)) of
               Some s \<Rightarrow> s | None \<Rightarrow> Medium),
          threatSource = ''An external attacker'',
          prerequisites =
            ''Access to the ''
            @ (if str_includes (sf_file finding) ''api'' then ''API endpoint''
               else ''application input'')
            @ '' that reaches this code path'',
          threatAction =
            ''can exploit '' @ what @ '' at '' @ sf_file finding @ '':''
            @ showNat (sf_line finding),
          threatImpact = ''which leads to '' @ findingImpact strideCat,
          impactedAssets = sf_file finding # map c_name (take 2 (components analysis)),
          trustBoundary =
            (case trustBoundaries analysis of
               [] \<Rightarrow> ''External '' @ arrow @ '' Internal''
             | tb # tbs \<Rightarrow>
                 if tb_name tb = [] then ''External '' @ arrow @ '' Internal''
                 else tb_name tb),
          assumptions =
            [''Application is internet-facing'', ''Input validation is incomplete'',
             ''The code in '' @ sf_file finding @ '' is reachable from external requests''],
          mitigations =
            [\<lparr>description =
                ''Fix the '' @ what @ '' vulnerability by applying secure coding practices'',
              codeFile = Some (sf_file finding),
              codeLine = Some (Num (of_nat (sf_line finding))),
              codeOriginal = Some (sf_snippet finding),
              codeFixed =
                Some (''// FIXED: '' @ sf_pattern finding @ '' remediated'' @ [CHR 0x0A]
                  @ replaceFirstBy (literally ''cors()'') ''cors({ origin: allowedOrigins })''
                      (replaceFirstBy plusReq ''+ sanitize(req.''
                         (replaceFirstBy (literally ''eval('') ''safeEval(''
                            (sf_snippet finding))))\<rparr>],
          relatedCve = None,
          owaspLikelihood = None,
          owaspImpact = None\<rparr>)"

text \<open>The first loop: one threat for each of the first six findings.\<close>

fun findingThreats ::
  "RepoAnalysis \<Rightarrow> SecurityFinding list \<Rightarrow> GeneratedThreat list \<Rightarrow> GeneratedThreat list" where
  "findingThreats analysis [] threats = threats"
| "findingThreats analysis (finding # rest) threats =
     findingThreats analysis rest
       (threats @ [findingThreat analysis (length threats) finding])"

record ArchThreat =
  at_title :: string
  at_cat :: StrideCategory
  at_sev :: RiskSeverity
  at_boundary :: string

definition archThreats :: "ArchThreat list" where
  "archThreats =
     [\<lparr>at_title = ''Insufficient Authentication on API Gateway'', at_cat = Spoofing,
       at_sev = High, at_boundary = ''Client '' @ arrow @ '' API''\<rparr>,
      \<lparr>at_title = ''Missing Rate Limiting on Public Endpoints'', at_cat = DenialOfService,
       at_sev = High, at_boundary = ''External '' @ arrow @ '' Internal''\<rparr>,
      \<lparr>at_title = ''Insecure Data Transmission Between Services'',
       at_cat = InformationDisclosure, at_sev = Medium,
       at_boundary = ''Service '' @ arrow @ '' Service''\<rparr>,
      \<lparr>at_title = ''Missing Audit Logging for Administrative Actions'',
       at_cat = Repudiation, at_sev = Medium, at_boundary = ''Admin '' @ arrow @ '' System''\<rparr>,
      \<lparr>at_title = ''Improper Input Validation at Trust Boundary'', at_cat = Tampering,
       at_sev = High, at_boundary = ''External '' @ arrow @ '' Internal''\<rparr>,
      \<lparr>at_title = ''Overly Permissive Role-Based Access Controls'',
       at_cat = ElevationOfPrivilege, at_sev = Critical,
       at_boundary = ''User '' @ arrow @ '' Admin''\<rparr>]"

definition archImpact :: "StrideCategory \<Rightarrow> string" where
  "archImpact c =
     (if c = Spoofing then ''unauthorized identity assumption''
      else if c = DenialOfService then ''resource exhaustion and service degradation''
      else if c = InformationDisclosure then ''leakage of sensitive business data''
      else if c = Repudiation then ''inability to audit security-relevant events''
      else if c = Tampering then ''unauthorized modification of application state''
      else ''privilege escalation to administrative functions'')"

definition archMitigation :: "StrideCategory \<Rightarrow> string" where
  "archMitigation c =
     (if c = Spoofing then ''multi-factor authentication and token validation''
      else if c = DenialOfService then ''rate limiting with exponential backoff''
      else if c = InformationDisclosure then ''TLS 1.3 for all inter-service communication''
      else if c = Repudiation then ''comprehensive audit logging with tamper-proof storage''
      else if c = Tampering then ''strict input validation and schema enforcement''
      else ''least-privilege RBAC with regular access reviews'')"

text \<open>\<open>comp?.name || dflt\<close>.\<close>

definition compNameOr :: "ComponentInfo option \<Rightarrow> string \<Rightarrow> string" where
  "compNameOr component dflt =
     (case component of Some c \<Rightarrow> if c_name c = [] then dflt else c_name c | None \<Rightarrow> dflt)"

text \<open>The threat pushed for an architecture-level entry when there are \<open>n\<close> threats.\<close>

definition archThreat :: "RepoAnalysis \<Rightarrow> nat \<Rightarrow> ArchThreat \<Rightarrow> GeneratedThreat" where
  "archThreat analysis n a =
     (let comps = components analysis;
          component = (if comps = [] then None
                  else Some (comps ! (n mod max (length comps) 1)))
      in \<lparr>title = at_title a,
          strideCategory = at_cat a,
          severity = at_sev a,
          threatSource = ''An authenticated or unauthenticated user'',
          prerequisites =
            ''Network access to the '' @ compNameOr component ''application'' @ '' component'',
          threatAction =
            ''can exploit '' @ toLowerCase (at_title a) @ '' at the '' @ at_boundary a
            @ '' boundary'',
          threatImpact = ''which leads to '' @ archImpact (at_cat a),
          impactedAssets =
            (case component of Some c \<Rightarrow> take 3 (c_files c) | None \<Rightarrow> [''Application'']),
          trustBoundary = at_boundary a,
          assumptions =
            [''The '' @ compNameOr component ''system'' @ '' component handles sensitive operations'',
             ''Standard security controls may be incomplete''],
          mitigations =
            [\<lparr>description = ''Implement '' @ archMitigation (at_cat a),
              codeFile = None, codeLine = None, codeOriginal = None, codeFixed = None\<rparr>],
          relatedCve = None,
          owaspLikelihood = None,
          owaspImpact = None\<rparr>)"

fun archLoop ::
  "RepoAnalysis \<Rightarrow> ArchThreat list \<Rightarrow> GeneratedThreat list \<Rightarrow> GeneratedThreat list" where
  "archLoop analysis [] threats = threats"
| "archLoop analysis (a # rest) threats =
     archLoop analysis rest (threats @ [archThreat analysis (length threats) a])"

definition generateDemoThreats :: "RepoAnalysis \<Rightarrow> GeneratedThreat list" where
  "generateDemoThreats analysis =
     (let threats = findingThreats analysis (take 6 (securityFindings analysis)) []
      in archLoop analysis (take (max 2 (8 - length threats)) archThreats) threats)"

subsection \<open>generateDemoThreatsFromDoc\<close>

definition docThreat ::
  "string \<Rightarrow> StrideCategory \<Rightarrow> RiskSeverity \<Rightarrow> string \<Rightarrow> string \<Rightarrow> string \<Rightarrow> string
     \<Rightarrow> string list \<Rightarrow> string \<Rightarrow> string list \<Rightarrow> string \<Rightarrow> GeneratedThreat" where
  "docThreat t cat sev src pre act imp assets boundary assume mit =
     \<lparr>title = t, strideCategory = cat, severity = sev, threatSource = src,
      prerequisites = pre, threatAction = act, threatImpact = imp, impactedAssets = assets,
      trustBoundary = boundary, assumptions = assume,
      mitigations =
        [\<lparr>description = mit, codeFile = None, codeLine = None, codeOriginal = None,
          codeFixed = None\<rparr>],
      relatedCve = None, owaspLikelihood = None, owaspImpact = None\<rparr>"

definition generateDemoThreatsFromDoc :: "string \<Rightarrow> GeneratedThreat list" where
  "generateDemoThreatsFromDoc docName =
     [docThreat ''Insufficient Authentication in Proposed Architecture'' Spoofing High
        ''An external attacker''
        ''Access to the public-facing endpoints described in the design''
        ''can forge authentication tokens or bypass identity verification''
        ''which leads to unauthorized access to protected resources''
        [''Authentication Service'', ''User Data Store'', ''API Gateway'']
        (''External '' @ arrow @ '' Internal'')
        [''The system is internet-facing'', ''Authentication relies on bearer tokens'']
        (''Implement OAuth 2.0 with PKCE flow, enforce MFA for sensitive operations, ''
         @ ''use short-lived JWTs with refresh token rotation''),
      docThreat ''Data Tampering in Message Queue Processing'' Tampering High
        ''A malicious insider or compromised service''
        ''Access to the internal message bus or queue system''
        ''can inject or modify messages in the processing pipeline''
        ''which leads to corrupted business data and incorrect processing outcomes''
        [''Message Queue'', ''Processing Pipeline'', ''Data Store'']
        (''Service '' @ arrow @ '' Service'')
        [''Inter-service communication is not end-to-end encrypted'',
         ''Message integrity is not verified'']
        (''Implement message signing with HMAC-SHA256, validate message integrity before ''
         @ ''processing, use TLS for all internal communication''),
      docThreat ''Missing Audit Trail for Critical Operations'' Repudiation Medium
        ''An authenticated user with elevated privileges''
        ''Valid credentials with administrative access''
        ''can perform destructive actions without generating an audit trail''
        ''which leads to inability to investigate security incidents or prove compliance''
        [''Admin Console'', ''Configuration Store'', ''All System Components'']
        (''Admin '' @ arrow @ '' System'')
        [''The design does not specify comprehensive logging'',
         ''Audit logs are stored locally'']
        (''Implement centralized, append-only audit logging with tamper detection, log all ''
         @ ''state-changing operations with actor identity and timestamp''),
      docThreat ''Sensitive Data Exposure in API Responses'' InformationDisclosure Critical
        ''An external attacker or authorized user exceeding their access level''
        ''Ability to call API endpoints and inspect responses''
        ''can extract sensitive information from verbose API responses or error messages''
        ''which leads to exposure of PII, credentials, or internal system details''
        [''REST API'', ''User Data'', ''System Configuration'']
        (''External '' @ arrow @ '' API'')
        [''API responses may include more data than the caller needs'',
         ''Error responses expose stack traces'']
        (''Implement response field filtering based on caller authorization, sanitize all ''
         @ ''error responses, use DTOs to control API response shape''),
      docThreat ''Resource Exhaustion via Unthrottled API Calls'' DenialOfService High
        ''An external attacker or compromised client''
        ''Network access to public API endpoints''
        ''can send a high volume of requests to exhaust server resources''
        (''which leads to service degradation or complete unavailability for ''
         @ ''legitimate users'')
        [''API Gateway'', ''Application Servers'', ''Database'']
        (''External '' @ arrow @ '' Internal'')
        [''No rate limiting is described in the design'', ''Auto-scaling has finite limits'']
        (''Implement tiered rate limiting (per-IP, per-user, global), deploy WAF rules, ''
         @ ''use circuit breakers, configure auto-scaling with spending caps''),
      docThreat ''Privilege Escalation Through Insecure Direct Object References''
        ElevationOfPrivilege Critical
        ''An authenticated low-privilege user''
        ''Valid authentication credentials for any role''
        (''can manipulate resource identifiers to access or modify resources belonging ''
         @ ''to other users or roles'')
        (''which leads to unauthorized access to administrative functions and other users''
         @ [CHR 0x27] @ '' data'')
        [''Authorization Service'', ''User Management'', ''All Protected Resources'']
        (''User '' @ arrow @ '' Admin'')
        [''Authorization checks rely on client-provided resource IDs'',
         ''Role hierarchy enforcement may be incomplete'']
        (''Implement server-side authorization checks for every resource access, use ''
         @ ''indirect object references (UUIDs), enforce role-based access control at ''
         @ ''the data layer'')]"

subsection \<open>generateThreats and generateThreatsFromDocument\<close>

text \<open>
  The texts of the prompts do not bear on what is stated below; the three template
  constants and \<open>buildUserPrompt\<close> are parameters.
\<close>

record prompts =
  SYSTEM_PROMPT :: string
  OWASP_SYSTEM_ADDENDUM :: string
  OUTPUT_SCHEMA :: string
  buildUserPrompt :: "RepoAnalysis \<Rightarrow> Framework \<Rightarrow> string"

definition frameworkName :: "Framework \<Rightarrow> string" where
  "frameworkName f =
     (case f of STRIDE \<Rightarrow> ''STRIDE'' | OWASP_Top_10 \<Rightarrow> ''OWASP Top 10''
      | AWS_Threat_Grammar \<Rightarrow> ''AWS Threat Grammar'')"

definition generateThreats ::
  "runtime \<Rightarrow> sdk \<Rightarrow> prompts \<Rightarrow> llm_settings \<Rightarrow> RepoAnalysis \<Rightarrow> Framework
     \<Rightarrow> sdk_request list \<times> (js_error + GeneratedThreat list)" where
  "generateThreats rt k pr settings analysis framework =
     (case getLLMConfig settings of
        None \<Rightarrow> ([], Inr (generateDemoThreats analysis))
      | Some config \<Rightarrow>
          (let userPrompt = buildUserPrompt pr analysis framework;
               systemPrompt =
                 SYSTEM_PROMPT pr
                 @ (if framework = OWASP_Top_10 then OWASP_SYSTEM_ADDENDUM pr else [])
                 @ [CHR 0x0A] @ OUTPUT_SCHEMA pr;
               called = callLLM k systemPrompt userPrompt config 16384
           in (fst called,
               case snd called of
                 Inl e \<Rightarrow> Inl e
               | Inr text \<Rightarrow> parseThreatsResponse rt text)))"

definition documentUserPrompt :: "string \<Rightarrow> string \<Rightarrow> Framework \<Rightarrow> string" where
  "documentUserPrompt documentContent documentName framework =
     ''## Design Document: '' @ documentName @ [CHR 0x0A, CHR 0x0A]
     @ ''## Framework: '' @ frameworkName framework @ [CHR 0x0A, CHR 0x0A]
     @ ''## Document Content'' @ [CHR 0x0A]
     @ take 15000 documentContent @ [CHR 0x0A, CHR 0x0A]
     @ ''## Instructions'' @ [CHR 0x0A]
     @ ''Generate a comprehensive threat model based on this design document. ''
     @ ''Since no source code is available, provide architectural-level threats with ''
     @ ''prose-based mitigation suggestions. Do NOT include codeFile, codeLine, ''
     @ ''codeOriginal, or codeFixed in mitigations. Output ONLY the JSON array.''"

definition generateThreatsFromDocument ::
  "runtime \<Rightarrow> sdk \<Rightarrow> prompts \<Rightarrow> llm_settings \<Rightarrow> string \<Rightarrow> string \<Rightarrow> Framework
     \<Rightarrow> sdk_request list \<times> (js_error + GeneratedThreat list)" where
  "generateThreatsFromDocument rt k pr settings documentContent documentName framework =
     (case getLLMConfig settings of
        None \<Rightarrow> ([], Inr (generateDemoThreatsFromDoc documentName))
      | Some config \<Rightarrow>
          (let systemPrompt =
                 replaceFirstBy
                   (literally
                      (''If source code files and security findings are provided, ''
                       @ ''reference specific files, line numbers, and include ''
                       @ ''code-level original/fixed snippets in mitigations.''))
                   (''Since this is a design document (not source code), provide ''
                    @ ''prose-based mitigations without code snippets.'')
                   (SYSTEM_PROMPT pr)
                 @ (if framework = OWASP_Top_10 then OWASP_SYSTEM_ADDENDUM pr else [])
                 @ [CHR 0x0A] @ OUTPUT_SCHEMA pr;
               userPrompt = documentUserPrompt documentContent documentName framework;
               called = callLLM k systemPrompt userPrompt config 16384
           in (fst called,
               case snd called of
                 Inl e \<Rightarrow> Inl e
               | Inr text \<Rightarrow> parseThreatsResponse rt text)))"

section \<open>Persistence (the threats and mitigations tables) and the orchestrator\<close>

text \<open>
  The argument of \<open>createThreat\<close> as the orchestrator builds it. The factors are kept as
  the pair that \<open>JSON.stringify\<close> serialises.
\<close>

record ThreatInput =
  in_id :: string
  in_sessionId :: string
  in_title :: string
  in_strideCategory :: StrideCategory
  in_severity :: RiskSeverity
  in_threatSource :: string
  in_prerequisites :: string
  in_threatAction :: string
  in_threatImpact :: string
  in_impactedAssets :: "string list"
  in_trustBoundary :: string
  in_assumptions :: "string list"
  in_relatedCve :: "string option"
  in_owaspLikelihoodScore :: number
  in_owaspImpactScore :: number
  in_owaspRiskLevel :: RiskSeverity
  in_owaspFactors :: "OwaspLikelihood \<times> OwaspImpact"

text \<open>
  A row of the table \<open>threats\<close>, without its time stamp; the two array columns are kept
  as the lists that are serialised.
\<close>

record ThreatRow =
  row_id :: string
  row_session_id :: string
  row_title :: string
  row_stride_category :: StrideCategory
  row_severity :: RiskSeverity
  row_status :: string
  row_threat_source :: string
  row_prerequisites :: "string option"
  row_threat_action :: string
  row_threat_impact :: string
  row_impacted_assets :: "string list option"
  row_trust_boundary :: string
  row_assumptions :: "string list option"
  row_related_cve :: "string option"

record MitigationRow =
  mrow_id :: string
  mrow_threat_id :: string
  mrow_description :: string
  mrow_status :: string
  mrow_code_file :: "string option"
  mrow_code_line :: "number option"
  mrow_code_original :: "string option"
  mrow_code_fixed :: "string option"

record database =
  threats :: "ThreatRow list"
  mitigationRows :: "MitigationRow list"

definition sqliteConstraint :: js_error where
  "sqliteConstraint = JsError ''SqliteError'' ''constraint failed''"

definition threatRow :: "ThreatInput \<Rightarrow> ThreatRow" where
  "threatRow t =
     \<lparr>row_id = in_id t, row_session_id = in_sessionId t, row_title = in_title t,
      row_stride_category = in_strideCategory t, row_severity = in_severity t,
      row_status = ''Identified'', row_threat_source = in_threatSource t,
      row_prerequisites = orElse (Some (in_prerequisites t)) None,
      row_threat_action = in_threatAction t, row_threat_impact = in_threatImpact t,
      row_impacted_assets = Some (in_impactedAssets t),
      row_trust_boundary = in_trustBoundary t,
      row_assumptions = Some (in_assumptions t),
      row_related_cve = orElse (in_relatedCve t) None\<rparr>"

text \<open>
  \<open>createThreat\<close>: the insertion throws when the primary key is taken or the check on
  the severity column fails.
\<close>

definition createThreat :: "ThreatInput \<Rightarrow> database \<Rightarrow> js_error + database" where
  "createThreat t db =
     (if in_id t \<in> row_id ` set (threats db) \<or> in_severity t = Note then Inl sqliteConstraint
      else Inr (db\<lparr>threats := threats db @ [threatRow t]\<rparr>))"

definition createMitigation :: "MitigationRow \<Rightarrow> database \<Rightarrow> js_error + database" where
  "createMitigation m db =
     (if mrow_id m \<in> mrow_id ` set (mitigationRows db) then Inl sqliteConstraint
      else Inr (db\<lparr>mitigationRows := mitigationRows db @ [m]\<rparr>))"

text \<open>\<open>String(n).padStart(w, "0")\<close>.\<close>

definition padStart :: "nat \<Rightarrow> nat \<Rightarrow> string" where
  "padStart w n = replicate (w - length (showNat n)) (CHR ''0'') @ showNat n"

text \<open>\<open>sessionId.split("-").pop() || sessionId.slice(-8)\<close>.\<close>

definition shortIdOf :: "string \<Rightarrow> string" where
  "shortIdOf sessionId =
     (let lastPart = last (splitOn (CHR ''-'') sessionId)
      in if lastPart \<noteq> [] then lastPart else drop (length sessionId - 8) sessionId)"

text \<open>A generated record read at the type of the engine's arguments.\<close>

definition fullLikelihood :: "OwaspLikelihood \<Rightarrow> PartialLikelihood" where
  "fullLikelihood l =
     \<lparr>raw_skillLevel = Some (skillLevel l), raw_motive = Some (motive l),
      raw_opportunity = Some (opportunity l), raw_size = Some (size_factor l),
      raw_easeOfDiscovery = Some (easeOfDiscovery l),
      raw_easeOfExploit = Some (easeOfExploit l), raw_awareness = Some (awareness l),
      raw_intrusionDetection = Some (intrusionDetection l)\<rparr>"

definition fullImpact :: "OwaspImpact \<Rightarrow> PartialImpact" where
  "fullImpact i =
     \<lparr>raw_confidentiality = Some (confidentiality i), raw_integrity = Some (integrity i),
      raw_availability = Some (availability i),
      raw_accountability = Some (accountability i)\<rparr>"

text \<open>The rating that the orchestrator computes for the threat \<open>gt\<close> before it stores it.\<close>

definition ratingOf :: "GeneratedThreat \<Rightarrow> OwaspRiskRating" where
  "ratingOf gt =
     calculateRiskRating (map_option fullLikelihood (owaspLikelihood gt))
       (map_option fullImpact (owaspImpact gt))"

text \<open>
  The object passed to \<open>createThreat\<close> for the threat at index \<open>i\<close>; the design-document
  path passes no \<open>relatedCve\<close>.
\<close>

definition threatInput :: "bool \<Rightarrow> string \<Rightarrow> nat \<Rightarrow> GeneratedThreat \<Rightarrow> ThreatInput" where
  "threatInput fromRepo sessionId i gt =
     (let riskRating = ratingOf gt
      in \<lparr>in_id = ''TC-'' @ shortIdOf sessionId @ ''-'' @ padStart 3 (i + 1),
          in_sessionId = sessionId,
          in_title = title gt,
          in_strideCategory = strideCategory gt,
          in_severity =
            (if riskSeverity riskRating = Note then Low else riskSeverity riskRating),
          in_threatSource = threatSource gt,
          in_prerequisites = prerequisites gt,
          in_threatAction = threatAction gt,
          in_threatImpact = threatImpact gt,
          in_impactedAssets = impactedAssets gt,
          in_trustBoundary = trustBoundary gt,
          in_assumptions = assumptions gt,
          in_relatedCve = (if fromRepo then relatedCve gt else None),
          in_owaspLikelihoodScore = likelihoodScore riskRating,
          in_owaspImpactScore = impactScore riskRating,
          in_owaspRiskLevel = riskSeverity riskRating,
          in_owaspFactors = (likelihood riskRating, impact riskRating)\<rparr>)"

text \<open>
  The row that \<open>createMitigation\<close> inserts for the argument that the orchestrator
  builds: an empty string and the numbers 0 and NaN are stored as \<open>null\<close>. The
  design-document path passes no code fields.
\<close>

definition mitigationRow ::
  "bool \<Rightarrow> string \<Rightarrow> nat \<Rightarrow> nat \<Rightarrow> Mitigation \<Rightarrow> MitigationRow" where
  "mitigationRow fromRepo sessionId i j mit =
     \<lparr>mrow_id =
        ''MIT-'' @ shortIdOf sessionId @ ''-'' @ padStart 3 (i + 1) @ ''-''
        @ padStart 2 (j + 1),
      mrow_threat_id = ''TC-'' @ shortIdOf sessionId @ ''-'' @ padStart 3 (i + 1),
      mrow_description = description mit,
      mrow_status = ''Proposed'',
      mrow_code_file = (if fromRepo then orElse (codeFile mit) None else None),
      mrow_code_line =
        (if fromRepo
         then (case codeLine mit of
                 Some n \<Rightarrow> if n = Num 0 \<or> n = NaN then None else Some n
               | None \<Rightarrow> None)
         else None),
      mrow_code_original = (if fromRepo then orElse (codeOriginal mit) None else None),
      mrow_code_fixed = (if fromRepo then orElse (codeFixed mit) None else None)\<rparr>"

text \<open>The inner loop over the mitigations of the threat at index \<open>i\<close>, from index \<open>j\<close>.\<close>

fun persistMitigations ::
  "bool \<Rightarrow> string \<Rightarrow> nat \<Rightarrow> nat \<Rightarrow> Mitigation list \<Rightarrow> database
     \<Rightarrow> js_error option \<times> database" where
  "persistMitigations fromRepo sessionId i j [] db = (None, db)"
| "persistMitigations fromRepo sessionId i j (mit # rest) db =
     (case createMitigation (mitigationRow fromRepo sessionId i j mit) db of
        Inl e \<Rightarrow> (Some e, db)
      | Inr db' \<Rightarrow> persistMitigations fromRepo sessionId i (Suc j) rest db')"

text \<open>
  The loop over the generated threats, from index \<open>i\<close>: an error ends the run and leaves
  the rows inserted so far.
\<close>

fun persistThreats ::
  "bool \<Rightarrow> string \<Rightarrow> nat \<Rightarrow> GeneratedThreat list \<Rightarrow> database
     \<Rightarrow> js_error option \<times> database" where
  "persistThreats fromRepo sessionId i [] db = (None, db)"
| "persistThreats fromRepo sessionId i (gt # rest) db =
     (case createThreat (threatInput fromRepo sessionId i gt) db of
        Inl e \<Rightarrow> (Some e, db)
      | Inr db1 \<Rightarrow>
          (case persistMitigations fromRepo sessionId i 0 (mitigations gt) db1 of
             (Some e, db2) \<Rightarrow> (Some e, db2)
           | (None, db2) \<Rightarrow> persistThreats fromRepo sessionId (Suc i) rest db2))"

text \<open>
  \<open>analyzeGitHubRepo\<close> from its step 3 on, for the analysis that steps 1 and 2 produced:
  the requests sent to the model, the error that ends the run if there is one, and the
  database.
\<close>

definition analyzeGitHubRepo ::
  "runtime \<Rightarrow> sdk \<Rightarrow> prompts \<Rightarrow> llm_settings \<Rightarrow> string \<Rightarrow> RepoAnalysis \<Rightarrow> Framework
     \<Rightarrow> database \<Rightarrow> sdk_request list \<times> js_error option \<times> database" where
  "analyzeGitHubRepo rt k pr settings sessionId analysis framework db =
     (let generated = generateThreats rt k pr settings analysis framework
      in case snd generated of
           Inl e \<Rightarrow> (fst generated, Some e, db)
         | Inr generatedThreats \<Rightarrow>
             (fst generated, persistThreats True sessionId 0 generatedThreats db))"

text \<open>
  \<open>analyzeDesignDoc\<close>, as far as the threats go. The design enhancements, the pre-code
  risks and the context layer come from other generators; \<open>others\<close> is the error that
  one of them throws, if any, in which case nothing is stored.
\<close>

definition analyzeDesignDoc ::
  "runtime \<Rightarrow> sdk \<Rightarrow> prompts \<Rightarrow> llm_settings \<Rightarrow> string \<Rightarrow> string \<Rightarrow> string \<Rightarrow> Framework
     \<Rightarrow> js_error option \<Rightarrow> database \<Rightarrow> sdk_request list \<times> js_error option \<times> database" where
  "analyzeDesignDoc rt k pr settings sessionId docContent docRef framework others db =
     (let generated = generateThreatsFromDocument rt k pr settings docContent docRef framework
      in case snd generated of
           Inl e \<Rightarrow> (fst generated, Some e, db)
         | Inr generatedThreats \<Rightarrow>
             (case others of
                Some e \<Rightarrow> (fst generated, Some e, db)
              | None \<Rightarrow> (fst generated, persistThreats False sessionId 0 generatedThreats db)))"

text \<open>The rows that a run added to the table of threats.\<close>

definition newThreatRows :: "database \<Rightarrow> database \<Rightarrow> ThreatRow list" where
  "newThreatRows db db' = drop (length (threats db)) (threats db')"

subsection \<open>Notions used in the statements about the pipeline\<close>

text \<open>
  The stored severity of a row is the engine's severity, seen by callers, for the factors
  of the threat it was made from, and also for the factors kept with the record.
\<close>

definition severityFromEngine :: "ThreatRow \<Rightarrow> GeneratedThreat \<Rightarrow> bool" where
  "severityFromEngine row gt =
     (row_severity row = surfaced (riskSeverity (ratingOf gt))
      \<and> row_severity row
          = surfaced (riskSeverity
              (calculateRiskRating (Some (fullLikelihood (likelihood (ratingOf gt))))
                 (Some (fullImpact (impact (ratingOf gt)))))))"

text \<open>
  The options of the client and the arguments of the call of a request; and the keys of
  a value at every depth, in the order of the text: those of an object, each followed by
  the keys of its value, and those of the elements of an array.
\<close>

fun clientOptionsOf :: "sdk_request \<Rightarrow> json" where
  "clientOptionsOf (AnthropicMessagesCreate opts args) = opts"
| "clientOptionsOf (GeminiGenerateContent opts args) = opts"

fun argumentsOf :: "sdk_request \<Rightarrow> json list" where
  "argumentsOf (AnthropicMessagesCreate opts args) = args"
| "argumentsOf (GeminiGenerateContent opts args) = args"

fun allKeys :: "json \<Rightarrow> string list" where
  "allKeys (JObject kvs) = concat (map (\<lambda>kv. fst kv # allKeys (snd kv)) kvs)"
| "allKeys (JArray vs) = concat (map allKeys vs)"
| "allKeys v = []"

text \<open>What the code makes of the answer of the SDK to one request.\<close>

fun sdkAnswer :: "sdk \<Rightarrow> sdk_request \<Rightarrow> js_error + string" where
  "sdkAnswer k (AnthropicMessagesCreate opts args) =
     (case anthropic_create k opts args of
        Inl e \<Rightarrow> Inl e
      | Inr content \<Rightarrow>
          (case find (\<lambda>b. fst b = ''text'') content of
             None \<Rightarrow> Inl (JsError ''Error'' ''No text response from Anthropic'')
           | Some textBlock \<Rightarrow> Inr (snd textBlock)))"
| "sdkAnswer k (GeminiGenerateContent opts args) =
     (case gemini_generate k opts args of
        Inl e \<Rightarrow> Inl e
      | Inr txt \<Rightarrow>
          (case orElse txt None of
             None \<Rightarrow> Inl (JsError ''Error'' ''No text response from Gemini'')
           | Some t \<Rightarrow> Inr t))"

text \<open>An SDK whose every call fails with the error \<open>e\<close>.\<close>

definition failingSdk :: "js_error \<Rightarrow> sdk" where
  "failingSdk e = \<lparr>anthropic_create = (\<lambda>opts args. Inl e),
                   gemini_generate = (\<lambda>opts args. Inl e)\<rparr>"

definition timeoutError :: js_error where
  "timeoutError = JsError ''APIConnectionTimeoutError'' ''Request timed out.''"

definition geminiConfig :: LLMConfig where
  "geminiConfig =
     \<lparr>provider = Gemini, apiKey = ''g-test'', model = Some ''gemini-2.5-flash'',
      geminiEndpoint = Some ''https://proxy.example''\<rparr>"

definition anthropicConfig :: LLMConfig where
  "anthropicConfig =
     \<lparr>provider = Anthropic, apiKey = ''sk-test'', model = None, geminiEndpoint = None\<rparr>"

text \<open>No credentials at all, an empty database, and a small analysis.\<close>

definition noCredentials :: llm_settings where
  "noCredentials =
     \<lparr>env_GOOGLE_GEMINI_API_KEY = None, env_ANTHROPIC_API_KEY = None,
      db_llm_provider = None, db_anthropic_key = None, db_gemini_key = None,
      db_gemini_model = None, db_gemini_endpoint = None\<rparr>"

definition emptyDatabase :: database where
  "emptyDatabase = \<lparr>threats = [], mitigationRows = []\<rparr>"

definition noPrompts :: prompts where
  "noPrompts =
     \<lparr>SYSTEM_PROMPT = [], OWASP_SYSTEM_ADDENDUM = [], OUTPUT_SCHEMA = [],
      buildUserPrompt = (\<lambda>analysis framework. [])\<rparr>"

definition analysisExample :: RepoAnalysis where
  "analysisExample =
     \<lparr>repoUrl = ''https://github.com/acme/shop'', languages = [''JavaScript''],
      frameworks = [],
      components =
        [\<lparr>c_name = ''Application'', c_type = Service, c_files = [''src/util.js''],
          c_description = ''Application with 1 source files''\<rparr>,
         endUser],
      dataFlows = [],
      trustBoundaries =
        [\<lparr>tb_name = ''Application Boundary'', tb_components = [''Application'']\<rparr>,
         \<lparr>tb_name = ''External'', tb_components = [''End User'']\<rparr>],
      securityFindings =
        [\<lparr>sf_file = ''src/util.js'', sf_line = 4, sf_pattern = ''eval_usage'',
          sf_snippet = ''eval(x)'', sf_severity = High\<rparr>],
      fileTree = [''src/util.js''], entryPoints = []\<rparr>"

section \<open>Properties of the risk rating engine\<close>

lemma getLevel_Num:
  "getLevel (Num s) = (if s < 3 then LOW else if s < 6 then MEDIUM else HIGH)"
  by (simp add: getLevel_def)

lemma clamp_Num: "clamp (Num x) = Num (of_int (max 0 (min 9 (round x))))"
  by (simp add: clamp_def Math_min_def Math_max_def max_def min_def)

lemma clamp_PosInf: "clamp PosInf = Num 9"
  by (simp add: clamp_def Math_min_def Math_max_def)

lemma clamp_NegInf: "clamp NegInf = Num 0"
  by (simp add: clamp_def Math_min_def Math_max_def)

lemma clamp_NaN: "clamp NaN = NaN"
  by (simp add: clamp_def Math_min_def Math_max_def)

lemma isFactorValue_of_int: "0 \<le> k \<Longrightarrow> k \<le> 9 \<Longrightarrow> isFactorValue (Num (of_int k))"
  by (simp add: isFactorValue_def)

lemma isFactorValue_clamp: "v \<noteq> NaN \<Longrightarrow> isFactorValue (clamp v)"
proof (cases v)
  case (Num x)
  have "isFactorValue (Num (of_int (max 0 (min 9 (round x)))))"
    by (rule isFactorValue_of_int) simp_all
  with Num show ?thesis by (simp add: clamp_Num)
qed (simp_all add: clamp_PosInf clamp_NegInf isFactorValue_def)

lemma clamp_idem: "clamp (clamp v) = clamp v"
  by (cases v) (simp_all add: clamp_Num clamp_PosInf clamp_NegInf clamp_NaN)

text \<open>
  C2. The engine buckets a score below 3 to LOW, a score from 3 up to but excluding 6 to
  MEDIUM and a score of 6 or more to HIGH, with 2.99, 3.00, 5.99 and 6.00 falling to LOW,
  MEDIUM, MEDIUM and HIGH; the severity of every rating is the entry of the 3 by 3 matrix
  at (impact level, likelihood level), the levels being the buckets of the two means, and
  the nine entries are the nine that the specification lists.
\<close>

theorem C2_buckets_and_matrix:
  "getLevel (Num s) = (if s < 3 then LOW else if s < 6 then MEDIUM else HIGH)
   \<and> getLevel (Num (299 / 100)) = LOW \<and> getLevel (Num 3) = MEDIUM
   \<and> getLevel (Num (599 / 100)) = MEDIUM \<and> getLevel (Num 6) = HIGH
   \<and> likelihoodLevel (calculateRiskRating rl ri)
       = getLevel (likelihoodMean (validateLikelihood rl))
   \<and> impactLevel (calculateRiskRating rl ri) = getLevel (impactMean (validateImpact ri))
   \<and> riskSeverity (calculateRiskRating rl ri)
       = getRiskSeverity (impactLevel (calculateRiskRating rl ri))
           (likelihoodLevel (calculateRiskRating rl ri))
   \<and> getRiskSeverity HIGH HIGH = Critical \<and> getRiskSeverity HIGH MEDIUM = High
   \<and> getRiskSeverity MEDIUM HIGH = High \<and> getRiskSeverity HIGH LOW = Medium
   \<and> getRiskSeverity MEDIUM MEDIUM = Medium \<and> getRiskSeverity LOW HIGH = Medium
   \<and> getRiskSeverity MEDIUM LOW = Low \<and> getRiskSeverity LOW MEDIUM = Low
   \<and> getRiskSeverity LOW LOW = Note"
  by (simp add: getLevel_Num calculateRiskRating_def Let_def getRiskSeverity_def)

lemma validateLikelihood_factors:
  "likelihoodFactors (validateLikelihood rl)
     = map (\<lambda>f. case f of None \<Rightarrow> Num 5 | Some v \<Rightarrow> clamp v) (rawLikelihoodFactors rl)"
  by (cases rl)
     (simp_all add: likelihoodFactors_def validateLikelihood_def rawLikelihoodFactors_def
        likelihoodDefaults_def nullish_def clamp_Num numeral_eq_Suc split: option.splits)

lemma validateImpact_factors:
  "impactFactors (validateImpact ri)
     = map (\<lambda>f. case f of None \<Rightarrow> Num 5 | Some v \<Rightarrow> clamp v) (rawImpactFactors ri)"
  by (cases ri)
     (simp_all add: impactFactors_def validateImpact_def rawImpactFactors_def
        impactDefaults_def nullish_def clamp_Num numeral_eq_Suc split: option.splits)

lemma factor_of_raw:
  assumes "f \<noteq> Some NaN"
  shows "isFactorValue (case f of None \<Rightarrow> Num 5 | Some v \<Rightarrow> clamp v)"
proof (cases f)
  case None
  then show ?thesis by (simp add: isFactorValue_def)
next
  case (Some v)
  with assms show ?thesis by (simp add: isFactorValue_clamp)
qed

text \<open>
  When no supplied sub-factor is NaN, each of the 8 likelihood and 4 impact sub-factors of
  the rating is an integer between 0 and 9: a missing sub-factor becomes 5, and a
  supplied number is rounded to the nearest integer and clamped into the range.
\<close>

theorem factors_clamped_unless_nan:
  assumes "list_all (\<lambda>f. f \<noteq> Some NaN) (rawLikelihoodFactors rl @ rawImpactFactors ri)"
  shows "likelihoodFactors (likelihood (calculateRiskRating rl ri))
           = map (\<lambda>f. case f of None \<Rightarrow> Num 5 | Some v \<Rightarrow> clamp v) (rawLikelihoodFactors rl)
         \<and> impactFactors (impact (calculateRiskRating rl ri))
           = map (\<lambda>f. case f of None \<Rightarrow> Num 5 | Some v \<Rightarrow> clamp v) (rawImpactFactors ri)
         \<and> length (likelihoodFactors (likelihood (calculateRiskRating rl ri))) = 8
         \<and> length (impactFactors (impact (calculateRiskRating rl ri))) = 4
         \<and> list_all isFactorValue
             (likelihoodFactors (likelihood (calculateRiskRating rl ri))
              @ impactFactors (impact (calculateRiskRating rl ri)))"
proof -
  have l: "likelihood (calculateRiskRating rl ri) = validateLikelihood rl"
    and i: "impact (calculateRiskRating rl ri) = validateImpact ri"
    by (simp_all add: calculateRiskRating_def Let_def)
  have "list_all isFactorValue
          (map (\<lambda>f. case f of None \<Rightarrow> Num 5 | Some v \<Rightarrow> clamp v)
             (rawLikelihoodFactors rl @ rawImpactFactors ri))"
    using assms by (auto simp: list_all_iff intro: factor_of_raw)
  moreover have "length (likelihoodFactors (validateLikelihood rl)) = 8"
    and "length (impactFactors (validateImpact ri)) = 4"
    by (simp_all add: likelihoodFactors_def impactFactors_def)
  ultimately show ?thesis
    by (simp add: l i validateLikelihood_factors validateImpact_factors)
qed

theorem factors_clamped_unless_nan_witness:
  "list_all (\<lambda>f. f \<noteq> Some NaN)
     (rawLikelihoodFactors (Some rawL_example) @ rawImpactFactors (Some rawI_example))
   \<and> likelihoodFactors (likelihood (calculateRiskRating (Some rawL_example) (Some rawI_example)))
       = [Num 9, Num 5, Num 4, Num 0, Num 9, Num 0, Num 0, Num 6]
   \<and> impactFactors (impact (calculateRiskRating (Some rawL_example) (Some rawI_example)))
       = [Num 9, Num 5, Num 0, Num 7]"
proof -
  have h: "list_all (\<lambda>f. f \<noteq> Some NaN)
     (rawLikelihoodFactors (Some rawL_example) @ rawImpactFactors (Some rawI_example))"
    by (simp add: rawLikelihoodFactors_def rawImpactFactors_def rawL_example_def
          rawI_example_def)
  have r: "round (7 / 2 :: rat) = 4" "round (31 / 5 :: rat) = 6" "round (1 / 4 :: rat) = 0"
    by code_simp+
  show ?thesis
    using factors_clamped_unless_nan [OF h] h
    by (simp add: rawLikelihoodFactors_def rawImpactFactors_def rawL_example_def
          rawI_example_def clamp_Num clamp_PosInf clamp_NegInf r)
qed

text \<open>
  C3 at a failing input. Each sub-factor of a rating is to be an integer between 0 and 9,
  an unusable value being replaced by 5. For a likelihood whose skill level is NaN (what
  \<open>Math.round\<close> makes of a value that is not a number, such as the text \<open>high\<close>) and whose
  other sub-factors are missing, the skill level of the rating is NaN: it passes through
  \<open>Math.round\<close>, \<open>Math.min\<close> and \<open>Math.max\<close> unchanged, is neither 5 nor in the range,
  makes the likelihood score NaN, which no comparison of the bucketing holds for, so the
  likelihood level is HIGH and the severity High. With the skill level missing, the same
  input is rated MEDIUM and Medium.
\<close>

theorem C3_nan_factor_escapes_range:
  "skillLevel (likelihood (calculateRiskRating (Some rawL_nan) None)) = NaN
   \<and> \<not> isFactorValue (skillLevel (likelihood (calculateRiskRating (Some rawL_nan) None)))
   \<and> skillLevel (likelihood (calculateRiskRating (Some rawL_nan) None)) \<noteq> Num 5
   \<and> likelihoodScore (calculateRiskRating (Some rawL_nan) None) = NaN
   \<and> likelihoodLevel (calculateRiskRating (Some rawL_nan) None) = HIGH
   \<and> riskSeverity (calculateRiskRating (Some rawL_nan) None) = High
   \<and> skillLevel (likelihood
         (calculateRiskRating (Some (rawL_nan\<lparr>raw_skillLevel := None\<rparr>)) None)) = Num 5
   \<and> likelihoodLevel (calculateRiskRating (Some (rawL_nan\<lparr>raw_skillLevel := None\<rparr>)) None)
       = MEDIUM
   \<and> riskSeverity (calculateRiskRating (Some (rawL_nan\<lparr>raw_skillLevel := None\<rparr>)) None)
       = Medium"
  by code_simp

section \<open>Properties of the architecture extractor\<close>

lemma isFound_iff: "isFound pred xs = list_ex pred xs"
  by (induction xs) (simp_all add: isFound_def)

lemma list_ex_detected:
  "list_ex pred (detected matching nm ty n descr)
     = (matching \<noteq> [] \<and> pred \<lparr>c_name = nm, c_type = ty, c_files = take n matching,
          c_description = descr\<rparr>)"
  by (simp add: detected_def)

lemma classified_cases:
  "classifiedComponents fs files =
     (if nothingDetected fs files
      then [\<lparr>c_name = ''Application'', c_type = Service,
             c_files = take 20 (filter isSrcFile files),
             c_description =
               ''Application with '' @ showNat (length (filter isSrcFile files))
               @ '' source files''\<rparr>]
      else detected (filter isApiFile files) ''API Server'' Api 20
             (''API layer with '' @ showNat (length (filter isApiFile files))
              @ '' route/controller files'')
           @ detected (filter isFrontendFile files) ''Frontend Application'' Frontend 20
             (''Frontend with '' @ showNat (length (filter isFrontendFile files))
              @ '' component/page files'')
           @ detected (filter (contentMatches fs dbPatterns) files) ''Database'' Database 10
             ''Data persistence layer''
           @ detected (filter (contentMatches fs queuePatterns) files) ''Message Queue'' Queue 10
             ''Asynchronous messaging layer''
           @ detected (filter isAuthFile files) ''Auth Service'' Service 10
             ''Authentication and authorization service''
           @ detected (filter isInfraFile files) ''Infrastructure'' Config 10
             ''Infrastructure and configuration files''
           @ detected (filter isGatewayFile files) ''API Gateway'' Gateway 10
             ''API gateway or reverse proxy'')"
  unfolding classifiedComponents_def Let_def nothingDetected_def
  by (simp add: detected_def)

lemma filter_empty_list_ex: "(filter P xs \<noteq> []) = list_ex P xs"
  by (induction xs) simp_all

lemma list_ex_classified:
  "list_ex pred (classifiedComponents fs files) =
     (if nothingDetected fs files
      then pred \<lparr>c_name = ''Application'', c_type = Service,
             c_files = take 20 (filter isSrcFile files),
             c_description =
               ''Application with '' @ showNat (length (filter isSrcFile files))
               @ '' source files''\<rparr>
      else (filter isApiFile files \<noteq> []
              \<and> pred \<lparr>c_name = ''API Server'', c_type = Api,
                    c_files = take 20 (filter isApiFile files),
                    c_description =
                      ''API layer with '' @ showNat (length (filter isApiFile files))
                      @ '' route/controller files''\<rparr>)
           \<or> (filter isFrontendFile files \<noteq> []
              \<and> pred \<lparr>c_name = ''Frontend Application'', c_type = Frontend,
                    c_files = take 20 (filter isFrontendFile files),
                    c_description =
                      ''Frontend with '' @ showNat (length (filter isFrontendFile files))
                      @ '' component/page files''\<rparr>)
           \<or> (filter (contentMatches fs dbPatterns) files \<noteq> []
              \<and> pred \<lparr>c_name = ''Database'', c_type = Database,
                    c_files = take 10 (filter (contentMatches fs dbPatterns) files),
                    c_description = ''Data persistence layer''\<rparr>)
           \<or> (filter (contentMatches fs queuePatterns) files \<noteq> []
              \<and> pred \<lparr>c_name = ''Message Queue'', c_type = Queue,
                    c_files = take 10 (filter (contentMatches fs queuePatterns) files),
                    c_description = ''Asynchronous messaging layer''\<rparr>)
           \<or> (filter isAuthFile files \<noteq> []
              \<and> pred \<lparr>c_name = ''Auth Service'', c_type = Service,
                    c_files = take 10 (filter isAuthFile files),
                    c_description = ''Authentication and authorization service''\<rparr>)
           \<or> (filter isInfraFile files \<noteq> []
              \<and> pred \<lparr>c_name = ''Infrastructure'', c_type = Config,
                    c_files = take 10 (filter isInfraFile files),
                    c_description = ''Infrastructure and configuration files''\<rparr>)
           \<or> (filter isGatewayFile files \<noteq> []
              \<and> pred \<lparr>c_name = ''API Gateway'', c_type = Gateway,
                    c_files = take 10 (filter isGatewayFile files),
                    c_description = ''API gateway or reverse proxy''\<rparr>))"
proof (cases "nothingDetected fs files")
  case True
  then show ?thesis unfolding classified_cases by simp
next
  case False
  then show ?thesis
    unfolding classified_cases
    by (simp only: if_False list_ex_detected list_ex_append)
qed

lemma hasType_classified:
  "hasType (classifiedComponents fs files) t =
     (if nothingDetected fs files
      then t = Service
      else (filter isApiFile files \<noteq> [] \<and> t = Api)
           \<or> (filter isFrontendFile files \<noteq> [] \<and> t = Frontend)
           \<or> (filter (contentMatches fs dbPatterns) files \<noteq> [] \<and> t = Database)
           \<or> (filter (contentMatches fs queuePatterns) files \<noteq> [] \<and> t = Queue)
           \<or> (filter isAuthFile files \<noteq> [] \<and> t = Service)
           \<or> (filter isInfraFile files \<noteq> [] \<and> t = Config)
           \<or> (filter isGatewayFile files \<noteq> [] \<and> t = Gateway))"
  unfolding hasType_def list_ex_classified
  by (simp only: ComponentInfo.simps eq_commute [of _ t])

lemma hasName_classified:
  "hasName (classifiedComponents fs files) n =
     (if nothingDetected fs files
      then n = ''Application''
      else (filter isApiFile files \<noteq> [] \<and> n = ''API Server'')
           \<or> (filter isFrontendFile files \<noteq> [] \<and> n = ''Frontend Application'')
           \<or> (filter (contentMatches fs dbPatterns) files \<noteq> [] \<and> n = ''Database'')
           \<or> (filter (contentMatches fs queuePatterns) files \<noteq> [] \<and> n = ''Message Queue'')
           \<or> (filter isAuthFile files \<noteq> [] \<and> n = ''Auth Service'')
           \<or> (filter isInfraFile files \<noteq> [] \<and> n = ''Infrastructure'')
           \<or> (filter isGatewayFile files \<noteq> [] \<and> n = ''API Gateway''))"
  unfolding hasName_def list_ex_classified
  by (simp only: ComponentInfo.simps eq_commute [of _ n])

lemma classified_hasType:
  "hasType (classifiedComponents fs files) Api = list_ex isApiFile files"
  "hasType (classifiedComponents fs files) Frontend = list_ex isFrontendFile files"
  "hasType (classifiedComponents fs files) Database
     = list_ex (contentMatches fs dbPatterns) files"
  "hasType (classifiedComponents fs files) Queue
     = list_ex (contentMatches fs queuePatterns) files"
  "hasType (classifiedComponents fs files) Gateway = list_ex isGatewayFile files"
  "hasType (classifiedComponents fs files) Config = list_ex isInfraFile files"
  "hasType (classifiedComponents fs files) External = False"
  unfolding hasType_classified filter_empty_list_ex [symmetric]
  by (simp_all add: nothingDetected_def)

lemma classified_hasName:
  "hasName (classifiedComponents fs files) ''Auth Service'' = list_ex isAuthFile files"
  "hasName (classifiedComponents fs files) ''End User'' = False"
  unfolding hasName_classified filter_empty_list_ex [symmetric]
  by (simp_all add: nothingDetected_def)

lemma classified_nonempty: "classifiedComponents fs files \<noteq> []"
  unfolding classified_cases nothingDetected_def by (simp add: detected_def)

lemma hasType_append: "hasType (xs @ ys) t = (hasType xs t \<or> hasType ys t)"
  by (simp add: hasType_def)

lemma hasName_append: "hasName (xs @ ys) n = (hasName xs n \<or> hasName ys n)"
  by (simp add: hasName_def)

lemma hasType_endUser: "hasType [endUser] t = (t = External)"
  by (auto simp: hasType_def endUser_def)

lemma hasName_endUser: "hasName [endUser] n = (n = ''End User'')"
  by (auto simp: hasName_def endUser_def)

lemma buildDataFlows_table:
  "buildDataFlows comps =
     flowTable (hasType comps Api) (hasType comps Database) (hasType comps Queue)
       (hasName comps ''Auth Service'') (hasType comps Frontend) (hasType comps Gateway)"
  by (simp add: buildDataFlows_def flowTable_def isFound_iff hasType_def hasName_def Let_def)

lemma arch_components_eq:
  "arch_components (extractArchitecture fs files) = classifiedComponents fs files @ [endUser]"
  by (simp add: extractArchitecture_def Let_def)

lemma flowTable_endpoints_valid:
  assumes "hasName comps ''End User''"
    and "a \<Longrightarrow> hasName comps ''API Server''"
    and "d \<Longrightarrow> hasName comps ''Database''"
    and "q \<Longrightarrow> hasName comps ''Message Queue''"
    and "au \<Longrightarrow> hasName comps ''Auth Service''"
    and "f \<Longrightarrow> hasName comps ''Frontend Application''"
    and "g \<Longrightarrow> hasName comps ''API Gateway''"
  shows "list_all (\<lambda>x. hasName comps (flow_from x) \<and> hasName comps (flow_to x))
           (flowTable a d q au f g)"
  using assms by (simp add: flowTable_def mkFlow_def)

lemma classified_names:
  "list_ex isApiFile files \<Longrightarrow> hasName (classifiedComponents fs files) ''API Server''"
  "list_ex (contentMatches fs dbPatterns) files
     \<Longrightarrow> hasName (classifiedComponents fs files) ''Database''"
  "list_ex (contentMatches fs queuePatterns) files
     \<Longrightarrow> hasName (classifiedComponents fs files) ''Message Queue''"
  "list_ex isFrontendFile files
     \<Longrightarrow> hasName (classifiedComponents fs files) ''Frontend Application''"
  "list_ex isGatewayFile files \<Longrightarrow> hasName (classifiedComponents fs files) ''API Gateway''"
  "list_ex isAuthFile files \<Longrightarrow> hasName (classifiedComponents fs files) ''Auth Service''"
  unfolding hasName_classified filter_empty_list_ex [symmetric]
  by (simp_all add: nothingDetected_def)

text \<open>
  C7 (amended). The inferred data flows are exactly those of the rule table that the
  code evaluates once over the classified components: if a frontend and an API both
  exist, End User to Frontend and Frontend to API; else, if an API exists, End User to
  the Gateway if present and to the API otherwise; then Gateway to API, API to Auth, API
  to Database, Auth to Database and API to Queue, each if both exist. No other flow is
  emitted, each kind of component exists exactly when a file matches its heuristic, and
  both endpoints of every flow are components of the result.
\<close>

theorem C7_data_flows:
  "arch_dataFlows (extractArchitecture fs files)
     = flowTable (hasType (arch_components (extractArchitecture fs files)) Api)
         (hasType (arch_components (extractArchitecture fs files)) Database)
         (hasType (arch_components (extractArchitecture fs files)) Queue)
         (hasName (arch_components (extractArchitecture fs files)) ''Auth Service'')
         (hasType (arch_components (extractArchitecture fs files)) Frontend)
         (hasType (arch_components (extractArchitecture fs files)) Gateway)
   \<and> hasType (arch_components (extractArchitecture fs files)) Api = list_ex isApiFile files
   \<and> hasType (arch_components (extractArchitecture fs files)) Database
       = list_ex (contentMatches fs dbPatterns) files
   \<and> hasType (arch_components (extractArchitecture fs files)) Queue
       = list_ex (contentMatches fs queuePatterns) files
   \<and> hasName (arch_components (extractArchitecture fs files)) ''Auth Service''
       = list_ex isAuthFile files
   \<and> hasType (arch_components (extractArchitecture fs files)) Frontend
       = list_ex isFrontendFile files
   \<and> hasType (arch_components (extractArchitecture fs files)) Gateway
       = list_ex isGatewayFile files
   \<and> list_all (\<lambda>x. hasName (arch_components (extractArchitecture fs files)) (flow_from x)
                 \<and> hasName (arch_components (extractArchitecture fs files)) (flow_to x))
       (arch_dataFlows (extractArchitecture fs files))"
proof -
  let ?cl = "classifiedComponents fs files"
  let ?comps = "arch_components (extractArchitecture fs files)"
  have flags:
    "hasType ?comps Api = hasType ?cl Api" "hasType ?comps Database = hasType ?cl Database"
    "hasType ?comps Queue = hasType ?cl Queue" "hasType ?comps Frontend = hasType ?cl Frontend"
    "hasType ?comps Gateway = hasType ?cl Gateway"
    "hasName ?comps ''Auth Service'' = hasName ?cl ''Auth Service''"
    by (simp_all add: arch_components_eq hasType_append hasName_append hasType_endUser
          hasName_endUser)
  have auth: "hasName ?cl ''Auth Service'' = list_ex isAuthFile files"
    by (rule classified_hasName)
  have flows: "arch_dataFlows (extractArchitecture fs files) = buildDataFlows ?cl"
    by (simp add: extractArchitecture_def Let_def)
  have eu: "hasName ?comps ''End User''"
    by (simp add: arch_components_eq hasName_append hasName_endUser)
  have names: "\<And>n. hasName ?cl n \<Longrightarrow> hasName ?comps n"
    by (simp add: arch_components_eq hasName_append)
  have valid: "list_all (\<lambda>x. hasName ?comps (flow_from x) \<and> hasName ?comps (flow_to x))
      (flowTable (hasType ?cl Api) (hasType ?cl Database) (hasType ?cl Queue)
         (hasName ?cl ''Auth Service'') (hasType ?cl Frontend) (hasType ?cl Gateway))"
    by (rule flowTable_endpoints_valid)
       (simp_all add: eu classified_hasType classified_hasName names classified_names)
  show ?thesis
    unfolding flags flows buildDataFlows_table
    using valid by (simp add: classified_hasType auth)
qed

text \<open>
  C7 as stated fails: with a route file and a page file the code also emits the flow
  from End User to Frontend Application, which the claimed table does not license.
\<close>

theorem C7_extra_flow_counterexample:
  "map endpoints (arch_dataFlows (extractArchitecture unreadable [''routes/users.ts'', ''pages/home.tsx'']))
     = [(''End User'', ''Frontend Application''), (''Frontend Application'', ''API Server'')]
   \<and> claimedFlowEndpoints
       (arch_components (extractArchitecture unreadable [''routes/users.ts'', ''pages/home.tsx'']))
     = [(''Frontend Application'', ''API Server'')]"
  by code_simp

section \<open>Properties of the trust boundaries\<close>

lemma classified_not_external:
  "filter (\<lambda>c. c_type c = External) (classifiedComponents fs files) = []"
  using classified_hasType(7) [of fs files]
  by (simp add: hasType_def filter_empty_conv list_ex_iff)

lemma classified_all_internal:
  "filter (\<lambda>c. c_type c \<noteq> External) (classifiedComponents fs files)
     = classifiedComponents fs files"
  using classified_hasType(7) [of fs files]
  by (simp add: hasType_def filter_id_conv list_ex_iff)

lemma find_config_classified:
  "find (\<lambda>c. c_type c = Config) (classifiedComponents fs files @ [endUser])
     = (if list_ex isInfraFile files
        then Some \<lparr>c_name = ''Infrastructure'', c_type = Config,
               c_files = take 10 (filter isInfraFile files),
               c_description = ''Infrastructure and configuration files''\<rparr>
        else None)"
  unfolding classified_cases nothingDetected_def
  by (simp add: detected_def endUser_def filter_empty_list_ex [symmetric])

text \<open>
  C8. Every analysis has exactly one component of type external, the synthetic End User,
  and its trust boundaries are the application boundary holding the names of all the
  other components, the external boundary holding End User, and, when and only when a
  component of type config exists, a third boundary for the infrastructure: 2 boundaries
  or 3, and 3 exactly when a config component exists.
\<close>

theorem C8_end_user_and_boundaries:
  "filter (\<lambda>c. c_type c = External) (arch_components (extractArchitecture fs files)) = [endUser]
   \<and> c_name endUser = ''End User''
   \<and> arch_trustBoundaries (extractArchitecture fs files)
       = [\<lparr>tb_name = ''Application Boundary'',
            tb_components =
              map c_name (filter (\<lambda>c. c_type c \<noteq> External)
                (arch_components (extractArchitecture fs files)))\<rparr>,
          \<lparr>tb_name = ''External'', tb_components = [''End User'']\<rparr>]
         @ (if hasType (arch_components (extractArchitecture fs files)) Config
            then [\<lparr>tb_name = ''Infrastructure'', tb_components = [''Infrastructure'']\<rparr>]
            else [])
   \<and> (length (arch_trustBoundaries (extractArchitecture fs files)) = 3)
       = hasType (arch_components (extractArchitecture fs files)) Config
   \<and> (length (arch_trustBoundaries (extractArchitecture fs files)) = 2)
       = (\<not> hasType (arch_components (extractArchitecture fs files)) Config)"
proof -
  let ?cl = "classifiedComponents fs files"
  have ext: "filter (\<lambda>c. c_type c = External) (?cl @ [endUser]) = [endUser]"
    by (simp add: classified_not_external) (simp add: endUser_def)
  have int: "filter (\<lambda>c. c_type c \<noteq> External) (?cl @ [endUser]) = ?cl"
    by (simp add: classified_all_internal) (simp add: endUser_def)
  have cfg: "hasType (?cl @ [endUser]) Config = list_ex isInfraFile files"
    by (simp add: hasType_append hasType_endUser classified_hasType)
  have tb: "arch_trustBoundaries (extractArchitecture fs files)
      = buildTrustBoundaries (?cl @ [endUser])"
    by (simp add: extractArchitecture_def Let_def)
  have ne: "map c_name ?cl \<noteq> []"
    by (simp add: classified_nonempty)
  have b: "buildTrustBoundaries (?cl @ [endUser])
      = [\<lparr>tb_name = ''Application Boundary'', tb_components = map c_name ?cl\<rparr>,
         \<lparr>tb_name = ''External'', tb_components = [''End User'']\<rparr>]
        @ (if list_ex isInfraFile files
           then [\<lparr>tb_name = ''Infrastructure'', tb_components = [''Infrastructure'']\<rparr>]
           else [])"
    unfolding buildTrustBoundaries_def Let_def ext int find_config_classified
    using ne by (simp add: endUser_def)
  show ?thesis
    unfolding arch_components_eq tb b ext int cfg
    by (simp add: endUser_def)
qed

section \<open>Properties of the pattern scanner\<close>

lemma mkFinding_file: "sf_file (mkFinding f content pat idx) = f"
  by (simp add: mkFinding_def Let_def)

lemma mkFinding_pattern: "sf_pattern (mkFinding f content pat idx) = sp_name pat"
  by (simp add: mkFinding_def Let_def)

lemma pushCount_le: "pushCount c m \<le> 10"
proof -
  have "max 1 (10 - c) \<le> 10" by simp
  then have "min m (max 1 (10 - c)) \<le> 10" by (rule min.coboundedI2)
  then show ?thesis by (simp add: pushCount_def)
qed

lemma pushCount_zero: "pushCount 0 m = min 10 m"
  unfolding pushCount_def by (cases "m = 0") (simp_all add: min_def max_def)

lemma pushCount_step:
  "Suc c < 10 \<Longrightarrow> pushCount c (Suc n) = Suc (pushCount (Suc c) n)"
  unfolding pushCount_def min_def max_def by (cases "n = 0") (simp_all, arith)

lemma pushCount_stop: "10 \<le> Suc c \<Longrightarrow> pushCount c (Suc n) = 1"
  unfolding pushCount_def min_def max_def by simp arith

lemma scanMatches_shape:
  "scanMatches f content pat idxs fin
     = fin @ map (mkFinding f content pat)
         (take (pushCount (length (findingsOfFile f fin)) (length idxs)) idxs)"
proof (induction idxs arbitrary: fin)
  case Nil
  show ?case by simp
next
  case (Cons idx rest)
  let ?c = "length (findingsOfFile f fin)"
  let ?fin' = "fin @ [mkFinding f content pat idx]"
  have c': "length (findingsOfFile f ?fin') = Suc ?c"
    by (simp add: findingsOfFile_def mkFinding_file)
  show ?case
  proof (cases "10 \<le> Suc ?c")
    case True
    then have "scanMatches f content pat (idx # rest) fin = ?fin'"
      using c' by (simp add: findingsOfFile_def Let_def)
    then show ?thesis using True by (simp add: pushCount_stop)
  next
    case False
    then have "scanMatches f content pat (idx # rest) fin = scanMatches f content pat rest ?fin'"
      using c' by (simp add: findingsOfFile_def Let_def)
    then show ?thesis using False by (simp add: Cons.IH c' pushCount_step)
  qed
qed

lemma findingsOfFile_append:
  "findingsOfFile g (xs @ ys) = findingsOfFile g xs @ findingsOfFile g ys"
  by (simp add: findingsOfFile_def)

lemma findingsOfPair_append:
  "findingsOfPair g p (xs @ ys) = findingsOfPair g p xs @ findingsOfPair g p ys"
  by (simp add: findingsOfPair_def)

lemma findingsOfFile_new:
  "findingsOfFile g (map (mkFinding f content pat) idxs)
     = (if g = f then map (mkFinding f content pat) idxs else [])"
  by (induction idxs) (simp_all add: findingsOfFile_def mkFinding_file)

lemma findingsOfPair_new:
  "findingsOfPair g p (map (mkFinding f content pat) idxs)
     = (if g = f \<and> p = sp_name pat then map (mkFinding f content pat) idxs else [])"
  by (induction idxs) (auto simp: findingsOfPair_def mkFinding_file mkFinding_pattern)

lemma length_file_scanMatches:
  "length (findingsOfFile g (scanMatches f content pat idxs fin))
     = length (findingsOfFile g fin)
       + (if g = f then pushCount (length (findingsOfFile f fin)) (length idxs) else 0)"
proof -
  have "pushCount (length (findingsOfFile f fin)) (length idxs) \<le> length idxs"
    by (simp add: pushCount_def)
  then show ?thesis
    by (simp add: scanMatches_shape findingsOfFile_append findingsOfFile_new min_def)
qed

lemma length_pair_scanMatches:
  "length (findingsOfPair g p (scanMatches f content pat idxs fin))
     = length (findingsOfPair g p fin)
       + (if g = f \<and> p = sp_name pat
          then pushCount (length (findingsOfFile f fin)) (length idxs) else 0)"
proof -
  have "pushCount (length (findingsOfFile f fin)) (length idxs) \<le> length idxs"
    by (simp add: pushCount_def)
  then show ?thesis
    by (simp add: scanMatches_shape findingsOfPair_append findingsOfPair_new min_def)
qed

lemma scanPatterns_append:
  "scanPatterns rx f content (ps @ qs) fin
     = scanPatterns rx f content qs (scanPatterns rx f content ps fin)"
  by (induction ps arbitrary: fin) simp_all

lemma scanPatterns_no_match:
  "list_all (\<lambda>q. rx (sp_name q) content = []) pats
     \<Longrightarrow> scanPatterns rx f content pats fin = fin"
  by (induction pats arbitrary: fin) simp_all

lemma pair_scanPatterns_other:
  "g \<noteq> f \<or> p \<notin> sp_name ` set pats
     \<Longrightarrow> findingsOfPair g p (scanPatterns rx f content pats fin) = findingsOfPair g p fin"
proof (induction pats arbitrary: fin)
  case Nil
  show ?case by simp
next
  case (Cons pat pats)
  then have "findingsOfPair g p (scanMatches f content pat (rx (sp_name pat) content) fin)
      = findingsOfPair g p fin"
    by (auto simp: scanMatches_shape findingsOfPair_append findingsOfPair_new)
  with Cons show ?case by auto
qed

lemma file_scanPatterns_other:
  "g \<noteq> f \<Longrightarrow> findingsOfFile g (scanPatterns rx f content pats fin) = findingsOfFile g fin"
proof (induction pats arbitrary: fin)
  case Nil
  show ?case by simp
next
  case (Cons pat pats)
  then show ?case
    by (simp add: scanMatches_shape findingsOfFile_append findingsOfFile_new)
qed

lemma pair_scanPatterns_le:
  "distinct (map sp_name pats)
     \<Longrightarrow> length (findingsOfPair g p (scanPatterns rx f content pats fin))
         \<le> length (findingsOfPair g p fin) + 10"
proof (induction pats arbitrary: fin)
  case Nil
  show ?case by simp
next
  case (Cons pat pats)
  let ?fin' = "scanMatches f content pat (rx (sp_name pat) content) fin"
  show ?case
  proof (cases "g = f \<and> p = sp_name pat")
    case True
    with Cons.prems have "p \<notin> sp_name ` set pats" by auto
    then have "findingsOfPair g p (scanPatterns rx f content pats ?fin')
        = findingsOfPair g p ?fin'"
      by (simp add: pair_scanPatterns_other)
    moreover have "length (findingsOfPair g p ?fin') \<le> length (findingsOfPair g p fin) + 10"
      using pushCount_le by (simp add: length_pair_scanMatches)
    ultimately show ?thesis by simp
  next
    case False
    then have "length (findingsOfPair g p ?fin') = length (findingsOfPair g p fin)"
      by (auto simp: length_pair_scanMatches)
    moreover have "length (findingsOfPair g p (scanPatterns rx f content pats ?fin'))
        \<le> length (findingsOfPair g p ?fin') + 10"
      using Cons.prems by (intro Cons.IH) simp
    ultimately show ?thesis by simp
  qed
qed

lemma distinct_detectors: "distinct (map sp_name SECURITY_PATTERNS)"
  by (simp add: SECURITY_PATTERNS_def)

lemma pair_scanFile_other:
  "g \<noteq> f \<Longrightarrow> findingsOfPair g p (scanFile rx fs f fin) = findingsOfPair g p fin"
  by (simp add: scanFile_def Let_def pair_scanPatterns_other split: option.splits)

lemma file_scanFile_other:
  "g \<noteq> f \<Longrightarrow> findingsOfFile g (scanFile rx fs f fin) = findingsOfFile g fin"
  by (simp add: scanFile_def Let_def file_scanPatterns_other split: option.splits)

lemma pair_scanFile_le:
  "length (findingsOfPair g p (scanFile rx fs f fin)) \<le> length (findingsOfPair g p fin) + 10"
  using pair_scanPatterns_le [OF distinct_detectors]
  by (simp add: scanFile_def Let_def split: option.splits)

lemma pair_scanFiles_other:
  "g \<notin> set files \<Longrightarrow> findingsOfPair g p (scanFiles rx fs files fin) = findingsOfPair g p fin"
  by (induction files arbitrary: fin) (auto simp: pair_scanFile_other)

lemma file_scanFiles_other:
  "g \<notin> set files \<Longrightarrow> findingsOfFile g (scanFiles rx fs files fin) = findingsOfFile g fin"
  by (induction files arbitrary: fin) (auto simp: file_scanFile_other)

lemma pair_scanFiles_le:
  "distinct files
     \<Longrightarrow> length (findingsOfPair g p (scanFiles rx fs files fin))
         \<le> length (findingsOfPair g p fin) + 10"
proof (induction files arbitrary: fin)
  case Nil
  show ?case by simp
next
  case (Cons f files)
  show ?case
  proof (cases "g = f")
    case True
    with Cons.prems have "g \<notin> set files" by simp
    then show ?thesis
      using pair_scanFile_le [of g p rx fs f fin] by (simp add: pair_scanFiles_other)
  next
    case False
    then have "findingsOfPair g p (scanFile rx fs f fin) = findingsOfPair g p fin"
      by (rule pair_scanFile_other)
    moreover have "length (findingsOfPair g p (scanFiles rx fs files (scanFile rx fs f fin)))
        \<le> length (findingsOfPair g p (scanFile rx fs f fin)) + 10"
      using Cons.prems by (intro Cons.IH) simp
    ultimately show ?thesis by simp
  qed
qed

lemma scanFiles_append:
  "scanFiles rx fs (xs @ ys) fin = scanFiles rx fs ys (scanFiles rx fs xs fin)"
  by (induction xs arbitrary: fin) simp_all

text \<open>The scan of a file listed once, seen from that file: the findings of the file
  are those that its own loop over the detectors pushes, starting from none.\<close>

lemma scan_of_one_file:
  assumes "distinct files" and "f \<in> set files" and "isScanned f" and "fs f = Some content"
  shows "\<exists>fin. findingsOfFile f fin = []
           \<and> findingsOfFile f (scanSecurity rx fs files)
               = findingsOfFile f (scanPatterns rx f content SECURITY_PATTERNS fin)
           \<and> (\<forall>p. findingsOfPair f p (scanSecurity rx fs files)
               = findingsOfPair f p (scanPatterns rx f content SECURITY_PATTERNS fin))"
proof -
  from assms(2) obtain pre post where split: "files = pre @ f # post"
    by (auto simp: in_set_conv_decomp)
  with assms(1) have notin: "f \<notin> set pre" "f \<notin> set post" by auto
  let ?fin = "scanFiles rx fs pre []"
  have "findingsOfFile f ?fin = findingsOfFile f []"
    using notin(1) by (rule file_scanFiles_other)
  then have empty: "findingsOfFile f ?fin = []"
    by (simp add: findingsOfFile_def)
  have one: "scanFile rx fs f ?fin = scanPatterns rx f content SECURITY_PATTERNS ?fin"
    using assms(3,4) by (auto simp: scanFile_def isScanned_def Let_def)
  have all: "scanSecurity rx fs files = scanFiles rx fs post (scanFile rx fs f ?fin)"
    by (simp add: scanSecurity_def split scanFiles_append)
  show ?thesis
    using empty notin(2)
    by (intro exI [of _ ?fin]) (simp add: all one file_scanFiles_other pair_scanFiles_other)
qed

lemma detectors_split:
  assumes "p \<in> set detectorNames"
  shows "\<exists>pat rest. SECURITY_PATTERNS = detectorsBefore p @ pat # rest \<and> sp_name pat = p
           \<and> p \<notin> sp_name ` set rest"
proof -
  let ?P = "\<lambda>q. sp_name q \<noteq> p"
  have ex: "\<exists>q \<in> set SECURITY_PATTERNS. \<not> ?P q"
    using assms by (auto simp: detectorNames_def)
  then have ne: "dropWhile ?P SECURITY_PATTERNS \<noteq> []"
    by (simp add: dropWhile_eq_Nil_conv)
  then obtain pat rest where dw: "dropWhile ?P SECURITY_PATTERNS = pat # rest"
    by (cases "dropWhile ?P SECURITY_PATTERNS") auto
  then have nm: "sp_name pat = p"
    using hd_dropWhile [OF ne] by simp
  have eq: "SECURITY_PATTERNS = detectorsBefore p @ pat # rest"
    using takeWhile_dropWhile_id [of ?P SECURITY_PATTERNS] dw
    by (simp add: detectorsBefore_def)
  have "distinct (map sp_name (detectorsBefore p @ pat # rest))"
    using distinct_detectors eq by simp
  then have "p \<notin> sp_name ` set rest" using nm by auto
  with eq nm show ?thesis by blast
qed

lemma file_scanPatterns_single:
  assumes "distinct (map sp_name pats)"
    and "list_all (\<lambda>q. rx (sp_name q) content = []) (filter (\<lambda>q. sp_name q \<noteq> p) pats)"
    and "findingsOfFile f fin = []"
    and "p \<in> sp_name ` set pats"
  shows "length (findingsOfFile f (scanPatterns rx f content pats fin))
           = min 10 (length (rx p content))"
  using assms
proof (induction pats arbitrary: fin)
  case Nil
  then show ?case by simp
next
  case (Cons pat pats)
  show ?case
  proof (cases "sp_name pat = p")
    case True
    with Cons.prems(1) have "p \<notin> sp_name ` set pats" by auto
    then have "filter (\<lambda>q. sp_name q \<noteq> p) pats = pats"
      by (auto simp: filter_id_conv)
    with Cons.prems(2) True have "list_all (\<lambda>q. rx (sp_name q) content = []) pats"
      by simp
    then have "scanPatterns rx f content (pat # pats) fin
        = scanMatches f content pat (rx p content) fin"
      using True by (simp add: scanPatterns_no_match)
    then show ?thesis
      using Cons.prems(3) by (simp add: length_file_scanMatches pushCount_zero)
  next
    case False
    with Cons.prems(2) have "rx (sp_name pat) content = []" by simp
    then have "scanPatterns rx f content (pat # pats) fin = scanPatterns rx f content pats fin"
      by simp
    moreover have "length (findingsOfFile f (scanPatterns rx f content pats fin))
        = min 10 (length (rx p content))"
      using Cons.prems False by (intro Cons.IH) auto
    ultimately show ?thesis by simp
  qed
qed

text \<open>
  What the scan does guarantee. In a list of distinct files, it records at most 10
  findings for every pair of a detector and a file. A scanned file in which a detector
  has 10 matches or more, and no detector registered before it has any, yields exactly
  10 findings for that pair. A scanned file in which one detector alone has matches
  yields, in total, the number of those matches capped at 10.
\<close>

theorem scan_cap_per_detector:
  assumes "distinct files"
  shows "length (findingsOfPair f p (scanSecurity rx fs files)) \<le> 10
    \<and> (f \<in> set files \<and> isScanned f \<and> fs f = Some content \<and> p \<in> set detectorNames
         \<and> 10 \<le> length (rx p content)
         \<and> list_all (\<lambda>q. rx (sp_name q) content = []) (detectorsBefore p)
       \<longrightarrow> length (findingsOfPair f p (scanSecurity rx fs files)) = 10)
    \<and> (f \<in> set files \<and> isScanned f \<and> fs f = Some content \<and> p \<in> set detectorNames
         \<and> list_all (\<lambda>q. rx (sp_name q) content = []) (detectorsOtherThan p)
       \<longrightarrow> length (findingsOfFile f (scanSecurity rx fs files))
           = min 10 (length (rx p content)))"
proof (intro conjI impI)
  show "length (findingsOfPair f p (scanSecurity rx fs files)) \<le> 10"
    using pair_scanFiles_le [OF assms, of f p rx fs "[]"]
    by (simp add: scanSecurity_def findingsOfPair_def)
next
  assume h: "f \<in> set files \<and> isScanned f \<and> fs f = Some content \<and> p \<in> set detectorNames
    \<and> 10 \<le> length (rx p content)
    \<and> list_all (\<lambda>q. rx (sp_name q) content = []) (detectorsBefore p)"
  then obtain fin where fin: "findingsOfFile f fin = []"
    and pair: "findingsOfPair f p (scanSecurity rx fs files)
      = findingsOfPair f p (scanPatterns rx f content SECURITY_PATTERNS fin)"
    using scan_of_one_file [OF assms, of f fs content rx] by blast
  from h obtain pat rest where sp: "SECURITY_PATTERNS = detectorsBefore p @ pat # rest"
    and nm: "sp_name pat = p" and rest: "p \<notin> sp_name ` set rest"
    using detectors_split by blast
  have pre: "scanPatterns rx f content (detectorsBefore p) fin = fin"
    using h by (simp add: scanPatterns_no_match)
  have "findingsOfPair f p fin = []"
    using fin by (simp add: findingsOfFile_def findingsOfPair_def filter_empty_conv)
  then have "length (findingsOfPair f p (scanMatches f content pat (rx p content) fin)) = 10"
    using h fin nm by (simp add: length_pair_scanMatches pushCount_zero)
  then have "length (findingsOfPair f p
      (scanPatterns rx f content (detectorsBefore p @ pat # rest) fin)) = 10"
    using rest nm by (simp add: scanPatterns_append pre pair_scanPatterns_other)
  then show "length (findingsOfPair f p (scanSecurity rx fs files)) = 10"
    using pair sp by simp
next
  assume h: "f \<in> set files \<and> isScanned f \<and> fs f = Some content \<and> p \<in> set detectorNames
    \<and> list_all (\<lambda>q. rx (sp_name q) content = []) (detectorsOtherThan p)"
  then obtain fin where fin: "findingsOfFile f fin = []"
    and fl: "findingsOfFile f (scanSecurity rx fs files)
      = findingsOfFile f (scanPatterns rx f content SECURITY_PATTERNS fin)"
    using scan_of_one_file [OF assms, of f fs content rx] by blast
  have "length (findingsOfFile f (scanPatterns rx f content SECURITY_PATTERNS fin))
      = min 10 (length (rx p content))"
    using h fin distinct_detectors
    by (intro file_scanPatterns_single) (simp_all add: detectorsOtherThan_def detectorNames_def)
  then show "length (findingsOfFile f (scanSecurity rx fs files))
      = min 10 (length (rx p content))"
    using fl by simp
qed

theorem scan_cap_per_detector_witness:
  "distinct [''src/util.js'', ''README.md'']
   \<and> ''src/util.js'' \<in> set [''src/util.js'', ''README.md'']
   \<and> isScanned ''src/util.js''
   \<and> fsEvalOnly ''src/util.js'' = Some evalContent
   \<and> ''eval_usage'' \<in> set detectorNames
   \<and> 10 \<le> length (rxEvalOnly ''eval_usage'' evalContent)
   \<and> list_all (\<lambda>q. rxEvalOnly (sp_name q) evalContent = []) (detectorsBefore ''eval_usage'')
   \<and> list_all (\<lambda>q. rxEvalOnly (sp_name q) evalContent = []) (detectorsOtherThan ''eval_usage'')
   \<and> length (findingsOfPair ''src/util.js'' ''eval_usage''
         (scanSecurity rxEvalOnly fsEvalOnly [''src/util.js'', ''README.md''])) = 10
   \<and> length (findingsOfFile ''src/util.js''
         (scanSecurity rxEvalOnly fsEvalOnly [''src/util.js'', ''README.md''])) = 10"
proof -
  have d: "distinct [''src/util.js'', ''README.md'']" by simp
  have m: "''src/util.js'' \<in> set [''src/util.js'', ''README.md'']" by simp
  have s: "isScanned ''src/util.js''" by code_simp
  have r: "fsEvalOnly ''src/util.js'' = Some evalContent" by (simp add: fsEvalOnly_def)
  have n: "''eval_usage'' \<in> set detectorNames" by code_simp
  have l: "10 \<le> length (rxEvalOnly ''eval_usage'' evalContent)"
    and l': "length (rxEvalOnly ''eval_usage'' evalContent) = 11"
    by (simp_all add: rxEvalOnly_def)
  have b: "list_all (\<lambda>q. rxEvalOnly (sp_name q) evalContent = [])
      (detectorsBefore ''eval_usage'')"
    by (simp add: detectorsBefore_def SECURITY_PATTERNS_def rxEvalOnly_def)
  have oth: "list_all (\<lambda>q. rxEvalOnly (sp_name q) evalContent = [])
      (detectorsOtherThan ''eval_usage'')"
    by (simp add: detectorsOtherThan_def SECURITY_PATTERNS_def rxEvalOnly_def)
  from scan_cap_per_detector [OF d, of "''src/util.js''" "''eval_usage''" rxEvalOnly fsEvalOnly evalContent]
  show ?thesis using d m s r n l l' b oth by simp
qed

text \<open>
  The test of the cap counts the findings of the file: in a file with three hard-coded
  secrets and eleven calls of \<open>eval\<close>, the detector of \<open>eval\<close> has 11 matches and yields
  7 findings, the earlier detector holding three of the ten.
\<close>

theorem detector_gets_rest_of_cap:
  "isScanned ''src/util.js''
   \<and> length (rxExample ''eval_usage'' contentExample) = 11
   \<and> length (findingsOfPair ''src/util.js'' ''eval_usage''
         (scanSecurity rxExample fsExample [''src/util.js''])) = 7
   \<and> length (findingsOfFile ''src/util.js''
         (scanSecurity rxExample fsExample [''src/util.js''])) = 10"
  by code_simp

text \<open>
  C4 at a failing input. The scanner is to record at most 10 findings for a file in
  total, and exactly 10 for a detector with more than 10 matches in it. In a scanned file
  with eleven calls of \<open>eval\<close> and one of \<open>md5\<close>, the detector of \<open>eval\<close> yields 10
  findings, and the detector of weak cryptography, registered after it, still adds one:
  the test of the cap stands after the push and its \<open>break\<close> leaves only the loop over
  the matches of one detector, so the file has 11 findings.
\<close>

theorem C4_file_total_exceeds_cap:
  "isScanned ''src/util.js''
   \<and> fsEvalMd5 ''src/util.js'' = Some evalMd5Content
   \<and> length (rxEvalMd5 ''eval_usage'' evalMd5Content) = 11
   \<and> length (rxEvalMd5 ''weak_crypto'' evalMd5Content) = 1
   \<and> length (findingsOfPair ''src/util.js'' ''eval_usage''
         (scanSecurity rxEvalMd5 fsEvalMd5 [''src/util.js''])) = 10
   \<and> length (findingsOfPair ''src/util.js'' ''weak_crypto''
         (scanSecurity rxEvalMd5 fsEvalMd5 [''src/util.js''])) = 1
   \<and> length (findingsOfFile ''src/util.js''
         (scanSecurity rxEvalMd5 fsEvalMd5 [''src/util.js''])) = 11
   \<and> map sf_line (findingsOfFile ''src/util.js''
         (scanSecurity rxEvalMd5 fsEvalMd5 [''src/util.js'']))
       = [1, 2, 3, 4, 5, 6, 7, 8, 9, 10, 12]"
  by code_simp

section \<open>Files that the scan passes over\<close>

lemma file_scanFile_skipped:
  "\<not> isScanned g \<or> fs g = None
     \<Longrightarrow> findingsOfFile g (scanFile rx fs f fin) = findingsOfFile g fin"
proof (cases "g = f")
  case True
  assume "\<not> isScanned g \<or> fs g = None"
  then have "scanFile rx fs f fin = fin"
    using True by (auto simp: scanFile_def isScanned_def Let_def)
  then show ?thesis by simp
next
  case False
  then show ?thesis by (rule file_scanFile_other)
qed

lemma file_scanFiles_skipped:
  "\<not> isScanned g \<or> fs g = None
     \<Longrightarrow> findingsOfFile g (scanFiles rx fs files fin) = findingsOfFile g fin"
  by (induction files arbitrary: fin) (simp_all add: file_scanFile_skipped)

text \<open>
  The scan reports nothing for a file that fails the extension test, for a file that
  cannot be read and for a file that is not in the list: such a file is passed over and
  the scan goes on with the next one.
\<close>

theorem scan_passes_over_files:
  assumes "\<not> isScanned f \<or> fs f = None \<or> f \<notin> set files"
  shows "findingsOfFile f (scanSecurity rx fs files) = []"
proof (cases "f \<notin> set files")
  case True
  then have "findingsOfFile f (scanFiles rx fs files []) = findingsOfFile f []"
    by (rule file_scanFiles_other)
  then show ?thesis by (simp add: scanSecurity_def findingsOfFile_def)
next
  case False
  with assms have "\<not> isScanned f \<or> fs f = None" by simp
  then have "findingsOfFile f (scanFiles rx fs files []) = findingsOfFile f []"
    by (rule file_scanFiles_skipped)
  then show ?thesis by (simp add: scanSecurity_def findingsOfFile_def)
qed

theorem scan_passes_over_files_witness:
  "\<not> isScanned ''README.md''
   \<and> ''README.md'' \<in> set [''src/util.js'', ''README.md'']
   \<and> findingsOfFile ''README.md''
       (scanSecurity rxEvalOnly fsEvalOnly [''src/util.js'', ''README.md'']) = []
   \<and> length (scanSecurity rxEvalOnly fsEvalOnly [''src/util.js'', ''README.md'']) = 10"
proof -
  have n: "\<not> isScanned ''README.md''" by code_simp
  have l: "length (scanSecurity rxEvalOnly fsEvalOnly [''src/util.js'', ''README.md'']) = 10"
    by code_simp
  show ?thesis
    using scan_passes_over_files [of "''README.md''" fsEvalOnly
        "[''src/util.js'', ''README.md'']" rxEvalOnly] n l
    by simp
qed

section \<open>Properties of the response parser\<close>

lemma scanFrom_append:
  "scanFrom i (xs @ ys) st = scanFrom (i + length xs) ys (scanFrom i xs st)"
  by (induction xs arbitrary: i st) simp_all

lemma scanStep_plain:
  "\<not> structural c \<Longrightarrow> \<not> inString st \<Longrightarrow> \<not> escape st \<Longrightarrow> scanStep i c st = st"
  by (simp add: scanStep_def structural_def Let_def)

lemma scanStep_in_string:
  "c \<noteq> CHR 0x22 \<Longrightarrow> c \<noteq> CHR 0x5C \<Longrightarrow> inString st \<Longrightarrow> \<not> escape st \<Longrightarrow> scanStep i c st = st"
  by (simp add: scanStep_def)

lemma scanStep_backslash:
  "\<not> escape st \<Longrightarrow> scanStep i (CHR 0x5C) st = st\<lparr>escape := True\<rparr>"
  by (simp add: scanStep_def)

lemma scanStep_escaped: "escape st \<Longrightarrow> scanStep i c st = st\<lparr>escape := False\<rparr>"
  by (simp add: scanStep_def)

lemma scanStep_quote:
  "\<not> escape st \<Longrightarrow> scanStep i (CHR 0x22) st = st\<lparr>inString := \<not> inString st\<rparr>"
  by (simp add: scanStep_def)

lemma scanStep_open:
  "c = CHR ''['' \<or> c = CHR ''{'' \<Longrightarrow> \<not> inString st \<Longrightarrow> \<not> escape st
     \<Longrightarrow> scanStep i c st = st\<lparr>depth := depth st + 1\<rparr>"
  by (auto simp: scanStep_def Let_def)

lemma scanStep_close_bracket:
  "\<not> inString st \<Longrightarrow> \<not> escape st \<Longrightarrow> scanStep i (CHR '']'') st = st\<lparr>depth := depth st - 1\<rparr>"
  by (simp add: scanStep_def Let_def)

lemma scanStep_close_brace:
  "\<not> inString st \<Longrightarrow> \<not> escape st
     \<Longrightarrow> scanStep i (CHR ''}'') st
         = (if depth st = 2 then st\<lparr>depth := 1, lastCompleteObjectEnd := int i\<rparr>
            else st\<lparr>depth := depth st - 1\<rparr>)"
  by (simp add: scanStep_def Let_def)

text \<open>Inside a string literal nothing but the escape flag changes.\<close>

lemma strBody_prefix:
  assumes "strBody b" and "inString st" and "\<not> escape st"
  shows "scanFrom i (take k b) st = st \<or> scanFrom i (take k b) st = st\<lparr>escape := True\<rparr>"
  using assms
proof (induction b arbitrary: i k rule: strBody.induct)
  case strBody_nil
  then show ?case by simp
next
  case (strBody_char c t)
  show ?case
  proof (cases k)
    case 0
    then show ?thesis by simp
  next
    case (Suc k')
    then show ?thesis
      using strBody_char by (simp add: scanStep_in_string)
  qed
next
  case (strBody_esc t c)
  show ?case
  proof (cases k)
    case 0
    then show ?thesis by simp
  next
    case (Suc k')
    show ?thesis
    proof (cases k')
      case 0
      with Suc show ?thesis
        using strBody_esc.prems by (simp add: scanStep_backslash)
    next
      case (Suc k'')
      have "scanStep (Suc i) c (scanStep i (CHR 0x5C) st) = st"
        using strBody_esc.prems by (simp add: scanStep_backslash scanStep_escaped)
      then show ?thesis
        using \<open>k = Suc k'\<close> Suc strBody_esc.IH [OF strBody_esc.prems] by simp
    qed
  qed
qed

lemma strBody_full:
  assumes "strBody b" and "inString st" and "\<not> escape st"
  shows "scanFrom i b st = st"
  using assms
proof (induction b arbitrary: i rule: strBody.induct)
  case strBody_nil
  then show ?case by simp
next
  case (strBody_char c t)
  then show ?case by (simp add: scanStep_in_string)
next
  case (strBody_esc t c)
  have "scanStep (Suc i) c (scanStep i (CHR 0x5C) st) = st"
    using strBody_esc.prems by (simp add: scanStep_backslash scanStep_escaped)
  then show ?case using strBody_esc by simp
qed

text \<open>
  Below the top level of the array, balanced text returns the scan to the state in which
  it started, and no prefix of it records a complete element or leaves the level.
\<close>

lemma balanced_scan:
  assumes "balanced b" and "\<not> inString st" and "\<not> escape st" and "2 \<le> depth st"
  shows "scanFrom i b st = st
       \<and> lastCompleteObjectEnd (scanFrom i (take k b) st) = lastCompleteObjectEnd st
       \<and> depth st \<le> depth (scanFrom i (take k b) st)"
  using assms
proof (induction b arbitrary: i k st rule: balanced.induct)
  case balanced_nil
  then show ?case by simp
next
  case (balanced_plain c t)
  have step: "scanStep i c st = st"
    using balanced_plain by (simp add: scanStep_plain)
  show ?case
  proof (cases k)
    case 0
    then show ?thesis
      using balanced_plain.IH [of st "Suc i" 0] balanced_plain.prems by (simp add: step)
  next
    case (Suc k')
    then show ?thesis
      using balanced_plain.IH [of st "Suc i" k'] balanced_plain.prems by (simp add: step)
  qed
next
  case (balanced_string b t)
  let ?s1 = "st\<lparr>inString := True\<rparr>"
  have q1: "scanStep i (CHR 0x22) st = ?s1"
    using balanced_string.prems by (simp add: scanStep_quote)
  have in1: "inString ?s1" "\<not> escape ?s1"
    using balanced_string.prems by simp_all
  have body: "scanFrom (Suc i) b ?s1 = ?s1"
    using strBody_full [OF balanced_string.hyps(1) in1] .
  have q2: "scanStep (Suc (i + length b)) (CHR 0x22) ?s1 = st"
    using balanced_string.prems by (simp add: scanStep_quote)
  have full: "scanFrom i (CHR 0x22 # b @ CHR 0x22 # t) st = scanFrom (Suc (Suc i + length b)) t st"
    by (simp add: q1 scanFrom_append body q2)
  have rest: "\<And>j m. scanFrom j t st = st
      \<and> lastCompleteObjectEnd (scanFrom j (take m t) st) = lastCompleteObjectEnd st
      \<and> depth st \<le> depth (scanFrom j (take m t) st)"
    using balanced_string.IH balanced_string.prems by blast
  show ?case
  proof (cases k)
    case 0
    then show ?thesis using full rest by simp
  next
    case (Suc k')
    show ?thesis
    proof (cases "k' \<le> length b")
      case True
      then have tk: "take k (CHR 0x22 # b @ CHR 0x22 # t) = CHR 0x22 # take k' b"
        using Suc by simp
      have "scanFrom (Suc i) (take k' b) ?s1 = ?s1
          \<or> scanFrom (Suc i) (take k' b) ?s1 = ?s1\<lparr>escape := True\<rparr>"
        using strBody_prefix [OF balanced_string.hyps(1) in1] .
      then show ?thesis
        using full rest by (auto simp: tk q1)
    next
      case False
      then have tk: "take k (CHR 0x22 # b @ CHR 0x22 # t)
          = CHR 0x22 # b @ CHR 0x22 # take (k' - Suc (length b)) t"
        using Suc by (simp add: take_Cons')
      have "scanFrom i (take k (CHR 0x22 # b @ CHR 0x22 # t)) st
          = scanFrom (Suc (Suc i + length b)) (take (k' - Suc (length b)) t) st"
        by (simp add: tk q1 scanFrom_append body q2)
      then show ?thesis using full rest by simp
    qed
  qed
next
  case (balanced_array a t)
  let ?s1 = "st\<lparr>depth := depth st + 1\<rparr>"
  have o: "scanStep i (CHR ''['') st = ?s1"
    using balanced_array.prems by (simp add: scanStep_open)
  have c1: "\<not> inString ?s1" "\<not> escape ?s1" "2 \<le> depth ?s1"
    using balanced_array.prems by simp_all
  have inner: "\<And>j m. scanFrom j a ?s1 = ?s1
      \<and> lastCompleteObjectEnd (scanFrom j (take m a) ?s1) = lastCompleteObjectEnd ?s1
      \<and> depth ?s1 \<le> depth (scanFrom j (take m a) ?s1)"
    using balanced_array.IH(1) c1 by blast
  have cl: "scanStep (Suc (i + length a)) (CHR '']'') ?s1 = st"
    using balanced_array.prems by (simp add: scanStep_close_bracket)
  have full: "scanFrom i (CHR ''['' # a @ CHR '']'' # t) st
      = scanFrom (Suc (Suc i + length a)) t st"
    by (simp add: o scanFrom_append inner cl)
  have rest: "\<And>j m. scanFrom j t st = st
      \<and> lastCompleteObjectEnd (scanFrom j (take m t) st) = lastCompleteObjectEnd st
      \<and> depth st \<le> depth (scanFrom j (take m t) st)"
    using balanced_array.IH(2) balanced_array.prems by blast
  show ?case
  proof (cases k)
    case 0
    then show ?thesis using full rest by simp
  next
    case (Suc k')
    show ?thesis
    proof (cases "k' \<le> length a")
      case True
      then have tk: "take k (CHR ''['' # a @ CHR '']'' # t) = CHR ''['' # take k' a"
        using Suc by simp
      show ?thesis
        using full rest inner [of "Suc i" k'] by (simp add: tk o)
    next
      case False
      then have tk: "take k (CHR ''['' # a @ CHR '']'' # t)
          = CHR ''['' # a @ CHR '']'' # take (k' - Suc (length a)) t"
        using Suc by (simp add: take_Cons')
      have "scanFrom i (take k (CHR ''['' # a @ CHR '']'' # t)) st
          = scanFrom (Suc (Suc i + length a)) (take (k' - Suc (length a)) t) st"
        by (simp add: tk o scanFrom_append inner cl)
      then show ?thesis using full rest by simp
    qed
  qed
next
  case (balanced_object a t)
  let ?s1 = "st\<lparr>depth := depth st + 1\<rparr>"
  have o: "scanStep i (CHR ''{'') st = ?s1"
    using balanced_object.prems by (simp add: scanStep_open)
  have c1: "\<not> inString ?s1" "\<not> escape ?s1" "2 \<le> depth ?s1"
    using balanced_object.prems by simp_all
  have inner: "\<And>j m. scanFrom j a ?s1 = ?s1
      \<and> lastCompleteObjectEnd (scanFrom j (take m a) ?s1) = lastCompleteObjectEnd ?s1
      \<and> depth ?s1 \<le> depth (scanFrom j (take m a) ?s1)"
    using balanced_object.IH(1) c1 by blast
  have cl: "scanStep (Suc (i + length a)) (CHR ''}'') ?s1 = st"
    using balanced_object.prems by (simp add: scanStep_close_brace)
  have full: "scanFrom i (CHR ''{'' # a @ CHR ''}'' # t) st
      = scanFrom (Suc (Suc i + length a)) t st"
    by (simp add: o scanFrom_append inner cl)
  have rest: "\<And>j m. scanFrom j t st = st
      \<and> lastCompleteObjectEnd (scanFrom j (take m t) st) = lastCompleteObjectEnd st
      \<and> depth st \<le> depth (scanFrom j (take m t) st)"
    using balanced_object.IH(2) balanced_object.prems by blast
  show ?case
  proof (cases k)
    case 0
    then show ?thesis using full rest by simp
  next
    case (Suc k')
    show ?thesis
    proof (cases "k' \<le> length a")
      case True
      then have tk: "take k (CHR ''{'' # a @ CHR ''}'' # t) = CHR ''{'' # take k' a"
        using Suc by simp
      show ?thesis
        using full rest inner [of "Suc i" k'] by (simp add: tk o)
    next
      case False
      then have tk: "take k (CHR ''{'' # a @ CHR ''}'' # t)
          = CHR ''{'' # a @ CHR ''}'' # take (k' - Suc (length a)) t"
        using Suc by (simp add: take_Cons')
      have "scanFrom i (take k (CHR ''{'' # a @ CHR ''}'' # t)) st
          = scanFrom (Suc (Suc i + length a)) (take (k' - Suc (length a)) t) st"
        by (simp add: tk o scanFrom_append inner cl)
      then show ?thesis using full rest by simp
    qed
  qed
qed

lemma scanFrom_plain:
  "list_all (\<lambda>c. \<not> structural c) ws \<Longrightarrow> \<not> inString st \<Longrightarrow> \<not> escape st
     \<Longrightarrow> scanFrom i ws st = st"
  by (induction ws arbitrary: i) (simp_all add: scanStep_plain)

lemma list_all_take: "list_all P xs \<Longrightarrow> list_all P (take n xs)"
  by (auto simp: list_all_iff dest: in_set_takeD)

text \<open>An array cut before the end of its first element: the scan records nothing.\<close>

lemma scan_truncated_first:
  assumes "list_all (\<lambda>c. \<not> structural c) ws" and "balanced b"
  shows "lastCompleteObjectEnd (scanFrom 0 (CHR ''['' # take j (ws @ CHR ''{'' # b)) scanInit) = - 1"
proof -
  let ?s1 = "scanInit\<lparr>depth := 1\<rparr>"
  let ?s2 = "scanInit\<lparr>depth := 2\<rparr>"
  have o: "scanStep 0 (CHR ''['') scanInit = ?s1"
    by (simp add: scanStep_open scanInit_def)
  have c1: "\<not> inString ?s1" "\<not> escape ?s1"
    by (simp_all add: scanInit_def)
  have l1: "lastCompleteObjectEnd ?s1 = - 1" and l2: "lastCompleteObjectEnd ?s2 = - 1"
    by (simp_all add: scanInit_def)
  show ?thesis
  proof (cases "j \<le> length ws")
    case True
    then have tk: "take j (ws @ CHR ''{'' # b) = take j ws" by simp
    have "scanFrom (Suc 0) (take j ws) ?s1 = ?s1"
      using assms(1) c1 by (intro scanFrom_plain list_all_take)
    then have "scanFrom 0 (CHR ''['' # take j (ws @ CHR ''{'' # b)) scanInit = ?s1"
      unfolding tk by (simp add: o)
    then show ?thesis using l1 by simp
  next
    case False
    then obtain m where j: "j = Suc (length ws + m)"
      by (metis add_Suc_right less_iff_Suc_add not_le_imp_less)
    then have tk: "take j (ws @ CHR ''{'' # b) = ws @ CHR ''{'' # take m b"
      by simp
    have w: "scanFrom (Suc 0) ws ?s1 = ?s1"
      using assms(1) c1 by (intro scanFrom_plain)
    have o2: "scanStep (Suc (length ws)) (CHR ''{'') ?s1 = ?s2"
      by (simp add: scanStep_open scanInit_def)
    have c2: "\<not> inString ?s2" "\<not> escape ?s2" "2 \<le> depth ?s2"
      by (simp_all add: scanInit_def)
    have "lastCompleteObjectEnd (scanFrom (Suc (Suc (length ws))) (take m b) ?s2)
        = lastCompleteObjectEnd ?s2"
      using balanced_scan [OF assms(2) c2] by blast
    moreover have "scanFrom 0 (CHR ''['' # take j (ws @ CHR ''{'' # b)) scanInit
        = scanFrom (Suc (Suc (length ws))) (take m b) ?s2"
      unfolding tk by (simp add: o scanFrom_append w o2)
    ultimately show ?thesis using l2 by simp
  qed
qed

text \<open>
  C6 (amended). When the array text located in the response is an opening bracket
  followed by a proper or improper prefix of white space and one object (so that it is
  cut before the end of its first element) and \<open>JSON.parse\<close> rejects it, the recovery
  finds no complete element and fails, and the parser throws the error ``Failed to
  parse threat model response'': it does not return an empty threat list.
\<close>

theorem C6_truncated_in_first_element:
  assumes "arraySlice text = CHR ''['' # take j (ws @ CHR ''{'' # b)"
    and "list_all (\<lambda>c. \<not> structural c) ws"
    and "balanced b"
    and "parseArray rt ''Expected JSON array'' (arraySlice text) = Inl firstError"
  shows "repairTruncatedJsonArray (arraySlice text)
           = Inl (JsError ''Error'' ''Could not find any complete objects in truncated JSON'')
       \<and> parseThreatsResponse rt text
           = Inl (JsError ''Error''
               (''Failed to parse threat model response: '' @ errorToString firstError))"
proof -
  have "lastCompleteObjectEnd (scanFrom 0 (arraySlice text) scanInit) = - 1"
    unfolding assms(1) using assms(2,3) by (rule scan_truncated_first)
  then have r: "repairTruncatedJsonArray (arraySlice text)
      = Inl (JsError ''Error'' ''Could not find any complete objects in truncated JSON'')"
    by (simp add: repairTruncatedJsonArray_def Let_def)
  then show ?thesis
    using assms(4) by (simp add: parseThreatsResponse_def Let_def)
qed

lemma strBody_plain:
  "list_all (\<lambda>c. c \<noteq> CHR 0x22 \<and> c \<noteq> CHR 0x5C) s \<Longrightarrow> strBody s"
  by (induction s) (auto intro: strBody.intros)

lemma balanced_firstElementBody: "balanced firstElementBody"
proof -
  have x: "balanced (CHR 0x22 # ''x'' @ CHR 0x22 # [])"
    by (intro balanced_string balanced_nil strBody_plain) simp
  have arr: "balanced (CHR ''['' # (CHR 0x22 # ''x'' @ CHR 0x22 # []) @ CHR '']'' # [])"
    by (intro balanced_array x balanced_nil)
  have colon: "balanced (CHR '':'' # CHR ''['' # (CHR 0x22 # ''x'' @ CHR 0x22 # []) @ CHR '']'' # [])"
    by (intro balanced_plain arr) (simp add: structural_def)
  have key2: "balanced (CHR 0x22 # ''assumptions'' @ CHR 0x22
      # CHR '':'' # CHR ''['' # (CHR 0x22 # ''x'' @ CHR 0x22 # []) @ CHR '']'' # [])"
    by (intro balanced_string colon strBody_plain) simp
  have comma: "balanced (CHR '','' # CHR 0x22 # ''assumptions'' @ CHR 0x22
      # CHR '':'' # CHR ''['' # (CHR 0x22 # ''x'' @ CHR 0x22 # []) @ CHR '']'' # [])"
    by (intro balanced_plain key2) (simp add: structural_def)
  have val1: "balanced (CHR 0x22 # ''A'' @ CHR 0x22 # CHR '','' # CHR 0x22 # ''assumptions''
      @ CHR 0x22 # CHR '':'' # CHR ''['' # (CHR 0x22 # ''x'' @ CHR 0x22 # []) @ CHR '']'' # [])"
    by (intro balanced_string comma strBody_plain) simp
  have colon1: "balanced (CHR '':'' # CHR 0x22 # ''A'' @ CHR 0x22 # CHR '','' # CHR 0x22
      # ''assumptions'' @ CHR 0x22 # CHR '':'' # CHR ''[''
      # (CHR 0x22 # ''x'' @ CHR 0x22 # []) @ CHR '']'' # [])"
    by (intro balanced_plain val1) (simp add: structural_def)
  have "balanced (CHR 0x22 # ''title'' @ CHR 0x22 # CHR '':'' # CHR 0x22 # ''A'' @ CHR 0x22
      # CHR '','' # CHR 0x22 # ''assumptions'' @ CHR 0x22 # CHR '':'' # CHR ''[''
      # (CHR 0x22 # ''x'' @ CHR 0x22 # []) @ CHR '']'' # [])"
    by (intro balanced_string colon1 strBody_plain) simp
  then show ?thesis by (simp add: firstElementBody_def)
qed

theorem C6_truncated_in_first_element_witness:
  "arraySlice truncatedInFirst = CHR ''['' # take 31 ([] @ CHR ''{'' # firstElementBody)
   \<and> list_all (\<lambda>c. \<not> structural c) []
   \<and> balanced firstElementBody
   \<and> parseArray rtExample ''Expected JSON array'' (arraySlice truncatedInFirst)
       = Inl unexpectedEnd
   \<and> repairTruncatedJsonArray (arraySlice truncatedInFirst)
       = Inl (JsError ''Error'' ''Could not find any complete objects in truncated JSON'')
   \<and> parseThreatsResponse rtExample truncatedInFirst
       = Inl (JsError ''Error''
           ''Failed to parse threat model response: SyntaxError: Unexpected end of JSON input'')"
proof -
  have a: "arraySlice truncatedInFirst = CHR ''['' # take 31 ([] @ CHR ''{'' # firstElementBody)"
    by code_simp
  have w: "list_all (\<lambda>c. \<not> structural c) []" by simp
  have p: "parseArray rtExample ''Expected JSON array'' (arraySlice truncatedInFirst)
      = Inl unexpectedEnd"
    by code_simp
  have e: "errorToString unexpectedEnd = ''SyntaxError: Unexpected end of JSON input''"
    by (simp add: unexpectedEnd_def)
  show ?thesis
    using C6_truncated_in_first_element [OF a w balanced_firstElementBody p] a w p
      balanced_firstElementBody
    by (simp add: e)
qed

text \<open>
  C6 as stated fails: for a response cut inside its first element the parser throws; it
  does not return the empty list.
\<close>

theorem C6_throws_counterexample:
  "parseThreatsResponse rtExample truncatedInFirst
     = Inl (JsError ''Error''
         ''Failed to parse threat model response: SyntaxError: Unexpected end of JSON input'')
   \<and> parseThreatsResponse rtExample truncatedInFirst \<noteq> Inr []"
  by code_simp

text \<open>
  C5 at a failing input. Two elements are complete and the third is cut in its title.
  The slice of step 2 ends at the last closing bracket of the text, which belongs to the
  second element, so the text that reaches the recovery has lost the closing brace of
  that element: the recovery keeps one element, not two. On the text itself the same
  scan would have kept both.
\<close>

theorem C5_slice_loses_last_complete_element:
  \<open>arraySlice truncatedAfterTwo
     = ''[{"title":"A","assumptions":["x"]},{"title":"B","assumptions":["y"]''
   \<and> repairTruncatedJsonArray (arraySlice truncatedAfterTwo)
       = Inr ''[{"title":"A","assumptions":["x"]}]''
   \<and> map_sum id (map title) (parseThreatsResponse rtExample truncatedAfterTwo) = Inr [''A'']
   \<and> repairTruncatedJsonArray truncatedAfterTwo
       = Inr ''[{"title":"A","assumptions":["x"]},{"title":"B","assumptions":["y"]}]''\<close>
  by code_simp

section \<open>The recovery scan on an array text that was not cut by the slice\<close>

lemma scan_element:
  assumes "wellFormedElement e" and "\<not> inString st" and "\<not> escape st" and "depth st = 1"
  shows "scanFrom i (elementText e) st
           = st\<lparr>lastCompleteObjectEnd := int (i + length (elementText e)) - 1\<rparr>"
proof -
  obtain w b where e: "e = (w, b)" by (cases e)
  let ?s2 = "st\<lparr>depth := 2\<rparr>"
  have w: "scanFrom i w st = st"
    using assms e by (intro scanFrom_plain) (simp_all add: wellFormedElement_def)
  have o: "scanStep (i + length w) (CHR ''{'') st = ?s2"
    using assms by (simp add: scanStep_open)
  have c2: "\<not> inString ?s2" "\<not> escape ?s2" "2 \<le> depth ?s2"
    using assms by simp_all
  have "balanced b" using assms(1) e by (simp add: wellFormedElement_def)
  then have b: "scanFrom (Suc (i + length w)) b ?s2 = ?s2"
    using balanced_scan [OF _ c2] by blast
  have c: "scanStep (Suc (i + length w + length b)) (CHR ''}'') ?s2
      = st\<lparr>lastCompleteObjectEnd := int (Suc (i + length w + length b))\<rparr>"
    using assms by (simp add: scanStep_close_brace)
  have "scanFrom i (w @ CHR ''{'' # b @ ''}'') st
      = st\<lparr>lastCompleteObjectEnd := int (Suc (i + length w + length b))\<rparr>"
    by (simp add: scanFrom_append w o b c)
  moreover have "int (i + length (elementText e)) - 1 = int (Suc (i + length w + length b))"
    by (simp add: elementText_def e)
  ultimately show ?thesis by (simp add: elementText_def e)
qed

lemma scan_elements:
  assumes "list_all wellFormedElement es" and "es \<noteq> []"
    and "\<not> inString st" and "\<not> escape st" and "depth st = 1"
  shows "scanFrom i (elementsText es) st
           = st\<lparr>lastCompleteObjectEnd := int (i + length (elementsText es)) - 1\<rparr>"
  using assms
proof (induction es arbitrary: i st)
  case Nil
  then show ?case by simp
next
  case (Cons e es)
  let ?s1 = "st\<lparr>lastCompleteObjectEnd := int (i + length (elementText e)) - 1\<rparr>"
  have first: "scanFrom i (elementText e) st = ?s1"
    using Cons.prems by (intro scan_element) simp_all
  show ?case
  proof (cases "es = []")
    case True
    then show ?thesis using first by (simp add: elementsText_def)
  next
    case False
    have "scanFrom (i + length (elementText e)) (elementsText es) ?s1
        = ?s1\<lparr>lastCompleteObjectEnd :=
              int (i + length (elementText e) + length (elementsText es)) - 1\<rparr>"
      using Cons.prems False by (intro Cons.IH) simp_all
    then show ?thesis
      by (simp add: elementsText_def scanFrom_append first add.assoc)
  qed
qed

lemma scan_cut_element:
  assumes "list_all (\<lambda>c. \<not> structural c) ws" and "balanced b"
    and "\<not> inString st" and "\<not> escape st" and "depth st = 1"
  shows "lastCompleteObjectEnd (scanFrom i (take j (ws @ CHR ''{'' # b)) st)
           = lastCompleteObjectEnd st"
proof (cases "j \<le> length ws")
  case True
  then have "take j (ws @ CHR ''{'' # b) = take j ws" by simp
  moreover have "scanFrom i (take j ws) st = st"
    using assms by (intro scanFrom_plain list_all_take)
  ultimately show ?thesis by simp
next
  case False
  then obtain m where "j = Suc (length ws + m)"
    by (metis add_Suc_right less_iff_Suc_add not_le_imp_less)
  then have tk: "take j (ws @ CHR ''{'' # b) = ws @ CHR ''{'' # take m b"
    by simp
  let ?s2 = "st\<lparr>depth := 2\<rparr>"
  have w: "scanFrom i ws st = st"
    using assms by (intro scanFrom_plain)
  have o: "scanStep (i + length ws) (CHR ''{'') st = ?s2"
    using assms by (simp add: scanStep_open)
  have c2: "\<not> inString ?s2" "\<not> escape ?s2" "2 \<le> depth ?s2"
    using assms by simp_all
  have "lastCompleteObjectEnd (scanFrom (Suc (i + length ws)) (take m b) ?s2)
      = lastCompleteObjectEnd ?s2"
    using balanced_scan [OF assms(2) c2] by blast
  then show ?thesis
    unfolding tk by (simp add: scanFrom_append w o)
qed

lemma elementText_nonempty: "elementText e \<noteq> []"
  by (simp add: elementText_def)

lemma elementsText_nonempty: "es \<noteq> [] \<Longrightarrow> elementsText es \<noteq> []"
  by (cases es) (simp_all add: elementsText_def elementText_nonempty)

text \<open>
  On an array text made of an opening bracket, one or more complete objects (each after
  its separator and white space) and an element cut anywhere before its closing brace,
  the recovery returns the opening bracket, the complete objects and a closing bracket:
  brackets, braces and quotes inside string literals and nested values do not mislead
  the scan.
\<close>

theorem recovery_keeps_complete_elements:
  assumes "list_all wellFormedElement es" and "es \<noteq> []"
    and "list_all (\<lambda>c. \<not> structural c) ws" and "balanced b"
  shows "repairTruncatedJsonArray
           (CHR ''['' # elementsText es @ take j (ws @ CHR ''{'' # b))
         = Inr (CHR ''['' # elementsText es @ '']'')"
proof -
  let ?s1 = "scanInit\<lparr>depth := 1\<rparr>"
  let ?s2 = "?s1\<lparr>lastCompleteObjectEnd := int (Suc 0 + length (elementsText es)) - 1\<rparr>"
  have o: "scanStep 0 (CHR ''['') scanInit = ?s1"
    by (simp add: scanStep_open scanInit_def)
  have c1: "\<not> inString ?s1" "\<not> escape ?s1" "depth ?s1 = 1"
    by (simp_all add: scanInit_def)
  have body: "scanFrom (Suc 0) (elementsText es) ?s1 = ?s2"
    using assms(1,2) c1 by (rule scan_elements)
  have c2: "\<not> inString ?s2" "\<not> escape ?s2" "depth ?s2 = 1"
    by (simp_all add: scanInit_def)
  have "lastCompleteObjectEnd
      (scanFrom (Suc 0 + length (elementsText es)) (take j (ws @ CHR ''{'' # b)) ?s2)
      = lastCompleteObjectEnd ?s2"
    using assms(3,4) c2 by (rule scan_cut_element)
  then have last: "lastCompleteObjectEnd
      (scanFrom 0 (CHR ''['' # elementsText es @ take j (ws @ CHR ''{'' # b)) scanInit)
      = int (length (elementsText es))"
    by (simp add: o scanFrom_append body)
  have pos: "0 < length (elementsText es)"
    using assms(2) by (simp add: elementsText_nonempty)
  have n: "nat (int (length (elementsText es)) + 1) = Suc (length (elementsText es))"
    by simp
  show ?thesis
    unfolding repairTruncatedJsonArray_def Let_def last n using pos by simp
qed

theorem recovery_keeps_complete_elements_witness:
  \<open>list_all wellFormedElement [([], firstElementBody), ('','', ''"title":"B"'')]
   \<and> list_all (\<lambda>c. \<not> structural c) '', ''
   \<and> balanced ''"title":"C"''
   \<and> repairTruncatedJsonArray
       (CHR ''['' # elementsText [([], firstElementBody), ('','', ''"title":"B"'')]
        @ take 9 ('', '' @ CHR ''{'' # ''"title":"C"''))
     = Inr ''[{"title":"A","assumptions":["x"]},{"title":"B"}]''
   \<and> CHR ''['' # elementsText [([], firstElementBody), ('','', ''"title":"B"'')]
        @ take 9 ('', '' @ CHR ''{'' # ''"title":"C"'')
     = ''[{"title":"A","assumptions":["x"]},{"title":"B"}, {"title''\<close>
proof -
  have title: "\<And>v. list_all (\<lambda>c. c \<noteq> CHR 0x22 \<and> c \<noteq> CHR 0x5C) v
      \<Longrightarrow> balanced (CHR 0x22 # ''title'' @ CHR 0x22 # CHR '':'' # CHR 0x22 # v @ CHR 0x22 # [])"
    by (intro balanced_string balanced_plain balanced_nil strBody_plain)
       (simp_all add: structural_def)
  have bB: \<open>balanced ''"title":"B"''\<close> using title [of "''B''"] by simp
  have bC: \<open>balanced ''"title":"C"''\<close> using title [of "''C''"] by simp
  have es: \<open>list_all wellFormedElement [([], firstElementBody), ('','', ''"title":"B"'')]\<close>
    using bB balanced_firstElementBody by (simp add: wellFormedElement_def structural_def)
  have ne: \<open>[([], firstElementBody), ('','', ''"title":"B"'')] \<noteq> []\<close> by simp
  have ws: "list_all (\<lambda>c. \<not> structural c) '', ''" by (simp add: structural_def)
  have shape: \<open>CHR ''['' # elementsText [([], firstElementBody), ('','', ''"title":"B"'')]
      = ''[{"title":"A","assumptions":["x"]},{"title":"B"}''\<close>
    by (simp add: elementsText_def elementText_def firstElementBody_def)
  show ?thesis
    using recovery_keeps_complete_elements [OF es ne ws bC, of 9] es ws bC
    by (simp add: shape) (simp add: elementsText_def elementText_def firstElementBody_def)
qed

section \<open>Properties of the model invocation\<close>

lemma callAnthropic_one:
  "\<exists>req params. callAnthropic k sys usr config n = ([req], sdkAnswer k req)
         \<and> allKeys (clientOptionsOf req) = [''apiKey'']
         \<and> argumentsOf req = [params]
         \<and> allKeys params
             = [''model'', ''max_tokens'', ''system'', ''messages'', ''role'', ''content'']"
  by (simp add: callAnthropic_def Let_def)

lemma callGemini_one:
  "\<exists>req params. callGemini k sys usr config n = ([req], sdkAnswer k req)
         \<and> (allKeys (clientOptionsOf req) = [''apiKey'']
              \<or> allKeys (clientOptionsOf req) = [''apiKey'', ''httpOptions'', ''baseUrl''])
         \<and> argumentsOf req = [params]
         \<and> allKeys params
             = [''model'', ''contents'', ''config'', ''systemInstruction'', ''maxOutputTokens'']"
  by (simp add: callGemini_def Let_def split: option.splits)

lemma callLLM_one:
  "\<exists>req params. callLLM k sys usr config n = ([req], sdkAnswer k req)
         \<and> allKeys (clientOptionsOf req)
             \<in> {[''apiKey''], [''apiKey'', ''httpOptions'', ''baseUrl'']}
         \<and> argumentsOf req = [params]
         \<and> allKeys params
             \<in> {[''model'', ''max_tokens'', ''system'', ''messages'', ''role'', ''content''],
                 [''model'', ''contents'', ''config'', ''systemInstruction'',
                  ''maxOutputTokens'']}"
proof (cases "provider config = Gemini")
  case True
  obtain req params where "callGemini k sys usr config n = ([req], sdkAnswer k req)"
    and "allKeys (clientOptionsOf req) = [''apiKey'']
         \<or> allKeys (clientOptionsOf req) = [''apiKey'', ''httpOptions'', ''baseUrl'']"
    and "argumentsOf req = [params]"
    and "allKeys params
         = [''model'', ''contents'', ''config'', ''systemInstruction'', ''maxOutputTokens'']"
    using callGemini_one by blast
  with True show ?thesis unfolding callLLM_def by (intro exI [of _ req] exI [of _ params]) auto
next
  case False
  obtain req params where "callAnthropic k sys usr config n = ([req], sdkAnswer k req)"
    and "allKeys (clientOptionsOf req) = [''apiKey'']"
    and "argumentsOf req = [params]"
    and "allKeys params
         = [''model'', ''max_tokens'', ''system'', ''messages'', ''role'', ''content'']"
    using callAnthropic_one by blast
  with False show ?thesis unfolding callLLM_def by (intro exI [of _ req] exI [of _ params]) auto
qed

lemma sdkAnswer_failing: "sdkAnswer (failingSdk e) req = Inl e"
  by (cases req) (simp_all add: failingSdk_def)

lemma callLLM_failing: "\<exists>req. callLLM (failingSdk e) sys usr config n = ([req], Inl e)"
  using callLLM_one [of "failingSdk e" sys usr config n] by (auto simp: sdkAnswer_failing)

text \<open>
  C9 (amended). Every model invocation of the pipeline is one request to the provider
  SDK. The options of the client hold, at every depth, the API key and nothing else,
  but for the base URL inside \<open>httpOptions\<close> when a Gemini endpoint is configured. The
  call has one argument, the parameters, whose keys at every depth are the model, the
  token limit and the two prompts: there is no second argument of request options, and
  no timeout, retry count or retry option anywhere in the request. The result of the
  call is what the code reads in the answer to that one request, so an error of the SDK
  is surfaced at once, without a retry. A threat generation sends no request without
  credentials and exactly one with them, and fails with the error of that request.
\<close>

theorem C9_one_request_no_retry:
  "(\<exists>req params. callLLM k sys usr config n = ([req], sdkAnswer k req)
          \<and> allKeys (clientOptionsOf req)
              \<in> {[''apiKey''], [''apiKey'', ''httpOptions'', ''baseUrl'']}
          \<and> argumentsOf req = [params]
          \<and> allKeys params
              \<in> {[''model'', ''max_tokens'', ''system'', ''messages'', ''role'', ''content''],
                  [''model'', ''contents'', ''config'', ''systemInstruction'',
                   ''maxOutputTokens'']})
   \<and> (\<exists>req. callLLM (failingSdk e) sys usr config n = ([req], Inl e))
   \<and> length (fst (generateThreats rt k pr settings analysis framework))
       = (if getLLMConfig settings = None then 0 else 1)
   \<and> length (fst (generateThreatsFromDocument rt k pr settings doc docName framework))
       = (if getLLMConfig settings = None then 0 else 1)
   \<and> (case getLLMConfig settings of
         None \<Rightarrow> True
       | Some config \<Rightarrow>
           snd (generateThreats rt (failingSdk e) pr settings analysis framework) = Inl e
           \<and> snd (generateThreatsFromDocument rt (failingSdk e) pr settings doc docName
                    framework) = Inl e)"
proof -
  have one: "\<And>k sys usr config n. length (fst (callLLM k sys usr config n)) = 1"
    using callLLM_one by (metis fst_conv length_Cons list.size(3) One_nat_def)
  have fail: "\<And>sys usr config n. snd (callLLM (failingSdk e) sys usr config n) = Inl e"
    using callLLM_failing by (metis snd_conv)
  have g1: "length (fst (generateThreats rt k pr settings analysis framework))
      = (if getLLMConfig settings = None then 0 else 1)"
    by (cases "getLLMConfig settings") (simp_all add: generateThreats_def Let_def one)
  have g2: "length (fst (generateThreatsFromDocument rt k pr settings doc docName framework))
      = (if getLLMConfig settings = None then 0 else 1)"
    by (cases "getLLMConfig settings")
       (simp_all add: generateThreatsFromDocument_def Let_def one)
  have g3: "case getLLMConfig settings of
         None \<Rightarrow> True
       | Some config \<Rightarrow>
           snd (generateThreats rt (failingSdk e) pr settings analysis framework) = Inl e
           \<and> snd (generateThreatsFromDocument rt (failingSdk e) pr settings doc docName
                    framework) = Inl e"
    by (cases "getLLMConfig settings")
       (simp_all add: generateThreats_def generateThreatsFromDocument_def Let_def fail)
  show ?thesis
    using callLLM_one [of k sys usr config n] callLLM_failing [of e sys usr config n] g1 g2 g3
    by blast
qed

text \<open>
  C9 as stated fails: the requests carry no timeout and no retry count. For Anthropic
  the client is made from the API key alone; for Gemini, with an endpoint configured,
  from the API key and the base URL; the call has the parameters as its one argument;
  and when the SDK reports a timeout, the invocation has made that one request and
  returns the error.
\<close>

theorem C9_no_timeout_counterexample:
  "callLLM (failingSdk timeoutError) ''system'' ''user'' anthropicConfig 16384
     = ([AnthropicMessagesCreate
           (JObject [(''apiKey'', JString ''sk-test'')])
           [JObject
              [(''model'', JString ''claude-sonnet-4-5-20250929''),
               (''max_tokens'', JNumber (Num 16384)),
               (''system'', JString ''system''),
               (''messages'',
                JArray [JObject [(''role'', JString ''user''),
                                 (''content'', JString ''user'')]])]]],
        Inl timeoutError)
   \<and> callLLM (failingSdk timeoutError) ''system'' ''user'' geminiConfig 16384
     = ([GeminiGenerateContent
           (JObject [(''apiKey'', JString ''g-test''),
                     (''httpOptions'',
                      JObject [(''baseUrl'', JString ''https://proxy.example'')])])
           [JObject
              [(''model'', JString ''gemini-2.5-flash''),
               (''contents'', JString ''user''),
               (''config'',
                JObject [(''systemInstruction'', JString ''system''),
                         (''maxOutputTokens'', JNumber (Num 16384))])]]],
        Inl timeoutError)"
  by (simp add: callLLM_def callAnthropic_def callGemini_def anthropicConfig_def
        geminiConfig_def failingSdk_def orElse_def Let_def)

section \<open>Properties of the orchestrator\<close>

lemma validateLikelihood_idem:
  "validateLikelihood (Some (fullLikelihood (validateLikelihood rl))) = validateLikelihood rl"
  by (cases rl)
     (simp_all add: validateLikelihood_def fullLikelihood_def nullish_def clamp_idem
        likelihoodDefaults_def clamp_Num)

lemma validateImpact_idem:
  "validateImpact (Some (fullImpact (validateImpact ri))) = validateImpact ri"
  by (cases ri)
     (simp_all add: validateImpact_def fullImpact_def nullish_def clamp_idem
        impactDefaults_def clamp_Num)

lemma calculateRiskRating_idem:
  "calculateRiskRating (Some (fullLikelihood (likelihood (calculateRiskRating rl ri))))
     (Some (fullImpact (impact (calculateRiskRating rl ri))))
   = calculateRiskRating rl ri"
proof -
  have l: "likelihood (calculateRiskRating rl ri) = validateLikelihood rl"
    and i: "impact (calculateRiskRating rl ri) = validateImpact ri"
    by (simp_all add: calculateRiskRating_def Let_def)
  show ?thesis
    unfolding l i
    by (simp add: calculateRiskRating_def [of "Some _" "Some _"]
          calculateRiskRating_def [of rl ri] validateLikelihood_idem validateImpact_idem)
qed

lemma in_severity_threatInput:
  "in_severity (threatInput fromRepo sid i gt) = surfaced (riskSeverity (ratingOf gt))"
  by (simp add: threatInput_def Let_def surfaced_def)

lemma in_owaspFactors_threatInput:
  "in_owaspFactors (threatInput fromRepo sid i gt)
     = (likelihood (ratingOf gt), impact (ratingOf gt))"
  by (simp add: threatInput_def Let_def)

lemma ratingOf_stored:
  "calculateRiskRating (Some (fullLikelihood (likelihood (ratingOf gt))))
     (Some (fullImpact (impact (ratingOf gt)))) = ratingOf gt"
  unfolding ratingOf_def by (rule calculateRiskRating_idem)

lemma threatInput_ignores_severity:
  "threatInput fromRepo sid i (gt\<lparr>severity := s\<rparr>) = threatInput fromRepo sid i gt"
  by (simp add: threatInput_def ratingOf_def Let_def)

lemma threats_persistMitigations:
  "threats (snd (persistMitigations fromRepo sid i j ms db)) = threats db"
  by (induction ms arbitrary: j db)
     (simp_all add: createMitigation_def split: sum.splits)

lemma persistThreats_rows:
  "\<exists>n. threats (snd (persistThreats fromRepo sid i gts db))
       = threats db
         @ map (\<lambda>(j, gt). threatRow (threatInput fromRepo sid j gt))
             (take n (zip [i..<i + length gts] gts))"
proof (induction gts arbitrary: i db)
  case Nil
  show ?case by simp
next
  case (Cons gt rest)
  let ?f = "\<lambda>(j, gt). threatRow (threatInput fromRepo sid j gt)"
  have "[i..<i + length (gt # rest)] = i # [Suc i..<Suc i + length rest]"
    by (subst upt_rec) (simp del: upt_Suc)
  then have z: "zip [i..<i + length (gt # rest)] (gt # rest)
      = (i, gt) # zip [Suc i..<Suc i + length rest] rest"
    by (simp del: upt_Suc)
  show ?case
  proof (cases "createThreat (threatInput fromRepo sid i gt) db")
    case (Inl e)
    then have "threats (snd (persistThreats fromRepo sid i (gt # rest) db))
        = threats db @ map ?f (take 0 (zip [i..<i + length (gt # rest)] (gt # rest)))"
      by simp
    then show ?thesis by blast
  next
    case (Inr db1)
    then have t1: "threats db1 = threats db @ [?f (i, gt)]"
      by (auto simp: createThreat_def split: if_splits)
    obtain err db2 where pm:
      "persistMitigations fromRepo sid i 0 (mitigations gt) db1 = (err, db2)"
      by (cases "persistMitigations fromRepo sid i 0 (mitigations gt) db1")
    have t2: "threats db2 = threats db1"
      using threats_persistMitigations [of fromRepo sid i 0 "mitigations gt" db1] pm by simp
    show ?thesis
    proof (cases err)
      case (Some e)
      then have "threats (snd (persistThreats fromRepo sid i (gt # rest) db))
          = threats db @ map ?f (take 1 (zip [i..<i + length (gt # rest)] (gt # rest)))"
        using Inr pm t1 t2 unfolding z by simp
      then show ?thesis by blast
    next
      case None
      obtain n where "threats (snd (persistThreats fromRepo sid (Suc i) rest db2))
          = threats db2 @ map ?f (take n (zip [Suc i..<Suc i + length rest] rest))"
        using Cons.IH by blast
      then have "threats (snd (persistThreats fromRepo sid i (gt # rest) db))
          = threats db @ map ?f (take (Suc n) (zip [i..<i + length (gt # rest)] (gt # rest)))"
        using Inr pm None t1 t2 unfolding z by simp
      then show ?thesis by blast
    qed
  qed
qed

lemma zip_rows_ok:
  "(\<And>j g. Q (f (j, g)) g)
     \<Longrightarrow> list_all (\<lambda>(r, g). Q r g) (zip (map f (take n (zip js gs))) gs)"
proof (induction gs arbitrary: n js)
  case Nil
  show ?case by simp
next
  case (Cons g gs)
  show ?case
  proof (cases js)
    case Nil
    then show ?thesis by simp
  next
    case (Cons j js')
    show ?thesis
    proof (cases n)
      case 0
      then show ?thesis by simp
    next
      case (Suc m)
      then show ?thesis
        using Cons.prems Cons.IH [of m js'] \<open>js = j # js'\<close> by simp
    qed
  qed
qed

lemma rows_all:
  "(\<And>j g. g \<in> set gs \<Longrightarrow> Q (f (j, g)))
     \<Longrightarrow> list_all Q (map f (take n (zip js gs)))"
  by (auto simp: list_all_iff dest!: in_set_takeD dest: set_zip_rightD)

lemma persistThreats_severity:
  "list_all (\<lambda>(row, gt). severityFromEngine row gt)
     (zip (newThreatRows db (snd (persistThreats fromRepo sid i gts db))) gts)
   \<and> length (newThreatRows db (snd (persistThreats fromRepo sid i gts db))) \<le> length gts"
proof -
  obtain n where n: "threats (snd (persistThreats fromRepo sid i gts db))
      = threats db
        @ map (\<lambda>(j, gt). threatRow (threatInput fromRepo sid j gt))
            (take n (zip [i..<i + length gts] gts))"
    using persistThreats_rows by blast
  have "\<And>j g. severityFromEngine (threatRow (threatInput fromRepo sid j g)) g"
    by (simp add: severityFromEngine_def threatRow_def in_severity_threatInput ratingOf_stored)
  then have "list_all (\<lambda>(row, gt). severityFromEngine row gt)
      (zip (map (\<lambda>(j, gt). threatRow (threatInput fromRepo sid j gt))
              (take n (zip [i..<i + length gts] gts))) gts)"
    by (intro zip_rows_ok) simp
  then show ?thesis by (simp add: newThreatRows_def n)
qed

lemma validateThreat_severity:
  "validateThreat rt raw = Some gt \<Longrightarrow> severity gt = surfaced (riskSeverity (ratingOf gt))"
  by (auto simp: validateThreat_def Let_def ratingOf_def calculateRiskRating_idem
        split: if_splits bind_splits)

lemma validateAll_severity:
  "list_all (\<lambda>gt. severity gt = surfaced (riskSeverity (ratingOf gt))) (validateAll rt parsed)"
  by (induction parsed)
     (auto simp: validateAll_def List.map_filter_def validateThreat_severity)

text \<open>
  C1. Every row that the orchestrator adds to the table of threats, on the repository
  path and on the design-document path, whichever generator produced the threats, holds
  the severity that the engine computes from the factors of the threat it was made from,
  with Note stored as Low; recomputing from the factors kept with the record gives the
  same severity. The rows are made from the generated threats in order, and the
  severity that came with a generated threat has no part in what is stored: changing it
  changes nothing, and on the model path it already is the engine's.
\<close>

theorem C1_stored_severity_from_engine:
  "list_all (\<lambda>(row, gt). severityFromEngine row gt)
     (zip (newThreatRows db (snd (persistThreats fromRepo sid i gts db))) gts)
   \<and> length (newThreatRows db (snd (persistThreats fromRepo sid i gts db))) \<le> length gts
   \<and> (case snd (generateThreats rt k pr settings analysis framework) of
         Inl e \<Rightarrow>
           newThreatRows db
             (snd (snd (analyzeGitHubRepo rt k pr settings sid analysis framework db))) = []
       | Inr generated \<Rightarrow>
           list_all (\<lambda>(row, gt). severityFromEngine row gt)
             (zip (newThreatRows db
                     (snd (snd (analyzeGitHubRepo rt k pr settings sid analysis framework db))))
                generated)
           \<and> length (newThreatRows db
                 (snd (snd (analyzeGitHubRepo rt k pr settings sid analysis framework db))))
               \<le> length generated)
   \<and> (case snd (generateThreatsFromDocument rt k pr settings doc docRef framework) of
         Inl e \<Rightarrow>
           newThreatRows db
             (snd (snd (analyzeDesignDoc rt k pr settings sid doc docRef framework others db)))
           = []
       | Inr generated \<Rightarrow>
           list_all (\<lambda>(row, gt). severityFromEngine row gt)
             (zip (newThreatRows db
                     (snd (snd (analyzeDesignDoc rt k pr settings sid doc docRef framework
                                  others db))))
                generated)
           \<and> length (newThreatRows db
                 (snd (snd (analyzeDesignDoc rt k pr settings sid doc docRef framework
                              others db))))
               \<le> length generated)
   \<and> threatInput fromRepo sid i (gt\<lparr>severity := s\<rparr>) = threatInput fromRepo sid i gt
   \<and> in_severity (threatInput fromRepo sid i gt)
       = surfaced (riskSeverity
           (calculateRiskRating (map_option fullLikelihood (owaspLikelihood gt))
              (map_option fullImpact (owaspImpact gt))))
   \<and> list_all (\<lambda>gt. severity gt = surfaced (riskSeverity (ratingOf gt)))
       (validateAll rt parsed)"
proof -
  have repo: "case snd (generateThreats rt k pr settings analysis framework) of
         Inl e \<Rightarrow>
           newThreatRows db
             (snd (snd (analyzeGitHubRepo rt k pr settings sid analysis framework db))) = []
       | Inr generated \<Rightarrow>
           list_all (\<lambda>(row, gt). severityFromEngine row gt)
             (zip (newThreatRows db
                     (snd (snd (analyzeGitHubRepo rt k pr settings sid analysis framework db))))
                generated)
           \<and> length (newThreatRows db
                 (snd (snd (analyzeGitHubRepo rt k pr settings sid analysis framework db))))
               \<le> length generated"
    by (cases "snd (generateThreats rt k pr settings analysis framework)")
       (simp_all add: analyzeGitHubRepo_def Let_def newThreatRows_def [of db db]
          persistThreats_severity)
  have doc: "case snd (generateThreatsFromDocument rt k pr settings doc docRef framework) of
         Inl e \<Rightarrow>
           newThreatRows db
             (snd (snd (analyzeDesignDoc rt k pr settings sid doc docRef framework others db)))
           = []
       | Inr generated \<Rightarrow>
           list_all (\<lambda>(row, gt). severityFromEngine row gt)
             (zip (newThreatRows db
                     (snd (snd (analyzeDesignDoc rt k pr settings sid doc docRef framework
                                  others db))))
                generated)
           \<and> length (newThreatRows db
                 (snd (snd (analyzeDesignDoc rt k pr settings sid doc docRef framework
                              others db))))
               \<le> length generated"
    by (cases "snd (generateThreatsFromDocument rt k pr settings doc docRef framework)";
        cases others)
       (simp_all add: analyzeDesignDoc_def Let_def newThreatRows_def [of db db]
          persistThreats_severity)
  have sev: "in_severity (threatInput fromRepo sid i gt)
       = surfaced (riskSeverity
           (calculateRiskRating (map_option fullLikelihood (owaspLikelihood gt))
              (map_option fullImpact (owaspImpact gt))))"
    by (simp add: in_severity_threatInput ratingOf_def)
  show ?thesis
    using persistThreats_severity [of db fromRepo sid i gts] repo doc sev
      threatInput_ignores_severity [of fromRepo sid i s gt] validateAll_severity [of rt parsed]
    by blast
qed

section \<open>Properties of the fallback path\<close>

lemma findingThreats_no_factors:
  "list_all (\<lambda>gt. owaspLikelihood gt = None \<and> owaspImpact gt = None) acc
     \<Longrightarrow> list_all (\<lambda>gt. owaspLikelihood gt = None \<and> owaspImpact gt = None)
           (findingThreats analysis fs acc)"
  by (induction fs arbitrary: acc) (simp_all add: findingThreat_def Let_def)

lemma archLoop_no_factors:
  "list_all (\<lambda>gt. owaspLikelihood gt = None \<and> owaspImpact gt = None) acc
     \<Longrightarrow> list_all (\<lambda>gt. owaspLikelihood gt = None \<and> owaspImpact gt = None)
           (archLoop analysis as acc)"
  by (induction as arbitrary: acc) (simp_all add: archThreat_def Let_def)

lemma demo_no_factors:
  "list_all (\<lambda>gt. owaspLikelihood gt = None \<and> owaspImpact gt = None)
     (generateDemoThreats analysis)"
  unfolding generateDemoThreats_def Let_def
  by (intro archLoop_no_factors findingThreats_no_factors) simp

lemma demo_doc_no_factors:
  "list_all (\<lambda>gt. owaspLikelihood gt = None \<and> owaspImpact gt = None)
     (generateDemoThreatsFromDoc docName)"
  by (simp add: generateDemoThreatsFromDoc_def docThreat_def)

lemma default_rating:
  "likelihoodFactors (likelihood (calculateRiskRating None None)) = replicate 8 (Num 5)"
  "impactFactors (impact (calculateRiskRating None None)) = replicate 4 (Num 5)"
  "likelihoodLevel (calculateRiskRating None None) = MEDIUM"
  "impactLevel (calculateRiskRating None None) = MEDIUM"
  "riskSeverity (calculateRiskRating None None) = Medium"
  by (simp_all add: calculateRiskRating_def Let_def validateLikelihood_def validateImpact_def
        likelihoodDefaults_def impactDefaults_def likelihoodFactors_def impactFactors_def
        likelihoodMean_def impactMean_def getLevel_def getRiskSeverity_def numeral_eq_Suc)

lemma fallback_rows_medium:
  assumes "list_all (\<lambda>gt. owaspLikelihood gt = None \<and> owaspImpact gt = None) gts"
  shows "list_all (\<lambda>row. row_severity row = Medium)
           (newThreatRows db (snd (persistThreats fromRepo sid i gts db)))"
proof -
  obtain n where n: "threats (snd (persistThreats fromRepo sid i gts db))
      = threats db
        @ map (\<lambda>(j, gt). threatRow (threatInput fromRepo sid j gt))
            (take n (zip [i..<i + length gts] gts))"
    using persistThreats_rows by blast
  have "\<And>j g. g \<in> set gts
      \<Longrightarrow> row_severity ((\<lambda>(j, gt). threatRow (threatInput fromRepo sid j gt)) (j, g)) = Medium"
    using assms
    by (auto simp: list_all_iff threatRow_def in_severity_threatInput ratingOf_def
          default_rating surfaced_def)
  then have "list_all (\<lambda>row. row_severity row = Medium)
      (map (\<lambda>(j, gt). threatRow (threatInput fromRepo sid j gt))
         (take n (zip [i..<i + length gts] gts)))"
    by (rule rows_all)
  then show ?thesis by (simp add: newThreatRows_def n)
qed

text \<open>
  C10. Without credentials, every row that the orchestrator adds to the table of threats
  has the severity Medium, on the repository path and on the design-document path: the
  fallback generators attach no factor estimates, so the engine takes 5 for all 12
  sub-factors, which gives the levels MEDIUM and MEDIUM and the severity Medium, whatever
  severity the fallback generator wrote on the threat.
\<close>

theorem C10_fallback_severity_medium:
  assumes "getLLMConfig settings = None"
  shows "list_all (\<lambda>row. row_severity row = Medium)
           (newThreatRows db
              (snd (snd (analyzeGitHubRepo rt k pr settings sid analysis framework db))))
       \<and> list_all (\<lambda>row. row_severity row = Medium)
           (newThreatRows db
              (snd (snd (analyzeDesignDoc rt k pr settings sid doc docRef framework others db))))
       \<and> list_all (\<lambda>gt. owaspLikelihood gt = None \<and> owaspImpact gt = None)
           (generateDemoThreats analysis @ generateDemoThreatsFromDoc docRef)
       \<and> likelihoodFactors (likelihood (calculateRiskRating None None)) = replicate 8 (Num 5)
       \<and> impactFactors (impact (calculateRiskRating None None)) = replicate 4 (Num 5)
       \<and> likelihoodLevel (calculateRiskRating None None) = MEDIUM
       \<and> impactLevel (calculateRiskRating None None) = MEDIUM
       \<and> riskSeverity (calculateRiskRating None None) = Medium"
proof -
  have repo: "list_all (\<lambda>row. row_severity row = Medium)
      (newThreatRows db
         (snd (snd (analyzeGitHubRepo rt k pr settings sid analysis framework db))))"
    using assms fallback_rows_medium [OF demo_no_factors]
    by (simp add: analyzeGitHubRepo_def generateThreats_def Let_def)
  have doc: "list_all (\<lambda>row. row_severity row = Medium)
      (newThreatRows db
         (snd (snd (analyzeDesignDoc rt k pr settings sid doc docRef framework others db))))"
    using assms fallback_rows_medium [OF demo_doc_no_factors]
    by (cases others)
       (simp_all add: analyzeDesignDoc_def generateThreatsFromDocument_def Let_def
          newThreatRows_def [of db db])
  show ?thesis
    using repo doc demo_no_factors [of analysis] demo_doc_no_factors [of docRef]
    by (simp add: default_rating)
qed

theorem C10_fallback_severity_medium_witness:
  "getLLMConfig noCredentials = None
   \<and> list_all (\<lambda>row. row_severity row = Medium)
       (newThreatRows emptyDatabase
          (snd (snd (analyzeGitHubRepo rtExample (failingSdk timeoutError) noPrompts
                       noCredentials ''sess-42'' analysisExample STRIDE emptyDatabase))))
   \<and> map row_severity
       (newThreatRows emptyDatabase
          (snd (snd (analyzeGitHubRepo rtExample (failingSdk timeoutError) noPrompts
                       noCredentials ''sess-42'' analysisExample STRIDE emptyDatabase))))
     = [Medium, Medium, Medium, Medium, Medium, Medium, Medium]
   \<and> map severity (generateDemoThreats analysisExample)
     = [Medium, High, High, Medium, Medium, High, Critical]
   \<and> map row_severity
       (newThreatRows emptyDatabase
          (snd (snd (analyzeDesignDoc rtExample (failingSdk timeoutError) noPrompts
                       noCredentials ''sess-42'' ''text'' ''design.md'' STRIDE None
                       emptyDatabase))))
     = [Medium, Medium, Medium, Medium, Medium, Medium]
   \<and> map severity (generateDemoThreatsFromDoc ''design.md'')
     = [High, High, Medium, Critical, High, Critical]"
proof -
  have h: "getLLMConfig noCredentials = None"
    by (simp add: getLLMConfig_def noCredentials_def orElse_def)
  have a: "map row_severity
       (newThreatRows emptyDatabase
          (snd (snd (analyzeGitHubRepo rtExample (failingSdk timeoutError) noPrompts
                       noCredentials ''sess-42'' analysisExample STRIDE emptyDatabase))))
     = [Medium, Medium, Medium, Medium, Medium, Medium, Medium]"
    by code_simp
  have b: "map severity (generateDemoThreats analysisExample)
     = [Medium, High, High, Medium, Medium, High, Critical]"
    by code_simp
  have c: "map row_severity
       (newThreatRows emptyDatabase
          (snd (snd (analyzeDesignDoc rtExample (failingSdk timeoutError) noPrompts
                       noCredentials ''sess-42'' ''text'' ''design.md'' STRIDE None
                       emptyDatabase))))
     = [Medium, Medium, Medium, Medium, Medium, Medium]"
    by code_simp
  have d: "map severity (generateDemoThreatsFromDoc ''design.md'')
     = [High, High, Medium, Critical, High, Critical]"
    by code_simp
  show ?thesis
    using C10_fallback_severity_medium [OF h, of emptyDatabase rtExample
        "failingSdk timeoutError" noPrompts "''sess-42''" analysisExample STRIDE]
      h a b c d
    by simp
qed

end
